theory Spec2Isabelle
  imports Main
begin

section \<open>Values, errors and the external world\<close>

text \<open>
  The agent orchestration core of \<^verbatim>\<open>src/index.js\<close> (functions \<^verbatim>\<open>writeToFile\<close>,
  \<^verbatim>\<open>readProjectFiles\<close>, \<^verbatim>\<open>extractResponseText\<close>, \<^verbatim>\<open>retryWithBackoff\<close>,
  \<^verbatim>\<open>runAgent\<close>, \<^verbatim>\<open>extractProjectName\<close> and the \<^verbatim>\<open>/api/chat\<close> handler), embedded
  as HOL functions. Strings are byte strings; the few non-ASCII characters of the
  source's message templates are written as their UTF-8 bytes.

  Arguments chosen by the language model and results of tool handlers are JSON values.
  Numbers are restricted to integers.

  \<^verbatim>\<open>src/unnamed/part_001\<close> holds an earlier copy of the same functions. Its handlers
  take no \<^verbatim>\<open>userId\<close>, its \<^verbatim>\<open>extractResponseText\<close> and \<^verbatim>\<open>runAgent\<close> have no branch
  for a malformed function call, and its retried operation calls a second backend model
  after a 503 of the first; the rest is the same text. What the retried operation
  does inside is left to the environment here, so that difference is covered.
\<close>

datatype json =
  JUndefined
| JNull
| JBool bool
| JNum int
| JStr string
| JArr "json list"
| JObj "(string \<times> json) list"

text \<open>
  A thrown JavaScript value. The code only ever inspects \<^verbatim>\<open>error.message\<close>, which may
  be absent (\<open>None\<close>).
\<close>

record js_error =
  message :: "string option"

text \<open>An awaited call either returns a value or throws.\<close>

datatype 'a outcome = Returns 'a | Throws js_error

definition Error :: "string \<Rightarrow> js_error" where
  "Error m = \<lparr>message = Some m\<rparr>"

text \<open>
  Ghost events, recorded by the model at the call sites of the source, so that "is
  invoked" and "sleeps" can be stated:
  \<open>FnInvoked\<close> at \<^verbatim>\<open>await fn()\<close> in \<^verbatim>\<open>retryWithBackoff\<close>, \<open>Slept d\<close> at its
  \<^verbatim>\<open>setTimeout(resolve, delay)\<close>, \<open>ToolInvoked n\<close> at \<^verbatim>\<open>funCall(args, ...)\<close> in
  \<^verbatim>\<open>runAgent\<close>, \<open>SaveFileCalled p f\<close> at \<^verbatim>\<open>storage.saveFile(projectName, fileName, ...)\<close>
  in \<^verbatim>\<open>writeToFile\<close>.
\<close>

datatype event =
  FnInvoked
| Slept nat
| ToolInvoked string
| SaveFileCalled string string

subsection \<open>JavaScript string helpers\<close>

text \<open>\<^verbatim>\<open>s.startsWith(p)\<close> and \<^verbatim>\<open>s.includes(p)\<close>.\<close>

fun startsWith :: "string \<Rightarrow> string \<Rightarrow> bool" where
  "startsWith s [] = True"
| "startsWith [] (p # ps) = False"
| "startsWith (c # cs) (p # ps) = (c = p \<and> startsWith cs ps)"

fun includes_str :: "string \<Rightarrow> string \<Rightarrow> bool" where
  "includes_str [] p = (p = [])"
| "includes_str (c # cs) p = (startsWith (c # cs) p \<or> includes_str cs p)"

text \<open>Truthiness of an optional string: \<^verbatim>\<open>undefined\<close> and \<^verbatim>\<open>''\<close> are falsy.\<close>

fun truthy :: "string option \<Rightarrow> bool" where
  "truthy None = False"
| "truthy (Some s) = (s \<noteq> [])"

text \<open>\<^verbatim>\<open>`${x}`\<close> for an optional string: \<^verbatim>\<open>undefined\<close> prints as such.\<close>

fun show_undefined :: "string option \<Rightarrow> string" where
  "show_undefined None = ''undefined''"
| "show_undefined (Some s) = s"

text \<open>\<^verbatim>\<open>`${x}`\<close> for a string that may be \<^verbatim>\<open>null\<close> (\<^verbatim>\<open>projectName\<close>, \<^verbatim>\<open>userId\<close>).\<close>

fun show_null :: "string option \<Rightarrow> string" where
  "show_null None = ''null''"
| "show_null (Some s) = s"

subsection \<open>The external collaborators and the process state\<close>

text \<open>
  Everything outside the process (the model backend, the storage bucket, the clock)
  is a world of an arbitrary type \<open>'w\<close>; each external call is a function of the world
  returning an outcome and the next world, so any behaviour of a collaborator,
  including one that changes from call to call, is some environment.
  \<^item> \<open>generateContent contents isUpdate projectName\<close>: \<^verbatim>\<open>ai.models.generateContent\<close> of \<^verbatim>\<open>runAgent\<close>;
    of its request only \<^verbatim>\<open>contents\<close> and the system instruction, built from \<^verbatim>\<open>isUpdate\<close>
    and \<^verbatim>\<open>projectName\<close>, vary.
  \<^item> \<open>storageLoaded\<close>: \<^verbatim>\<open>storage && storageReady\<close>.
  \<^item> \<open>saveFile\<close>, \<open>readAllProjectFiles\<close>, \<open>listProjects_storage\<close>: the methods of
    \<^verbatim>\<open>storage\<close>. A call on a storage that was never loaded is a thrown \<^verbatim>\<open>TypeError\<close>,
    which an environment is free to produce.
  \<^item> \<open>sleep ms\<close>: \<^verbatim>\<open>await new Promise(resolve => setTimeout(resolve, ms))\<close>.
  \<^item> \<open>otherTool name args userId\<close>: the members of \<^verbatim>\<open>availableTools\<close> that reach
    shell, deployment and translation services (\<^verbatim>\<open>executeCommand\<close>, \<^verbatim>\<open>updateProjectFiles\<close>,
    \<^verbatim>\<open>deployProject\<close>, \<^verbatim>\<open>translateContent\<close>), and for any other name whatever
    \<^verbatim>\<open>availableTools[name](args)\<close> does (a \<^verbatim>\<open>TypeError\<close> for a name that is no member).
\<close>

text \<open>
  The entries of a conversation history, as \<^verbatim>\<open>runAgent\<close> builds them:
  \<^verbatim>\<open>{ role, parts: [{ text }] }\<close>, \<^verbatim>\<open>{ role: "model", parts: [{ functionCall }] }\<close> and
  \<^verbatim>\<open>{ role: "user", parts: [{ functionResponse: { name, response: { result } } }] }\<close>.
  A text may be \<^verbatim>\<open>undefined\<close> (\<open>None\<close>), which is what \<^verbatim>\<open>extractResponseText\<close> can return.
\<close>

datatype function_call = FunctionCall (fc_name: string) (fc_args: json)

datatype role = User | Model

datatype part =
  TextPart "string option"
| FunctionCallPart function_call
| FunctionResponsePart string json

record turn =
  role :: role
  parts :: "part list"

text \<open>
  A backend response, with the fields the code reads: \<^verbatim>\<open>response.text\<close>,
  \<^verbatim>\<open>response.candidates\<close> (each with \<^verbatim>\<open>finishReason\<close>, \<^verbatim>\<open>content.parts[i].text\<close> and
  \<^verbatim>\<open>text\<close>) and \<^verbatim>\<open>response.functionCalls\<close>. An absent field is \<open>None\<close>.
\<close>

record cand_part =
  part_text :: "string option"

record cand_content =
  content_parts :: "cand_part list option"

record candidate =
  finishReason :: "string option"
  content :: "cand_content option"
  cand_text :: "string option"

record response =
  resp_text :: "string option"
  candidates :: "candidate list option"
  functionCalls :: "function_call list option"

record 'w env =
  generateContent :: "turn list \<Rightarrow> bool \<Rightarrow> string option \<Rightarrow> 'w \<Rightarrow> response outcome \<times> 'w"
  storageLoaded :: "'w \<Rightarrow> bool"
  saveFile :: "string \<Rightarrow> string \<Rightarrow> json \<Rightarrow> string option \<Rightarrow> 'w \<Rightarrow> unit outcome \<times> 'w"
  readAllProjectFiles :: "json \<Rightarrow> string option \<Rightarrow> 'w \<Rightarrow> (string \<times> string) list outcome \<times> 'w"
  listProjects_storage :: "'w \<Rightarrow> json outcome \<times> 'w"
  sleep :: "nat \<Rightarrow> 'w \<Rightarrow> 'w"
  otherTool :: "string \<Rightarrow> json \<Rightarrow> string option \<Rightarrow> 'w \<Rightarrow> json outcome \<times> 'w"

text \<open>
  The state of the process: the world, the module-level \<^verbatim>\<open>ProjectHistory\<close> map
  (keyed by \<^verbatim>\<open>projectName\<close>, which may be \<^verbatim>\<open>null\<close>), and the ghost trace.
\<close>

record 'w sys =
  world :: 'w
  ProjectHistory :: "string option \<rightharpoonup> turn list"
  trace :: "event list"

definition log_event :: "event \<Rightarrow> 'w sys \<Rightarrow> 'w sys" where
  "log_event ev st = st\<lparr>trace := trace st @ [ev]\<rparr>"

text \<open>An external call, run on the world of a process state.\<close>

definition ext :: "('w \<Rightarrow> 'a \<times> 'w) \<Rightarrow> 'w sys \<Rightarrow> 'a \<times> 'w sys" where
  "ext f st = (case f (world st) of (r, w') \<Rightarrow> (r, st\<lparr>world := w'\<rparr>))"

definition do_sleep :: "'w env \<Rightarrow> nat \<Rightarrow> 'w sys \<Rightarrow> 'w sys" where
  "do_sleep env ms st = log_event (Slept ms) (st\<lparr>world := sleep env ms (world st)\<rparr>)"

section \<open>retryWithBackoff\<close>

text \<open>
  \<^verbatim>\<open>error.message && error.message.includes('503')\<close>.
\<close>

definition is_503 :: "js_error \<Rightarrow> bool" where
  "is_503 e = (truthy (message e) \<and> includes_str (show_undefined (message e)) ''503'')"

text \<open>
  \<^verbatim>\<open>for (let attempt = 1; attempt <= maxRetries; attempt++) { try { return await fn(); }
  catch (error) { if (attempt === maxRetries) throw error;
  if (error.message && error.message.includes('503')) { delay = baseDelay * 2^(attempt - 1); sleep }
  else throw error; } }\<close>
  The loop from a given \<open>attempt\<close>. When it ends without an attempt (\<open>maxRetries < attempt\<close>)
  the function returns \<^verbatim>\<open>undefined\<close>, here \<open>Returns None\<close>.
\<close>

function retry_from ::
  "'w env \<Rightarrow> ('w \<Rightarrow> 'a outcome \<times> 'w) \<Rightarrow> nat \<Rightarrow> nat \<Rightarrow> nat \<Rightarrow> 'w sys \<Rightarrow> 'a option outcome \<times> 'w sys"
where
  "retry_from env fn maxRetries baseDelay attempt st =
     (if attempt \<le> maxRetries then
        (case ext fn (log_event FnInvoked st) of
           (Returns v, st1) \<Rightarrow> (Returns (Some v), st1)
         | (Throws error, st1) \<Rightarrow>
             if attempt = maxRetries then (Throws error, st1)
             else if is_503 error then
               retry_from env fn maxRetries baseDelay (attempt + 1)
                 (do_sleep env (baseDelay * 2 ^ (attempt - 1)) st1)
             else (Throws error, st1))
      else (Returns None, st))"
  by pat_completeness auto
termination
  by (relation "measure (\<lambda>(env, fn, maxRetries, baseDelay, attempt, st). Suc maxRetries - attempt)") auto

definition retryWithBackoff ::
  "'w env \<Rightarrow> ('w \<Rightarrow> 'a outcome \<times> 'w) \<Rightarrow> nat \<Rightarrow> nat \<Rightarrow> 'w sys \<Rightarrow> 'a option outcome \<times> 'w sys"
where
  "retryWithBackoff env fn maxRetries baseDelay st = retry_from env fn maxRetries baseDelay 1 st"

section \<open>extractResponseText\<close>

text \<open>
  The branches in the source's order. \<^verbatim>\<open>response.candidates[0]\<close> and
  \<^verbatim>\<open>candidate.content.parts[0]\<close> are objects when present, hence truthy; the last
  \<^verbatim>\<open>else\<close> retries \<^verbatim>\<open>candidate.content?.parts?.[0]?.text\<close> before it throws.
\<close>

definition first_part :: "candidate \<Rightarrow> cand_part option" where
  "first_part c =
     (case content c of
        None \<Rightarrow> None
      | Some ct \<Rightarrow> (case content_parts ct of None \<Rightarrow> None | Some [] \<Rightarrow> None | Some (p # _) \<Rightarrow> Some p))"

definition extractResponseText :: "response \<Rightarrow> string option outcome" where
  "extractResponseText r =
     (if truthy (resp_text r) then Returns (resp_text r)
      else case candidates r of
        Some (c # _) \<Rightarrow>
          if finishReason c = Some ''MALFORMED_FUNCTION_CALL'' then
            Throws (Error ''AI made a malformed function call. Please try again with a simpler description.'')
          else (case first_part c of
            Some p \<Rightarrow> Returns (part_text p)
          | None \<Rightarrow>
              if truthy (cand_text c) then Returns (cand_text c)
              else if (case content c of None \<Rightarrow> False | Some ct \<Rightarrow> content_parts ct = None) then Returns (Some [])
              else (case first_part c of
                      Some p \<Rightarrow> if truthy (part_text p) then Returns (part_text p)
                               else Throws (Error ''Unexpected candidate structure from AI'')
                    | None \<Rightarrow> Throws (Error ''Unexpected candidate structure from AI'')))
      | _ \<Rightarrow> Throws (Error ''Unexpected response format from AI''))"

section \<open>JSON values as JavaScript sees them\<close>

text \<open>
  Truthiness, and the string conversion of a template literal \<^verbatim>\<open>`${v}`\<close>. Numbers are
  the integers, printed with all their digits: this is what JavaScript prints for those
  below \<^verbatim>\<open>1e21\<close> in absolute value; the larger ones, which it prints with an exponent,
  are outside the model.
\<close>

fun js_truthy :: "json \<Rightarrow> bool" where
  "js_truthy JUndefined = False"
| "js_truthy JNull = False"
| "js_truthy (JBool b) = b"
| "js_truthy (JNum n) = (n \<noteq> 0)"
| "js_truthy (JStr s) = (s \<noteq> [])"
| "js_truthy (JArr xs) = True"
| "js_truthy (JObj kvs) = True"

function show_nat :: "nat \<Rightarrow> string" where
  "show_nat n =
     (if n < 10 then [char_of (48 + n)] else show_nat (n div 10) @ [char_of (48 + n mod 10)])"
  by pat_completeness auto
termination
  by (relation "measure (\<lambda>n. n)") auto

definition show_int :: "int \<Rightarrow> string" where
  "show_int i = (if i < 0 then CHR ''-'' # show_nat (nat (- i)) else show_nat (nat i))"

fun join_with :: "string \<Rightarrow> string list \<Rightarrow> string" where
  "join_with sep [] = []"
| "join_with sep [x] = x"
| "join_with sep (x # y # ys) = x @ sep @ join_with sep (y # ys)"

fun js_string :: "json \<Rightarrow> string" where
  "js_string JUndefined = ''undefined''"
| "js_string JNull = ''null''"
| "js_string (JBool b) = (if b then ''true'' else ''false'')"
| "js_string (JNum n) = show_int n"
| "js_string (JStr s) = s"
| "js_string (JArr xs) =
     join_with '','' (map (\<lambda>x. if x = JUndefined \<or> x = JNull then [] else js_string x) xs)"
| "js_string (JObj kvs) = ''[object Object]''"

text \<open>
  \<^verbatim>\<open>v.key\<close> for the keys the code reads (\<^verbatim>\<open>filePath\<close>, \<^verbatim>\<open>content\<close>, \<^verbatim>\<open>projectName\<close>,
  \<^verbatim>\<open>error\<close> and the three file names), none of which is a member of an array or of a
  primitive. Reading a property of \<^verbatim>\<open>undefined\<close> or \<^verbatim>\<open>null\<close> throws; the callers
  check for that first.
\<close>

fun get_prop :: "json \<Rightarrow> string \<Rightarrow> json" where
  "get_prop (JObj kvs) k = (case map_of kvs k of None \<Rightarrow> JUndefined | Some v \<Rightarrow> v)"
| "get_prop v k = JUndefined"

definition nullish :: "json \<Rightarrow> bool" where
  "nullish v = (v = JUndefined \<or> v = JNull)"

section \<open>Tool handlers\<close>

subsection \<open>writeToFile\<close>

text \<open>
  \<^verbatim>\<open>for (let i = 0; i < 50; i++) { await sleep(100); if (storage && storageReady) break; }\<close>,
  with the number of polls left.
\<close>

fun wait_storage :: "'w env \<Rightarrow> nat \<Rightarrow> 'w \<Rightarrow> 'w" where
  "wait_storage env 0 w = w"
| "wait_storage env (Suc k) w =
     (let w1 = sleep env 100 w in if storageLoaded env w1 then w1 else wait_storage env k w1)"

text \<open>\<^verbatim>\<open>filePath.split(/[\\/]/)\<close>: the segments between slashes and backslashes.\<close>

fun split_path :: "string \<Rightarrow> string list" where
  "split_path [] = [[]]"
| "split_path (c # cs) =
     (if c = CHR ''/'' \<or> c = CHR 0x5C then [] # split_path cs
      else (case split_path cs of [] \<Rightarrow> [[c]] | seg # segs \<Rightarrow> (c # seg) # segs))"

text \<open>\<^verbatim>\<open>Array.prototype.findIndex\<close>: the first index that satisfies, or -1.\<close>

fun findIndex :: "('a \<Rightarrow> bool) \<Rightarrow> 'a list \<Rightarrow> int" where
  "findIndex P [] = - 1"
| "findIndex P (x # xs) =
     (if P x then 0 else (let i = findIndex P xs in if i = - 1 then - 1 else i + 1))"

text \<open>The message of the \<^verbatim>\<open>TypeError\<close> that \<^verbatim>\<open>filePath.split(...)\<close> throws on a non-string.\<close>

definition split_type_error :: "json \<Rightarrow> string" where
  "split_type_error v =
     (if v = JUndefined then ''Cannot read properties of undefined (reading 'split')''
      else if v = JNull then ''Cannot read properties of null (reading 'split')''
      else ''filePath.split is not a function'')"

text \<open>
  The parameter pattern \<^verbatim>\<open>{ filePath, content }\<close> is bound before the \<^verbatim>\<open>try\<close>, so
  a \<^verbatim>\<open>null\<close> or \<^verbatim>\<open>undefined\<close> argument throws out of the handler; everything after is
  inside the \<^verbatim>\<open>try\<close>, whose \<^verbatim>\<open>catch\<close> returns \<^verbatim>\<open>`Error: ${error.message}`\<close>.
\<close>

text \<open>
  \<^verbatim>\<open>if (!storage || !storageReady) { poll up to 50 times }\<close>: the state when the
  handler goes on to look at the storage again.
\<close>

definition storage_waited :: "'w env \<Rightarrow> 'w sys \<Rightarrow> 'w sys" where
  "storage_waited env st =
     (if storageLoaded env (world st) then st else st\<lparr>world := wait_storage env 50 (world st)\<rparr>)"

definition writeToFile :: "'w env \<Rightarrow> json \<Rightarrow> string option \<Rightarrow> 'w sys \<Rightarrow> json outcome \<times> 'w sys" where
  "writeToFile env args userId st =
     (if nullish args then
        (Throws (Error (if args = JNull
                        then ''Cannot destructure property 'filePath' of 'object null' as it is null.''
                        else ''Cannot destructure property 'filePath' of 'undefined' as it is undefined.'')), st)
      else
        let filePath = get_prop args ''filePath'';
            content = get_prop args ''content'';
            st1 = storage_waited env st
        in
          if \<not> storageLoaded env (world st1) then
            (Returns (JStr (''Error: '' @ ''Storage service not initialized. Please restart the server.'')), st1)
          else (case filePath of
            JStr fp \<Rightarrow>
              let pathParts = split_path fp;
                  projectsIndex = findIndex (\<lambda>part. part = ''projects'') pathParts
              in
                if projectsIndex = - 1 \<or> projectsIndex \<ge> int (length pathParts) - 2 then
                  (Returns (JStr (''Error: '' @ ''Invalid file path. Expected format: projects/projectName/fileName'')), st1)
                else
                  let projectName = pathParts ! nat (projectsIndex + 1);
                      fileName = pathParts ! nat (projectsIndex + 2)
                  in (case ext (saveFile env projectName fileName content userId)
                             (log_event (SaveFileCalled projectName fileName) st1) of
                        (Throws error, st2) \<Rightarrow>
                          (Returns (JStr (''Error: '' @ show_undefined (message error))), st2)
                      | (Returns result, st2) \<Rightarrow>
                          (Returns (JStr (''Success: Content written to '' @ fileName @ '' in project '' @ projectName)), st2))
          | _ \<Rightarrow> (Returns (JStr (''Error: '' @ split_type_error filePath)), st1)))"

subsection \<open>listProjects and readProjectFiles\<close>

definition listProjects :: "'w env \<Rightarrow> 'w sys \<Rightarrow> json outcome \<times> 'w sys" where
  "listProjects env st =
     (case ext (listProjects_storage env) st of
        (Returns projects, st1) \<Rightarrow> (Returns projects, st1)
      | (Throws error, st1) \<Rightarrow> (Returns (JStr (''Error: '' @ show_undefined (message error))), st1))"

text \<open>The files object \<^verbatim>\<open>{ fileName: content, ... }\<close> that the storage returns.\<close>

definition files_object :: "(string \<times> string) list \<Rightarrow> json" where
  "files_object files = JObj (map (\<lambda>(k, v). (k, JStr v)) files)"

definition readProjectFiles :: "'w env \<Rightarrow> json \<Rightarrow> string option \<Rightarrow> 'w sys \<Rightarrow> json outcome \<times> 'w sys" where
  "readProjectFiles env args userId st =
     (if nullish args then
        (Throws (Error (if args = JNull
                        then ''Cannot destructure property 'projectName' of 'object null' as it is null.''
                        else ''Cannot destructure property 'projectName' of 'undefined' as it is undefined.'')), st)
      else
        let projectName = get_prop args ''projectName'' in
        (case ext (readAllProjectFiles env projectName userId) st of
           (Returns files, st1) \<Rightarrow>
             if length files = 0 then
               (Returns (JStr (''Error: Project '' @ js_string projectName @ '' not found or has no files'')), st1)
             else (Returns (files_object files), st1)
         | (Throws error, st1) \<Rightarrow> (Returns (JStr (''Error: '' @ show_undefined (message error))), st1)))"

subsection \<open>availableTools\<close>

text \<open>
  \<^verbatim>\<open>const funCall = availableTools[name]\<close> and the call
  \<^verbatim>\<open>name === 'writeToFile' || name === 'readProjectFiles' || name === 'updateProjectFiles' ||
  name === 'deployProject' ? funCall(args, userId) : funCall(args)\<close>.
\<close>

definition call_tool :: "'w env \<Rightarrow> string \<Rightarrow> json \<Rightarrow> string option \<Rightarrow> 'w sys \<Rightarrow> json outcome \<times> 'w sys" where
  "call_tool env nm args userId st =
     (let st1 = log_event (ToolInvoked nm) st in
      if nm = ''writeToFile'' then writeToFile env args userId st1
      else if nm = ''readProjectFiles'' then readProjectFiles env args userId st1
      else if nm = ''listProjects'' then listProjects env st1
      else if nm = ''updateProjectFiles'' \<or> nm = ''deployProject'' then ext (otherTool env nm args userId) st1
      else ext (otherTool env nm args None) st1)"

section \<open>runAgent\<close>

subsection \<open>Message templates\<close>

text \<open>The line feed, the double quote and the UTF-8 bytes of U+1F6A8 that open the messages.\<close>

definition nl :: string where
  "nl = [CHR 0x0A]"

definition dq :: string where
  "dq = [CHR 0x22]"

definition siren :: string where
  "siren = [CHR 0xF0, CHR 0x9F, CHR 0x9A, CHR 0xA8]"

definition user_text :: "string \<Rightarrow> turn" where
  "user_text t = \<lparr>role = User, parts = [TextPart (Some t)]\<rparr>"

definition present_or_missing :: "json \<Rightarrow> string" where
  "present_or_missing v = (if js_truthy v then ''Present'' else ''Missing'')"

definition update_context_message :: "string option \<Rightarrow> json \<Rightarrow> string" where
  "update_context_message projectName existingFiles =
     siren @ '' UPDATE CONTEXT: I want to update the existing project '' @ dq @ show_null projectName @ dq
     @ ''. Here are the current files:'' @ nl @ nl
     @ ''HTML: '' @ present_or_missing (get_prop existingFiles ''index.html'') @ nl
     @ ''CSS: '' @ present_or_missing (get_prop existingFiles ''style.css'') @ nl
     @ ''JavaScript: '' @ present_or_missing (get_prop existingFiles ''script.js'') @ nl @ nl
     @ ''IMPORTANT: You MUST use the updateProjectFiles tool to modify these existing files. DO NOT use writeToFile. Make ONLY the requested changes while preserving everything else.''"

definition current_css_message :: "json \<Rightarrow> string" where
  "current_css_message existingFiles =
     ''CURRENT CSS CONTENT:'' @ nl @ js_string (get_prop existingFiles ''style.css'') @ nl @ nl
     @ ''Please analyze this CSS and make ONLY the requested changes (like color changes from red to black) while keeping everything else exactly the same.''"

definition malformed_message :: "string option \<Rightarrow> string" where
  "malformed_message projectName =
     siren @ '' ERROR: Your last function call was malformed. Please follow these rules EXACTLY:'' @ nl @ nl
     @ ''1. For writeToFile, the filePath MUST be in this exact format:'' @ nl
     @ ''   - '' @ dq @ ''projects/'' @ show_null projectName @ ''/index.html'' @ dq @ nl
     @ ''   - '' @ dq @ ''projects/'' @ show_null projectName @ ''/style.css'' @ dq @ nl
     @ ''   - '' @ dq @ ''projects/'' @ show_null projectName @ ''/script.js'' @ dq @ nl @ nl
     @ ''2. Make sure all required parameters are provided correctly'' @ nl
     @ ''3. Use valid JSON format for all arguments'' @ nl
     @ ''4. Do NOT add extra fields or modify the function signature'' @ nl @ nl
     @ ''Please try again with the correct format.''"

definition no_writeToFile_message :: "string option \<Rightarrow> string" where
  "no_writeToFile_message projectName =
     siren @ '' ERROR: You cannot use writeToFile tool for updates. You MUST use updateProjectFiles tool to modify existing files in project ''
     @ dq @ show_null projectName @ dq @ ''. Please try again with the correct tool.''"

definition wrong_tool_message :: "string \<Rightarrow> string" where
  "wrong_tool_message nm =
     siren @ '' ERROR: For updates, you should use updateProjectFiles tool to modify files. You used '' @ nm
     @ '' which is not appropriate for updates. Please use updateProjectFiles to make the requested changes.''"

subsection \<open>Seeding\<close>

text \<open>
  \<^verbatim>\<open>if (!ProjectHistory.has(projectName)) ProjectHistory.set(projectName, []);
  const currentHistory = [...ProjectHistory.get(projectName)];\<close>
  The copy is a fresh array: later pushes do not reach the stored one.
\<close>

definition load_history :: "string option \<Rightarrow> 'w sys \<Rightarrow> turn list \<times> 'w sys" where
  "load_history projectName st =
     (case ProjectHistory st projectName of
        None \<Rightarrow> ([], st\<lparr>ProjectHistory := (ProjectHistory st)(projectName \<mapsto> [])\<rparr>)
      | Some projectHistory \<Rightarrow> (projectHistory, st))"

text \<open>
  The turns pushed inside \<^verbatim>\<open>if (isUpdate && projectName) { try { ... } catch (error) { log } }\<close>.
  \<^verbatim>\<open>typeof existingFiles === 'object'\<close> holds of objects, arrays and \<^verbatim>\<open>null\<close>; on
  \<^verbatim>\<open>null\<close> the read of \<^verbatim>\<open>.error\<close> throws into the \<^verbatim>\<open>catch\<close>.
\<close>

definition typeof_object :: "json \<Rightarrow> bool" where
  "typeof_object v = (case v of JObj kvs \<Rightarrow> True | JArr xs \<Rightarrow> True | JNull \<Rightarrow> True | _ \<Rightarrow> False)"

definition context_turns :: "string option \<Rightarrow> json \<Rightarrow> turn list" where
  "context_turns projectName existingFiles =
     (if typeof_object existingFiles \<and> existingFiles \<noteq> JNull \<and> \<not> js_truthy (get_prop existingFiles ''error'') then
        [user_text (update_context_message projectName existingFiles)]
        @ (if js_truthy (get_prop existingFiles ''style.css'') then
             [user_text (current_css_message existingFiles)] else [])
      else [])"

definition seed_context :: "'w env \<Rightarrow> string option \<Rightarrow> bool \<Rightarrow> string option \<Rightarrow> 'w sys \<Rightarrow> turn list \<times> 'w sys" where
  "seed_context env projectName isUpdate userId st =
     (if isUpdate \<and> truthy projectName then
        (case readProjectFiles env (JObj [(''projectName'', JStr (show_null projectName))]) userId st of
           (Returns existingFiles, st1) \<Rightarrow> (context_turns projectName existingFiles, st1)
         | (Throws error, st1) \<Rightarrow> ([], st1))
      else ([], st))"

subsection \<open>The loop\<close>

text \<open>
  \<^verbatim>\<open>response.candidates && response.candidates[0] &&
  response.candidates[0].finishReason === 'MALFORMED_FUNCTION_CALL'\<close>
\<close>

definition malformed :: "response \<Rightarrow> bool" where
  "malformed r =
     (case candidates r of Some (c # _) \<Rightarrow> finishReason c = Some ''MALFORMED_FUNCTION_CALL'' | _ \<Rightarrow> False)"

text \<open>\<^verbatim>\<open>isUpdate && name !== 'updateProjectFiles' && name !== 'readProjectFiles' && name !== 'listProjects'\<close>\<close>

definition update_allowed :: "string \<Rightarrow> bool" where
  "update_allowed nm = (nm = ''updateProjectFiles'' \<or> nm = ''readProjectFiles'' \<or> nm = ''listProjects'')"

text \<open>
  One pass of the body of \<^verbatim>\<open>while (true)\<close>. \<open>Continue\<close> is the next pass, with the
  history it starts from (after \<^verbatim>\<open>continue\<close>, or at the end of the tool branch); \<open>Finished\<close> is
  the end of the run: \<open>Returns text\<close> after \<^verbatim>\<open>ProjectHistory.set(projectName, currentHistory)\<close>,
  or \<open>Throws\<close> when the retried generation, the tool call or \<^verbatim>\<open>extractResponseText\<close>
  throws. A generation that yields \<^verbatim>\<open>undefined\<close> makes \<^verbatim>\<open>response.candidates\<close> throw.
\<close>

datatype 'w step =
  Continue "turn list" "'w sys"
| Finished "string option outcome" "'w sys"

definition agent_step ::
  "'w env \<Rightarrow> string option \<Rightarrow> bool \<Rightarrow> string option \<Rightarrow> turn list \<Rightarrow> 'w sys \<Rightarrow> 'w step"
where
  "agent_step env projectName isUpdate userId currentHistory st =
     (case retryWithBackoff env (generateContent env currentHistory isUpdate projectName) 3 1000 st of
        (Throws error, st1) \<Rightarrow> Finished (Throws error) st1
      | (Returns None, st1) \<Rightarrow>
          Finished (Throws (Error ''Cannot read properties of undefined (reading 'candidates')'')) st1
      | (Returns (Some response), st1) \<Rightarrow>
          if malformed response then
            Continue (currentHistory @ [user_text (malformed_message projectName)]) st1
          else (case functionCalls response of
            Some (fc # _) \<Rightarrow>
              if isUpdate \<and> fc_name fc = ''writeToFile'' then
                Continue (currentHistory @ [user_text (no_writeToFile_message projectName)]) st1
              else if isUpdate \<and> \<not> update_allowed (fc_name fc) then
                Continue (currentHistory @ [user_text (wrong_tool_message (fc_name fc))]) st1
              else (case call_tool env (fc_name fc) (fc_args fc) userId st1 of
                      (Throws error, st2) \<Rightarrow> Finished (Throws error) st2
                    | (Returns result, st2) \<Rightarrow>
                        Continue
                          (currentHistory
                           @ [\<lparr>role = Model, parts = [FunctionCallPart fc]\<rparr>,
                              \<lparr>role = User, parts = [FunctionResponsePart (fc_name fc) result]\<rparr>]) st2)
          | _ \<Rightarrow>
              (case extractResponseText response of
                 Throws error \<Rightarrow> Finished (Throws error) st1
               | Returns responseText \<Rightarrow>
                   let finalHistory = currentHistory @ [\<lparr>role = Model, parts = [TextPart responseText]\<rparr>]
                   in Finished (Returns responseText)
                        (st1\<lparr>ProjectHistory := (ProjectHistory st1)(projectName \<mapsto> finalHistory)\<rparr>))))"

text \<open>
  The loop, one pass per unit of fuel; \<open>None\<close> is a run that is still looping when the
  fuel is spent.
\<close>

fun agent_loop ::
  "'w env \<Rightarrow> nat \<Rightarrow> string option \<Rightarrow> bool \<Rightarrow> string option \<Rightarrow> turn list \<Rightarrow> 'w sys
   \<Rightarrow> (string option outcome \<times> 'w sys) option"
where
  "agent_loop env 0 projectName isUpdate userId currentHistory st = None"
| "agent_loop env (Suc fuel) projectName isUpdate userId currentHistory st =
     (case agent_step env projectName isUpdate userId currentHistory st of
        Continue nextHistory st1 \<Rightarrow> agent_loop env fuel projectName isUpdate userId nextHistory st1
      | Finished r st1 \<Rightarrow> Some (r, st1))"

definition runAgent ::
  "'w env \<Rightarrow> nat \<Rightarrow> string \<Rightarrow> string option \<Rightarrow> bool \<Rightarrow> string option \<Rightarrow> 'w sys
   \<Rightarrow> (string option outcome \<times> 'w sys) option"
where
  "runAgent env fuel userProblem projectName isUpdate userId st =
     (case load_history projectName st of (projectHistory, st0) \<Rightarrow>
      case seed_context env projectName isUpdate userId st0 of (context, st1) \<Rightarrow>
        agent_loop env fuel projectName isUpdate userId
          (projectHistory @ context @ [user_text userProblem]) st1)"

section \<open>The chat endpoint\<close>

subsection \<open>extractProjectName\<close>

text \<open>
  \<^verbatim>\<open>toLowerCase\<close> and the regular expressions \<^verbatim>\<open>/update\s+([a-zA-Z0-9-_]+)/i\<close> etc.,
  on ASCII: letters outside ASCII are left as they are, and \<^verbatim>\<open>\s\<close> is the six ASCII
  white-space characters.
\<close>

definition charCode :: "char \<Rightarrow> nat" where
  "charCode c = of_char c"

definition in_range :: "char \<Rightarrow> char \<Rightarrow> char \<Rightarrow> bool" where
  "in_range lo hi c = (charCode lo \<le> charCode c \<and> charCode c \<le> charCode hi)"

definition lower_char :: "char \<Rightarrow> char" where
  "lower_char c = (if in_range CHR ''A'' CHR ''Z'' c then char_of (charCode c + 32) else c)"

definition toLowerCase :: "string \<Rightarrow> string" where
  "toLowerCase s = map lower_char s"

definition is_space :: "char \<Rightarrow> bool" where
  "is_space c = (c = CHR '' '' \<or> in_range CHR 0x09 CHR 0x0D c)"

definition is_name_char :: "char \<Rightarrow> bool" where
  "is_name_char c =
     (in_range CHR ''a'' CHR ''z'' c \<or> in_range CHR ''A'' CHR ''Z'' c \<or> in_range CHR ''0'' CHR ''9'' c
      \<or> c = CHR ''-'' \<or> c = CHR ''_'')"

text \<open>
  A match of \<^verbatim>\<open>/kw\s+([a-zA-Z0-9-_]+)/i\<close> that starts at the head of \<open>s\<close>: the keyword
  in any case, white space, then the captured run of name characters. White space and
  name characters are disjoint, so backtracking into \<^verbatim>\<open>\s+\<close> finds nothing more.
\<close>

definition match_here :: "string \<Rightarrow> string \<Rightarrow> string option" where
  "match_here kw s =
     (if startsWith (toLowerCase s) kw then
        (let rest = drop (length kw) s;
             after_space = dropWhile is_space rest;
             captured = takeWhile is_name_char after_space
         in if takeWhile is_space rest \<noteq> [] \<and> captured \<noteq> [] then Some captured else None)
      else None)"

text \<open>\<^verbatim>\<open>message.match(pattern)\<close>: the leftmost match; its first group.\<close>

fun match_pattern :: "string \<Rightarrow> string \<Rightarrow> string option" where
  "match_pattern kw [] = match_here kw []"
| "match_pattern kw (c # cs) =
     (case match_here kw (c # cs) of Some g \<Rightarrow> Some g | None \<Rightarrow> match_pattern kw cs)"

definition updatePatterns :: "string list" where
  "updatePatterns = [''update'', ''modify'', ''change'', ''edit'', ''improve'', ''fix'']"

fun first_pattern_match :: "string list \<Rightarrow> string \<Rightarrow> string option" where
  "first_pattern_match [] msg = None"
| "first_pattern_match (kw # kws) msg =
     (case match_pattern kw msg of Some g \<Rightarrow> Some g | None \<Rightarrow> first_pattern_match kws msg)"

fun first_mentioned :: "string \<Rightarrow> string list \<Rightarrow> string option" where
  "first_mentioned lowerMessage [] = None"
| "first_mentioned lowerMessage (project # projects) =
     (if includes_str lowerMessage (toLowerCase project) then Some project
      else first_mentioned lowerMessage projects)"

definition extractProjectName :: "string \<Rightarrow> string list \<Rightarrow> string option" where
  "extractProjectName msg availableProjects =
     (case first_mentioned (toLowerCase msg) availableProjects of
        Some project \<Rightarrow> Some project
      | None \<Rightarrow> first_pattern_match updatePatterns msg)"

subsection \<open>The session store\<close>

text \<open>
  \<^verbatim>\<open>ChatHistory\<close> maps a user to an array, and the handler keeps a reference to that
  array while it pushes to it. Arrays therefore live in a store of their own, under
  addresses: \<^verbatim>\<open>[]\<close> and \<^verbatim>\<open>slice\<close> allocate, \<^verbatim>\<open>push\<close> updates in place, and
  \<^verbatim>\<open>ChatHistory.set\<close> stores an address.
\<close>

record chat_msg =
  msg_role :: role
  msg_content :: "string option"

record 'w chat_sys =
  chat_world :: 'w
  arrays :: "nat \<rightharpoonup> chat_msg list"
  fresh :: nat
  ChatHistory :: "string \<rightharpoonup> nat"

record 'w chat_env =
  find_projects :: "string \<Rightarrow> 'w \<Rightarrow> string list outcome \<times> 'w"
  getProjectFiles :: "string \<Rightarrow> string \<Rightarrow> 'w \<Rightarrow> unit outcome \<times> 'w"
  chat_generateContent :: "chat_msg list \<Rightarrow> string option \<Rightarrow> string list \<Rightarrow> 'w \<Rightarrow> response outcome \<times> 'w"

record chat_request =
  req_message :: "string option"
  req_currentProject :: "string option"
  req_userId :: string
  req_userEmail :: string

datatype chat_reply = Reply nat "string option"

definition alloc :: "chat_msg list \<Rightarrow> 'w chat_sys \<Rightarrow> nat \<times> 'w chat_sys" where
  "alloc xs st = (fresh st, st\<lparr>arrays := (arrays st)(fresh st \<mapsto> xs), fresh := Suc (fresh st)\<rparr>)"

definition array_at :: "'w chat_sys \<Rightarrow> nat \<Rightarrow> chat_msg list" where
  "array_at st a = (case arrays st a of None \<Rightarrow> [] | Some xs \<Rightarrow> xs)"

definition push :: "nat \<Rightarrow> chat_msg \<Rightarrow> 'w chat_sys \<Rightarrow> 'w chat_sys" where
  "push a m st = st\<lparr>arrays := (arrays st)(a \<mapsto> array_at st a @ [m])\<rparr>"

definition chat_ext :: "('w \<Rightarrow> 'a \<times> 'w) \<Rightarrow> 'w chat_sys \<Rightarrow> 'a \<times> 'w chat_sys" where
  "chat_ext f st = (case f (chat_world st) of (r, w') \<Rightarrow> (r, st\<lparr>chat_world := w'\<rparr>))"

text \<open>What \<^verbatim>\<open>ChatHistory.get(userId)\<close> holds: the stored session history.\<close>

definition stored_session :: "'w chat_sys \<Rightarrow> string \<Rightarrow> chat_msg list option" where
  "stored_session st userId = (case ChatHistory st userId of None \<Rightarrow> None | Some a \<Rightarrow> Some (array_at st a))"

subsection \<open>handleChatMessage\<close>

text \<open>
  Only the \<^verbatim>\<open>text\<close> of the result reaches the session history; the action, project
  name and description it also computes go to the HTTP response and are left out.
  The whole body is in a \<^verbatim>\<open>try\<close> whose \<^verbatim>\<open>catch\<close> returns the apology. Besides the
  backend call and \<^verbatim>\<open>extractResponseText\<close>, \<^verbatim>\<open>responseText.match(...)\<close> throws there
  when the text is \<^verbatim>\<open>undefined\<close> and the message asks to create a website.
\<close>

definition apology :: string where
  "apology = ''I'm sorry, I'm having trouble processing your request right now. Please try again or let me know if you need help with something specific.''"

definition create_intent :: "string \<Rightarrow> bool" where
  "create_intent lowerMessage =
     (includes_str lowerMessage ''build website'' \<or> includes_str lowerMessage ''create website''
      \<or> includes_str lowerMessage ''new website'' \<or> includes_str lowerMessage ''start a website''
      \<or> includes_str lowerMessage ''make a website'' \<or> includes_str lowerMessage ''build a site''
      \<or> includes_str lowerMessage ''create a site'')"

definition handleChatMessage ::
  "'w chat_env \<Rightarrow> string \<Rightarrow> chat_msg list \<Rightarrow> string option \<Rightarrow> string list \<Rightarrow> 'w chat_sys
   \<Rightarrow> string option \<times> 'w chat_sys"
where
  "handleChatMessage env msg chatHistory currentProject availableProjects st =
     (case chat_ext (chat_generateContent env chatHistory currentProject availableProjects) st of
        (Throws error, st1) \<Rightarrow> (Some apology, st1)
      | (Returns response, st1) \<Rightarrow>
          (case extractResponseText response of
             Throws error \<Rightarrow> (Some apology, st1)
           | Returns responseText \<Rightarrow>
               if create_intent (toLowerCase msg) \<and> responseText = None then (Some apology, st1)
               else (responseText, st1)))"

subsection \<open>POST /api/chat\<close>

definition not_found_reply :: "string \<Rightarrow> string list \<Rightarrow> string" where
  "not_found_reply mentionedProject availableProjects =
     ''I couldn't find a project named '' @ dq @ mentionedProject @ dq @ ''. Your available projects are: ''
     @ (if length availableProjects > 0 then join_with '', '' availableProjects else ''none yet'')
     @ ''. Would you like me to show you your projects or help you create a new one?''"

text \<open>\<^verbatim>\<open>sessionHistory.slice(-20)\<close>: a new array of the last 20 elements.\<close>

definition slice_last :: "nat \<Rightarrow> 'a list \<Rightarrow> 'a list" where
  "slice_last n xs = drop (length xs - n) xs"

definition chat_handler :: "'w chat_env \<Rightarrow> chat_request \<Rightarrow> 'w chat_sys \<Rightarrow> chat_reply \<times> 'w chat_sys" where
  "chat_handler env req st =
     (case req_message req of
        None \<Rightarrow> (Reply 400 None, st)
      | Some msg \<Rightarrow>
        if msg = [] then (Reply 400 None, st)
        else
          let userId = req_userId req;
              (sessionHistory, st1) =
                 (case ChatHistory st userId of Some a \<Rightarrow> (a, st) | None \<Rightarrow> alloc [] st);
              st2 = push sessionHistory \<lparr>msg_role = User, msg_content = Some msg\<rparr> st1;
              (availableProjects, st3) =
                 (case chat_ext (find_projects env (req_userEmail req)) st2 of
                    (Returns projects, s) \<Rightarrow> (projects, s)
                  | (Throws error, s) \<Rightarrow> ([], s));
              mentionedProject = extractProjectName msg availableProjects;
              currentProject = (if truthy mentionedProject then mentionedProject else req_currentProject req);
              has_current = (truthy currentProject \<and> show_undefined currentProject \<in> set availableProjects)
          in
            if \<not> has_current \<and> truthy mentionedProject
               \<and> show_undefined mentionedProject \<notin> set availableProjects
            then (Reply 200 (Some (not_found_reply (show_undefined mentionedProject) availableProjects)), st3)
            else
              let st4 = (if has_current then
                           snd (chat_ext (getProjectFiles env (show_undefined currentProject) userId) st3)
                         else st3);
                  (text, st5) = handleChatMessage env msg (array_at st4 sessionHistory)
                                  currentProject availableProjects st4;
                  st6 = push sessionHistory \<lparr>msg_role = Model, msg_content = text\<rparr> st5;
                  (sessionHistory', st7) =
                     (if length (array_at st6 sessionHistory) > 20
                      then alloc (slice_last 20 (array_at st6 sessionHistory)) st6
                      else (sessionHistory, st6))
              in (Reply 200 text, st7\<lparr>ChatHistory := (ChatHistory st7)(userId \<mapsto> sessionHistory')\<rparr>))"

text \<open>Requests served one after the other.\<close>

fun chat_requests :: "'w chat_env \<Rightarrow> chat_request list \<Rightarrow> 'w chat_sys \<Rightarrow> 'w chat_sys" where
  "chat_requests env [] st = st"
| "chat_requests env (req # reqs) st = chat_requests env reqs (snd (chat_handler env req st))"

section \<open>Well-formed transcripts and reachable states\<close>

text \<open>
  The tool calls and the tool results that a turn records, by tool name.
\<close>

fun call_names :: "part list \<Rightarrow> string list" where
  "call_names [] = []"
| "call_names (FunctionCallPart fc # ps) = fc_name fc # call_names ps"
| "call_names (p # ps) = call_names ps"

fun result_names :: "part list \<Rightarrow> string list" where
  "result_names [] = []"
| "result_names (FunctionResponsePart nm r # ps) = nm # result_names ps"
| "result_names (p # ps) = result_names ps"

text \<open>
  A history is well paired when a turn that records a tool call is a model turn
  followed at once by a user turn that records the result of that call and nothing
  else, and no tool result stands anywhere else.
\<close>

fun well_paired :: "turn list \<Rightarrow> bool" where
  "well_paired [] = True"
| "well_paired [t] = (call_names (parts t) = [] \<and> result_names (parts t) = [])"
| "well_paired (t # u # rest) =
     (if call_names (parts t) \<noteq> [] then
        role t = Model \<and> result_names (parts t) = [] \<and> length (call_names (parts t)) = 1
        \<and> role u = User \<and> result_names (parts u) = call_names (parts t) \<and> call_names (parts u) = []
        \<and> well_paired rest
      else result_names (parts t) = [] \<and> well_paired (u # rest))"

text \<open>
  The states of the process: \<^verbatim>\<open>ProjectHistory\<close> starts as an empty \<^verbatim>\<open>Map\<close>; it is
  written by \<^verbatim>\<open>runAgent\<close> and by the project deletion route
  (\<^verbatim>\<open>ProjectHistory.delete(projectName)\<close>), and by nothing else. The world may change
  in between, and a run that has not finished has already created its entry.
\<close>

inductive reachable :: "'w env \<Rightarrow> 'w sys \<Rightarrow> bool" for env :: "'w env" where
  start: "ProjectHistory st = Map.empty \<Longrightarrow> reachable env st"
| run: "reachable env st \<Longrightarrow> runAgent env fuel userProblem projectName isUpdate userId st = Some (r, st')
        \<Longrightarrow> reachable env st'"
| entered: "reachable env st \<Longrightarrow> reachable env (snd (load_history projectName st))"
| deleted: "reachable env st \<Longrightarrow> reachable env (st\<lparr>ProjectHistory := (ProjectHistory st)(projectName := None)\<rparr>)"
| outside: "reachable env st \<Longrightarrow> reachable env (st\<lparr>world := w\<rparr>)"

text \<open>The tool handlers called so far, as the ghost trace has them.\<close>

fun tools_invoked :: "event list \<Rightarrow> string list" where
  "tools_invoked [] = []"
| "tools_invoked (ToolInvoked nm # evs) = nm # tools_invoked evs"
| "tools_invoked (ev # evs) = tools_invoked evs"

section \<open>Concrete environments\<close>

text \<open>
  A small world for evaluating the definitions: the world counts the calls to the
  backend, which answers as a function of the conversation it is sent; the storage is
  loaded, saves succeed, and reading a project's files gives a fixed outcome.
\<close>

definition text_response :: "string \<Rightarrow> response" where
  "text_response t = \<lparr>resp_text = Some t, candidates = None, functionCalls = None\<rparr>"

definition tool_response :: "string \<Rightarrow> json \<Rightarrow> response" where
  "tool_response nm args = \<lparr>resp_text = None, candidates = None, functionCalls = Some [FunctionCall nm args]\<rparr>"

definition malformed_response :: response where
  "malformed_response =
     \<lparr>resp_text = None,
      candidates = Some [\<lparr>finishReason = Some ''MALFORMED_FUNCTION_CALL'', content = None, cand_text = None\<rparr>],
      functionCalls = None\<rparr>"

definition mock_env :: "(turn list \<Rightarrow> response outcome) \<Rightarrow> (string \<times> string) list outcome \<Rightarrow> nat env" where
  "mock_env respond files =
     \<lparr>generateContent = (\<lambda>contents isUpdate projectName w. (respond contents, Suc w)),
      storageLoaded = (\<lambda>w. True),
      saveFile = (\<lambda>projectName fileName content userId w. (Returns (), w)),
      readAllProjectFiles = (\<lambda>projectName userId w. (files, w)),
      listProjects_storage = (\<lambda>w. (Returns (JArr []), w)),
      sleep = (\<lambda>ms w. w),
      otherTool = (\<lambda>nm args userId w. (Returns (JStr ''done''), w))\<rparr>"

definition always_overloaded :: "turn list \<Rightarrow> response outcome" where
  "always_overloaded contents = Throws (Error ''503 Service Unavailable'')"

definition direct_text_response :: response where
  "direct_text_response = \<lparr>resp_text = Some ''Hello'', candidates = None, functionCalls = None\<rparr>"

definition parts_response :: response where
  "parts_response =
     \<lparr>resp_text = None,
      candidates = Some [\<lparr>finishReason = Some ''STOP'',
                          content = Some \<lparr>content_parts = Some [\<lparr>part_text = Some ''first''\<rparr>, \<lparr>part_text = Some ''second''\<rparr>]\<rparr>,
                          cand_text = None\<rparr>],
      functionCalls = None\<rparr>"

definition truncated_response :: response where
  "truncated_response =
     \<lparr>resp_text = None,
      candidates = Some [\<lparr>finishReason = Some ''MAX_TOKENS'', content = Some \<lparr>content_parts = None\<rparr>, cand_text = None\<rparr>],
      functionCalls = None\<rparr>"

definition initial_sys :: "nat sys" where
  "initial_sys = \<lparr>world = 0, ProjectHistory = Map.empty, trace = []\<rparr>"

text \<open>Scripts for the mock backend, by the length of the conversation it is sent.\<close>

definition policy_script :: "turn list \<Rightarrow> response outcome" where
  "policy_script contents =
     (if length contents = 1 then Returns (tool_response ''deployProject'' (JObj [(''projectName'', JStr ''site'')]))
      else if length contents = 2 then Returns (tool_response ''listProjects'' (JObj []))
      else Returns (text_response ''Updated''))"

definition malformed_script :: "turn list \<Rightarrow> response outcome" where
  "malformed_script contents =
     (if length contents = 1 then Returns malformed_response else Returns (text_response ''ok''))"

definition write_args :: "string \<Rightarrow> json" where
  "write_args fileName = JObj [(''filePath'', JStr (''projects/proj1/'' @ fileName)), (''content'', JStr ''...'')]"

definition create_script :: "turn list \<Rightarrow> response outcome" where
  "create_script contents =
     (if length contents = 1 then Returns (tool_response ''writeToFile'' (write_args ''index.html''))
      else if length contents = 3 then Returns (tool_response ''writeToFile'' (write_args ''style.css''))
      else if length contents = 5 then Returns (tool_response ''writeToFile'' (write_args ''script.js''))
      else Returns (text_response ''Done''))"

definition site_files :: "(string \<times> string) list" where
  "site_files = [(''index.html'', ''<h1>Hi</h1>''), (''style.css'', ''h1 { color: red; }'')]"

definition earlier_sys :: "nat sys" where
  "earlier_sys =
     \<lparr>world = 0,
      ProjectHistory = [Some ''site'' \<mapsto> [user_text ''a landing page'',
                                            \<lparr>role = Model, parts = [TextPart (Some ''Created'')]\<rparr>]],
      trace = []\<rparr>"

text \<open>A chat world: no projects in the database, and a backend that always answers.\<close>

definition chat_mock_env :: "nat chat_env" where
  "chat_mock_env =
     \<lparr>find_projects = (\<lambda>userEmail w. (Returns [], w)),
      getProjectFiles = (\<lambda>projectName userId w. (Returns (), w)),
      chat_generateContent = (\<lambda>contents currentProject availableProjects w.
         (Returns \<lparr>resp_text = Some ''Sure'', candidates = None, functionCalls = None\<rparr>, Suc w))\<rparr>"

definition chat_initial :: "nat chat_sys" where
  "chat_initial = \<lparr>chat_world = 0, arrays = Map.empty, fresh = 0, ChatHistory = Map.empty\<rparr>"

definition say :: "string \<Rightarrow> chat_request" where
  "say msg = \<lparr>req_message = Some msg, req_currentProject = None, req_userId = ''u1'',
              req_userEmail = ''u1@example.com''\<rparr>"

definition ten_greetings :: "chat_request list" where
  "ten_greetings = [say ''hello'', say ''hello'', say ''hello'', say ''hello'', say ''hello'',
                    say ''hello'', say ''hello'', say ''hello'', say ''hello'', say ''hello'']"

section \<open>Properties of retryWithBackoff\<close>

declare retry_from.simps [simp del]

lemma ext_split: "ext f st = (fst (f (world st)), st\<lparr>world := snd (f (world st))\<rparr>)"
  by (simp add: ext_def split: prod.split)

lemma retry_from_past: "maxRetries < attempt \<Longrightarrow> retry_from env fn maxRetries baseDelay attempt st = (Returns None, st)"
  by (subst retry_from.simps) simp

lemma retry_from_last:
  "fst (fn (world st)) = Throws e \<Longrightarrow>
   retry_from env fn maxRetries baseDelay maxRetries st =
     (Throws e, st\<lparr>world := snd (fn (world st)), trace := trace st @ [FnInvoked]\<rparr>)"
  by (subst retry_from.simps) (simp add: ext_split log_event_def)

lemma retry_from_transient:
  "fst (fn (world st)) = Throws e \<Longrightarrow> is_503 e \<Longrightarrow> attempt < maxRetries \<Longrightarrow>
   retry_from env fn maxRetries baseDelay attempt st =
     retry_from env fn maxRetries baseDelay (attempt + 1)
       (st\<lparr>world := sleep env (baseDelay * 2 ^ (attempt - 1)) (snd (fn (world st))),
           trace := trace st @ [FnInvoked, Slept (baseDelay * 2 ^ (attempt - 1))]\<rparr>)"
  by (subst retry_from.simps) (simp add: ext_split log_event_def do_sleep_def)

lemma retry_from_permanent:
  "fst (fn (world st)) = Throws e \<Longrightarrow> \<not> is_503 e \<Longrightarrow> attempt \<le> maxRetries \<Longrightarrow>
   retry_from env fn maxRetries baseDelay attempt st =
     (Throws e, st\<lparr>world := snd (fn (world st)), trace := trace st @ [FnInvoked]\<rparr>)"
  by (subst retry_from.simps) (simp add: ext_split log_event_def)

lemma retry_from_returns:
  "fst (fn (world st)) = Returns v \<Longrightarrow> attempt \<le> maxRetries \<Longrightarrow>
   retry_from env fn maxRetries baseDelay attempt st =
     (Returns (Some v), st\<lparr>world := snd (fn (world st)), trace := trace st @ [FnInvoked]\<rparr>)"
  by (subst retry_from.simps) (simp add: ext_split log_event_def)

text \<open>
  C3. With \<open>maxRetries = 3\<close>: an operation that fails with a 503 message at every
  invocation is invoked exactly three times, with a sleep of \<open>baseDelay\<close> after the first
  failure and of \<open>2 * baseDelay\<close> after the second, and the error of the third invocation
  is thrown; an operation whose first failure carries no 503 marker is invoked exactly
  once and that error is thrown at once.
\<close>

theorem retry_boundary:
  fixes fn :: "'w \<Rightarrow> 'a outcome \<times> 'w"
  shows "((\<forall>w. \<exists>e. fst (fn w) = Throws e \<and> is_503 e) \<longrightarrow>
           (let w1 = snd (fn (world st));
                w2 = snd (fn (sleep env baseDelay w1));
                third = fn (sleep env (2 * baseDelay) w2)
            in \<exists>e. fst third = Throws e \<and>
                 retryWithBackoff env fn 3 baseDelay st =
                   (Throws e, st\<lparr>world := snd third,
                       trace := trace st @ [FnInvoked, Slept baseDelay, FnInvoked, Slept (2 * baseDelay), FnInvoked]\<rparr>)))
       \<and> (\<forall>e. fst (fn (world st)) = Throws e \<and> \<not> is_503 e \<longrightarrow>
             retryWithBackoff env fn 3 baseDelay st =
               (Throws e, st\<lparr>world := snd (fn (world st)), trace := trace st @ [FnInvoked]\<rparr>))"
proof (intro conjI impI allI)
  assume always: "\<forall>w. \<exists>e. fst (fn w) = Throws e \<and> is_503 e"
  define w1 where "w1 = snd (fn (world st))"
  define w2 where "w2 = snd (fn (sleep env baseDelay w1))"
  define third where "third = fn (sleep env (2 * baseDelay) w2)"
  obtain e1 where e1: "fst (fn (world st)) = Throws e1" "is_503 e1" using always by blast
  obtain e2 where e2: "fst (fn (sleep env baseDelay w1)) = Throws e2" "is_503 e2" using always by blast
  obtain e3 where e3: "fst third = Throws e3" using always unfolding third_def by blast
  let ?s1 = "st\<lparr>world := sleep env baseDelay w1, trace := trace st @ [FnInvoked, Slept baseDelay]\<rparr>"
  let ?s2 = "?s1\<lparr>world := sleep env (2 * baseDelay) w2,
                 trace := trace ?s1 @ [FnInvoked, Slept (2 * baseDelay)]\<rparr>"
  have step1: "retry_from env fn 3 baseDelay 1 st = retry_from env fn 3 baseDelay 2 ?s1"
    using retry_from_transient [of fn st e1 1 3 env baseDelay] e1 by (simp add: w1_def numeral_2_eq_2)
  have step2: "retry_from env fn 3 baseDelay 2 ?s1 = retry_from env fn 3 baseDelay 3 ?s2"
    using retry_from_transient [of fn ?s1 e2 2 3 env baseDelay] e2 by (simp add: w2_def numeral_2_eq_2 numeral_3_eq_3)
  have step3: "retry_from env fn 3 baseDelay 3 ?s2 =
      (Throws e3, ?s2\<lparr>world := snd third, trace := trace ?s2 @ [FnInvoked]\<rparr>)"
    using retry_from_last [of fn ?s2 e3 env 3 baseDelay] e3 by (simp add: third_def)
  have "retryWithBackoff env fn 3 baseDelay st =
          (Throws e3, st\<lparr>world := snd third,
             trace := trace st @ [FnInvoked, Slept baseDelay, FnInvoked, Slept (2 * baseDelay), FnInvoked]\<rparr>)"
    unfolding retryWithBackoff_def step1 step2 step3 by simp
  with e3 show "let w1 = snd (fn (world st));
                w2 = snd (fn (sleep env baseDelay w1));
                third = fn (sleep env (2 * baseDelay) w2)
            in \<exists>e. fst third = Throws e \<and>
                 retryWithBackoff env fn 3 baseDelay st =
                   (Throws e, st\<lparr>world := snd third,
                       trace := trace st @ [FnInvoked, Slept baseDelay, FnInvoked, Slept (2 * baseDelay), FnInvoked]\<rparr>)"
    unfolding Let_def w1_def w2_def third_def by blast
next
  fix e
  assume "fst (fn (world st)) = Throws e \<and> \<not> is_503 e"
  then show "retryWithBackoff env fn 3 baseDelay st =
               (Throws e, st\<lparr>world := snd (fn (world st)), trace := trace st @ [FnInvoked]\<rparr>)"
    unfolding retryWithBackoff_def using retry_from_permanent [of fn st e 1 3 env baseDelay] by simp
qed

theorem retry_boundary_witness:
  "retryWithBackoff (mock_env always_overloaded (Returns [])) (\<lambda>w. (Throws (Error ''503 Service Unavailable''), Suc w)) 3 1000 initial_sys
     = (Throws (Error ''503 Service Unavailable''),
        initial_sys\<lparr>world := 3, trace := [FnInvoked, Slept 1000, FnInvoked, Slept 2000, FnInvoked]\<rparr>)
   \<and> retryWithBackoff (mock_env always_overloaded (Returns [])) (\<lambda>w. (Throws (Error ''400 Bad Request''), Suc w)) 3 1000 initial_sys
     = (Throws (Error ''400 Bad Request''), initial_sys\<lparr>world := 1, trace := [FnInvoked]\<rparr>)"
proof -
  have transient: "is_503 (Error ''503 Service Unavailable'')"
    by (simp add: is_503_def Error_def)
  have permanent: "\<not> is_503 (Error ''400 Bad Request'')"
    by (simp add: is_503_def Error_def)
  show ?thesis
    using retry_boundary [of "\<lambda>w. (Throws (Error ''503 Service Unavailable''), Suc w)"
            initial_sys "mock_env always_overloaded (Returns [])" 1000]
          retry_boundary [of "\<lambda>w. (Throws (Error ''400 Bad Request''), Suc w)"
            initial_sys "mock_env always_overloaded (Returns [])" 1000]
          transient permanent
    by (simp add: mock_env_def initial_sys_def Let_def numeral_3_eq_3)
qed

section \<open>Properties of extractResponseText\<close>

text \<open>
  C7. The three response shapes, read as the code tests them (a field is there when it
  is truthy) and in the code's order: a response with a direct text returns that text;
  otherwise a first candidate, not flagged as a malformed call, whose content holds
  parts returns the first part's text; and such a candidate whose content exists without
  a parts field, and which carries no text of its own, returns the empty string instead
  of throwing.
\<close>

theorem extractResponseText_shapes:
  "(truthy (resp_text r) \<longrightarrow> extractResponseText r = Returns (resp_text r))
   \<and> (\<forall>c cs ct p ps.
         \<not> truthy (resp_text r) \<and> candidates r = Some (c # cs)
         \<and> finishReason c \<noteq> Some ''MALFORMED_FUNCTION_CALL''
         \<and> content c = Some ct \<and> content_parts ct = Some (p # ps)
         \<longrightarrow> extractResponseText r = Returns (part_text p))
   \<and> (\<forall>c cs ct.
         \<not> truthy (resp_text r) \<and> candidates r = Some (c # cs)
         \<and> finishReason c \<noteq> Some ''MALFORMED_FUNCTION_CALL''
         \<and> content c = Some ct \<and> content_parts ct = None \<and> \<not> truthy (cand_text c)
         \<longrightarrow> extractResponseText r = Returns (Some []))"
  by (simp add: extractResponseText_def first_part_def)

theorem extractResponseText_shapes_witness:
  "extractResponseText direct_text_response = Returns (Some ''Hello'')
   \<and> extractResponseText parts_response = Returns (Some ''first'')
   \<and> extractResponseText truncated_response = Returns (Some [])"
  using extractResponseText_shapes [of direct_text_response]
        extractResponseText_shapes [of parts_response]
        extractResponseText_shapes [of truncated_response]
  by (simp add: direct_text_response_def parts_response_def truncated_response_def)

section \<open>Properties of writeToFile\<close>

lemma findIndex_ge: "findIndex P xs \<ge> - 1"
  by (induction xs) (auto simp: Let_def)

lemma findIndex_none: "findIndex P xs = - 1 \<longleftrightarrow> (\<forall>x \<in> set xs. \<not> P x)"
proof (induction xs)
  case Nil
  then show ?case by simp
next
  case (Cons x xs)
  have "findIndex P xs + 1 \<noteq> - 1" using findIndex_ge [of P xs] by arith
  with Cons show ?case by (simp add: Let_def)
qed

lemma findIndex_first:
  "findIndex P xs \<noteq> - 1 \<Longrightarrow>
     0 \<le> findIndex P xs \<and> nat (findIndex P xs) < length xs \<and> P (xs ! nat (findIndex P xs))
     \<and> (\<forall>j < nat (findIndex P xs). \<not> P (xs ! j))"
proof (induction xs)
  case Nil
  then show ?case by simp
next
  case (Cons x xs)
  show ?case
  proof (cases "P x")
    case True
    then show ?thesis by simp
  next
    case False
    with Cons.prems have ne: "findIndex P xs \<noteq> - 1" by (auto simp: Let_def split: if_splits)
    from Cons.IH [OF ne] have ih: "0 \<le> findIndex P xs" "nat (findIndex P xs) < length xs"
      "P (xs ! nat (findIndex P xs))" "\<forall>j < nat (findIndex P xs). \<not> P (xs ! j)" by auto
    have eq: "findIndex P (x # xs) = findIndex P xs + 1" using False ne by (simp add: Let_def)
    have n: "nat (findIndex P xs + 1) = Suc (nat (findIndex P xs))" using ih(1) by simp
    show ?thesis unfolding eq n using ih False
      by (auto simp: nth_Cons split: nat.splits)
  qed
qed

lemma writeToFile_string_path:
  assumes "\<not> nullish args" "get_prop args ''filePath'' = JStr fp"
  shows "writeToFile env args userId st =
     (if \<not> storageLoaded env (world (storage_waited env st)) then
        (Returns (JStr (''Error: '' @ ''Storage service not initialized. Please restart the server.'')), storage_waited env st)
      else if findIndex (\<lambda>part. part = ''projects'') (split_path fp) = - 1
              \<or> findIndex (\<lambda>part. part = ''projects'') (split_path fp) \<ge> int (length (split_path fp)) - 2 then
        (Returns (JStr (''Error: '' @ ''Invalid file path. Expected format: projects/projectName/fileName'')), storage_waited env st)
      else (case ext (saveFile env (split_path fp ! nat (findIndex (\<lambda>part. part = ''projects'') (split_path fp) + 1))
                         (split_path fp ! nat (findIndex (\<lambda>part. part = ''projects'') (split_path fp) + 2))
                         (get_prop args ''content'') userId)
                   (log_event (SaveFileCalled (split_path fp ! nat (findIndex (\<lambda>part. part = ''projects'') (split_path fp) + 1))
                                   (split_path fp ! nat (findIndex (\<lambda>part. part = ''projects'') (split_path fp) + 2)))
                      (storage_waited env st)) of
              (Throws error, st2) \<Rightarrow> (Returns (JStr (''Error: '' @ show_undefined (message error))), st2)
            | (Returns result, st2) \<Rightarrow>
                (Returns (JStr (''Success: Content written to ''
                   @ split_path fp ! nat (findIndex (\<lambda>part. part = ''projects'') (split_path fp) + 2)
                   @ '' in project ''
                   @ split_path fp ! nat (findIndex (\<lambda>part. part = ''projects'') (split_path fp) + 1))), st2)))"
  using assms unfolding writeToFile_def Let_def by simp

lemma conforming_iff:
  "(\<exists>i. i + 2 < length segs \<and> P (segs ! i))
   \<longleftrightarrow> \<not> (findIndex P segs = - 1 \<or> findIndex P segs \<ge> int (length segs) - 2)"
proof
  assume "\<exists>i. i + 2 < length segs \<and> P (segs ! i)"
  then obtain i where i: "i + 2 < length segs" "P (segs ! i)" by blast
  then have "segs ! i \<in> set segs" by simp
  with i have ne: "findIndex P segs \<noteq> - 1" by (auto simp: findIndex_none)
  from findIndex_first [OF ne] have f: "0 \<le> findIndex P segs" "\<forall>j < nat (findIndex P segs). \<not> P (segs ! j)"
    by auto
  have "\<not> i < nat (findIndex P segs)" using f(2) i(2) by blast
  then have "nat (findIndex P segs) \<le> i" by simp
  with i(1) f(1) have "findIndex P segs < int (length segs) - 2" by linarith
  with ne show "\<not> (findIndex P segs = - 1 \<or> findIndex P segs \<ge> int (length segs) - 2)" by simp
next
  assume a: "\<not> (findIndex P segs = - 1 \<or> findIndex P segs \<ge> int (length segs) - 2)"
  then have ne: "findIndex P segs \<noteq> - 1" by simp
  from findIndex_first [OF ne] a
  have "nat (findIndex P segs) + 2 < length segs \<and> P (segs ! nat (findIndex P segs))" by auto
  then show "\<exists>i. i + 2 < length segs \<and> P (segs ! i)" by blast
qed

text \<open>
  A \<^verbatim>\<open>filePath\<close> that is no string makes \<^verbatim>\<open>filePath.split\<close> throw inside the \<^verbatim>\<open>try\<close>:
  the handler reports the error as text and calls no save.
\<close>

lemma writeToFile_non_string_path:
  assumes "\<not> nullish args" "\<forall>fp. get_prop args ''filePath'' \<noteq> JStr fp"
  shows "\<exists>m. writeToFile env args userId st = (Returns (JStr (''Error: '' @ m)), storage_waited env st)"
proof (cases "storageLoaded env (world (storage_waited env st))")
  case False
  with assms(1) have "writeToFile env args userId st =
      (Returns (JStr (''Error: '' @ ''Storage service not initialized. Please restart the server.'')),
       storage_waited env st)"
    by (simp add: writeToFile_def Let_def)
  then show ?thesis by (rule exI)
next
  case True
  with assms have "writeToFile env args userId st =
      (Returns (JStr (''Error: '' @ split_type_error (get_prop args ''filePath''))), storage_waited env st)"
    by (cases "get_prop args ''filePath''") (simp_all add: writeToFile_def Let_def)
  then show ?thesis by (rule exI)
qed

text \<open>
  C10. For a string \<^verbatim>\<open>filePath\<close>: when no segment equal to \<^verbatim>\<open>projects\<close> is followed by
  at least two further segments, the handler returns a text that begins with
  \<^verbatim>\<open>Error:\<close>, and the state it leaves is the one after the wait for the storage: no
  save was called. When there is such a segment and the storage is loaded, it calls
  \<^verbatim>\<open>saveFile\<close> once, with the segment after the first \<^verbatim>\<open>projects\<close> as project name and the
  next one as file name, and reports success or the save's error.
\<close>

theorem writeToFile_path_check:
  assumes args: "\<not> nullish args" "get_prop args ''filePath'' = JStr fp"
  shows "let segs = split_path fp; st1 = storage_waited env st
         in (\<not> (\<exists>i. i + 2 < length segs \<and> segs ! i = ''projects'') \<longrightarrow>
               (\<exists>m. writeToFile env args userId st = (Returns (JStr (''Error: '' @ m)), st1)
                    \<and> trace st1 = trace st))
          \<and> ((\<exists>i. i + 2 < length segs \<and> segs ! i = ''projects'') \<and> storageLoaded env (world st1) \<longrightarrow>
               (\<exists>i. i + 2 < length segs \<and> segs ! i = ''projects'' \<and> (\<forall>j<i. segs ! j \<noteq> ''projects'') \<and>
                  (let saved = saveFile env (segs ! (i + 1)) (segs ! (i + 2)) (get_prop args ''content'')
                                 userId (world st1);
                       st2 = st1\<lparr>world := snd saved,
                                 trace := trace st1 @ [SaveFileCalled (segs ! (i + 1)) (segs ! (i + 2))]\<rparr>
                   in writeToFile env args userId st =
                        ((case fst saved of
                            Returns u \<Rightarrow> Returns (JStr (''Success: Content written to '' @ segs ! (i + 2)
                                                         @ '' in project '' @ segs ! (i + 1)))
                          | Throws e \<Rightarrow> Returns (JStr (''Error: '' @ show_undefined (message e)))),
                         st2))))"
proof -
  let ?segs = "split_path fp"
  let ?st1 = "storage_waited env st"
  let ?idx = "findIndex (\<lambda>part. part = ''projects'') ?segs"
  note unfolded = writeToFile_string_path [OF args, of env userId st]
  have tr: "trace ?st1 = trace st" by (simp add: storage_waited_def)
  have conf: "(\<exists>i. i + 2 < length ?segs \<and> ?segs ! i = ''projects'')
              \<longleftrightarrow> \<not> (?idx = - 1 \<or> ?idx \<ge> int (length ?segs) - 2)"
    by (rule conforming_iff [of ?segs "\<lambda>part. part = ''projects''"])
  have bad: "\<exists>m. writeToFile env args userId st = (Returns (JStr (''Error: '' @ m)), ?st1)"
    if "\<not> (\<exists>i. i + 2 < length ?segs \<and> ?segs ! i = ''projects'')"
  proof -
    from that conf have nonconf: "?idx = - 1 \<or> ?idx \<ge> int (length ?segs) - 2" by blast
    show ?thesis
    proof (cases "storageLoaded env (world ?st1)")
      case True
      with nonconf have "writeToFile env args userId st =
        (Returns (JStr (''Error: '' @ ''Invalid file path. Expected format: projects/projectName/fileName'')), ?st1)"
        unfolding unfolded by simp
      then show ?thesis by blast
    next
      case False
      then have "writeToFile env args userId st =
        (Returns (JStr (''Error: '' @ ''Storage service not initialized. Please restart the server.'')), ?st1)"
        unfolding unfolded by simp
      then show ?thesis by blast
    qed
  qed
  have good: "\<exists>i. i + 2 < length ?segs \<and> ?segs ! i = ''projects'' \<and> (\<forall>j<i. ?segs ! j \<noteq> ''projects'') \<and>
                  (let saved = saveFile env (?segs ! (i + 1)) (?segs ! (i + 2)) (get_prop args ''content'')
                                 userId (world ?st1);
                       st2 = ?st1\<lparr>world := snd saved,
                                 trace := trace ?st1 @ [SaveFileCalled (?segs ! (i + 1)) (?segs ! (i + 2))]\<rparr>
                   in writeToFile env args userId st =
                        ((case fst saved of
                            Returns u \<Rightarrow> Returns (JStr (''Success: Content written to '' @ ?segs ! (i + 2)
                                                         @ '' in project '' @ ?segs ! (i + 1)))
                          | Throws e \<Rightarrow> Returns (JStr (''Error: '' @ show_undefined (message e)))),
                         st2))"
    if c: "\<exists>i. i + 2 < length ?segs \<and> ?segs ! i = ''projects''" and loaded: "storageLoaded env (world ?st1)"
  proof -
    from c conf have ok: "\<not> (?idx = - 1 \<or> ?idx \<ge> int (length ?segs) - 2)" by blast
    then have ne: "?idx \<noteq> - 1" by simp
    from findIndex_first [OF ne]
    have f: "0 \<le> ?idx" "?segs ! nat ?idx = ''projects''" "\<forall>j < nat ?idx. ?segs ! j \<noteq> ''projects''"
      by auto
    define i where "i = nat ?idx"
    have n1: "nat (?idx + 1) = i + 1" and n2: "nat (?idx + 2) = i + 2" using f(1) by (auto simp: i_def)
    have bound: "i + 2 < length ?segs" using ok f(1) unfolding i_def by linarith
    have first: "?segs ! i = ''projects''" "\<forall>j<i. ?segs ! j \<noteq> ''projects''" using f by (auto simp: i_def)
    have run: "writeToFile env args userId st =
        (case ext (saveFile env (?segs ! (i + 1)) (?segs ! (i + 2)) (get_prop args ''content'') userId)
                (log_event (SaveFileCalled (?segs ! (i + 1)) (?segs ! (i + 2))) ?st1) of
           (Throws error, st2) \<Rightarrow> (Returns (JStr (''Error: '' @ show_undefined (message error))), st2)
         | (Returns result, st2) \<Rightarrow>
             (Returns (JStr (''Success: Content written to '' @ ?segs ! (i + 2) @ '' in project ''
                             @ ?segs ! (i + 1))), st2))"
      unfolding unfolded n1 n2 using ok loaded by (simp only: simp_thms if_False if_True)
    have "let saved = saveFile env (?segs ! (i + 1)) (?segs ! (i + 2)) (get_prop args ''content'')
                                 userId (world ?st1);
                       st2 = ?st1\<lparr>world := snd saved,
                                 trace := trace ?st1 @ [SaveFileCalled (?segs ! (i + 1)) (?segs ! (i + 2))]\<rparr>
                   in writeToFile env args userId st =
                        ((case fst saved of
                            Returns u \<Rightarrow> Returns (JStr (''Success: Content written to '' @ ?segs ! (i + 2)
                                                         @ '' in project '' @ ?segs ! (i + 1)))
                          | Throws e \<Rightarrow> Returns (JStr (''Error: '' @ show_undefined (message e)))),
                         st2)"
      unfolding run Let_def ext_split log_event_def
      by (cases "fst (saveFile env (?segs ! (i + 1)) (?segs ! (i + 2)) (get_prop args ''content'')
                                 userId (world ?st1))") simp_all
    then show ?thesis
      apply (intro exI [of _ i] conjI)
      using bound first by simp_all
  qed
  show ?thesis
    unfolding Let_def
  proof (intro conjI impI)
    assume "\<not> (\<exists>i. i + 2 < length ?segs \<and> ?segs ! i = ''projects'')"
    from bad [OF this] obtain m where
      "writeToFile env args userId st = (Returns (JStr (''Error: '' @ m)), ?st1)" by (rule exE)
    with tr have "writeToFile env args userId st = (Returns (JStr (''Error: '' @ m)), ?st1)
                  \<and> trace ?st1 = trace st" by (rule_tac conjI)
    then show "\<exists>m. writeToFile env args userId st = (Returns (JStr (''Error: '' @ m)), ?st1)
                  \<and> trace ?st1 = trace st" by (rule exI)
  next
    assume "(\<exists>i. i + 2 < length ?segs \<and> ?segs ! i = ''projects'') \<and> storageLoaded env (world ?st1)"
    then have c: "\<exists>i. i + 2 < length ?segs \<and> ?segs ! i = ''projects''"
      and l: "storageLoaded env (world ?st1)" by (rule conjunct1, rule conjunct2)
    from good [OF c l, unfolded Let_def]
    show "\<exists>i. i + 2 < length ?segs \<and> ?segs ! i = ''projects'' \<and> (\<forall>j<i. ?segs ! j \<noteq> ''projects'') \<and>
                  writeToFile env args userId st =
                        ((case fst (saveFile env (?segs ! (i + 1)) (?segs ! (i + 2)) (get_prop args ''content'')
                                 userId (world ?st1)) of
                            Returns u \<Rightarrow> Returns (JStr (''Success: Content written to '' @ ?segs ! (i + 2)
                                                         @ '' in project '' @ ?segs ! (i + 1)))
                          | Throws e \<Rightarrow> Returns (JStr (''Error: '' @ show_undefined (message e)))),
                         ?st1\<lparr>world := snd (saveFile env (?segs ! (i + 1)) (?segs ! (i + 2)) (get_prop args ''content'')
                                 userId (world ?st1)),
                                 trace := trace ?st1 @ [SaveFileCalled (?segs ! (i + 1)) (?segs ! (i + 2))]\<rparr>)" .
  qed
qed

theorem writeToFile_path_check_witness:
  "(\<exists>m. writeToFile (mock_env always_overloaded (Returns []))
           (JObj [(''filePath'', JStr ''site/projects/index.html''), (''content'', JStr ''<html></html>'')])
           None initial_sys
         = (Returns (JStr (''Error: '' @ m)), initial_sys))
   \<and> writeToFile (mock_env always_overloaded (Returns []))
           (JObj [(''filePath'', JStr ''projects/site/index.html''), (''content'', JStr ''<html></html>'')])
           None initial_sys
       = (Returns (JStr ''Success: Content written to index.html in project site''),
          initial_sys\<lparr>trace := [SaveFileCalled ''site'' ''index.html'']\<rparr>)"
proof -
  have segs_bad: "split_path ''site/projects/index.html'' = [''site'', ''projects'', ''index.html'']"
    by simp
  have segs_good: "split_path ''projects/site/index.html'' = [''projects'', ''site'', ''index.html'']"
    by simp
  have no_index: "\<not> (\<exists>i. i + 2 < length [''site'', ''projects'', ''index.html'']
                        \<and> [''site'', ''projects'', ''index.html''] ! i = ''projects'')"
    by (auto simp: nth_Cons split: nat.splits)
  have an_index: "\<exists>i. i + 2 < length [''projects'', ''site'', ''index.html'']
                        \<and> [''projects'', ''site'', ''index.html''] ! i = ''projects''"
    by (rule exI [of _ 0]) simp
  have waited: "storage_waited (mock_env always_overloaded (Returns [])) initial_sys = initial_sys"
    by (simp add: storage_waited_def mock_env_def)
  have loaded: "storageLoaded (mock_env always_overloaded (Returns [])) (world initial_sys)"
    by (simp add: mock_env_def)
  have bad: "\<exists>m. writeToFile (mock_env always_overloaded (Returns []))
           (JObj [(''filePath'', JStr ''site/projects/index.html''), (''content'', JStr ''<html></html>'')])
           None initial_sys
         = (Returns (JStr (''Error: '' @ m)), initial_sys)"
    using writeToFile_path_check [of "JObj [(''filePath'', JStr ''site/projects/index.html''), (''content'', JStr ''<html></html>'')]"
            "''site/projects/index.html''" "mock_env always_overloaded (Returns [])" initial_sys None] no_index
    unfolding Let_def segs_bad waited by (simp add: nullish_def)
  have good: "\<exists>i. i + 2 < length [''projects'', ''site'', ''index.html'']
        \<and> [''projects'', ''site'', ''index.html''] ! i = ''projects''
        \<and> (\<forall>j<i. [''projects'', ''site'', ''index.html''] ! j \<noteq> ''projects'')
        \<and> writeToFile (mock_env always_overloaded (Returns []))
           (JObj [(''filePath'', JStr ''projects/site/index.html''), (''content'', JStr ''<html></html>'')])
           None initial_sys
          = ((case fst (saveFile (mock_env always_overloaded (Returns [])) ([''projects'', ''site'', ''index.html''] ! (i + 1))
                         ([''projects'', ''site'', ''index.html''] ! (i + 2))
                         (get_prop (JObj [(''filePath'', JStr ''projects/site/index.html''), (''content'', JStr ''<html></html>'')]) ''content'')
                         None (world initial_sys)) of
                Returns u \<Rightarrow> Returns (JStr (''Success: Content written to '' @ [''projects'', ''site'', ''index.html''] ! (i + 2)
                                             @ '' in project '' @ [''projects'', ''site'', ''index.html''] ! (i + 1)))
              | Throws e \<Rightarrow> Returns (JStr (''Error: '' @ show_undefined (message e)))),
             initial_sys\<lparr>world := snd (saveFile (mock_env always_overloaded (Returns [])) ([''projects'', ''site'', ''index.html''] ! (i + 1))
                         ([''projects'', ''site'', ''index.html''] ! (i + 2))
                         (get_prop (JObj [(''filePath'', JStr ''projects/site/index.html''), (''content'', JStr ''<html></html>'')]) ''content'')
                         None (world initial_sys)),
                trace := trace initial_sys @ [SaveFileCalled ([''projects'', ''site'', ''index.html''] ! (i + 1))
                                                ([''projects'', ''site'', ''index.html''] ! (i + 2))]\<rparr>)"
    using writeToFile_path_check [of "JObj [(''filePath'', JStr ''projects/site/index.html''), (''content'', JStr ''<html></html>'')]"
            "''projects/site/index.html''" "mock_env always_overloaded (Returns [])" initial_sys None] an_index loaded
    unfolding Let_def segs_good waited by (simp add: nullish_def)
  then obtain i where i: "[''projects'', ''site'', ''index.html''] ! i = ''projects''"
       "\<forall>j<i. [''projects'', ''site'', ''index.html''] ! j \<noteq> ''projects''"
    and run: "writeToFile (mock_env always_overloaded (Returns []))
           (JObj [(''filePath'', JStr ''projects/site/index.html''), (''content'', JStr ''<html></html>'')])
           None initial_sys
          = ((case fst (saveFile (mock_env always_overloaded (Returns [])) ([''projects'', ''site'', ''index.html''] ! (i + 1))
                         ([''projects'', ''site'', ''index.html''] ! (i + 2))
                         (get_prop (JObj [(''filePath'', JStr ''projects/site/index.html''), (''content'', JStr ''<html></html>'')]) ''content'')
                         None (world initial_sys)) of
                Returns u \<Rightarrow> Returns (JStr (''Success: Content written to '' @ [''projects'', ''site'', ''index.html''] ! (i + 2)
                                             @ '' in project '' @ [''projects'', ''site'', ''index.html''] ! (i + 1)))
              | Throws e \<Rightarrow> Returns (JStr (''Error: '' @ show_undefined (message e)))),
             initial_sys\<lparr>world := snd (saveFile (mock_env always_overloaded (Returns [])) ([''projects'', ''site'', ''index.html''] ! (i + 1))
                         ([''projects'', ''site'', ''index.html''] ! (i + 2))
                         (get_prop (JObj [(''filePath'', JStr ''projects/site/index.html''), (''content'', JStr ''<html></html>'')]) ''content'')
                         None (world initial_sys)),
                trace := trace initial_sys @ [SaveFileCalled ([''projects'', ''site'', ''index.html''] ! (i + 1))
                                                ([''projects'', ''site'', ''index.html''] ! (i + 2))]\<rparr>)"
    by (elim exE conjE)
  have "i = 0"
  proof (rule ccontr)
    assume "i \<noteq> 0"
    then have "0 < i" by simp
    with i(2) show False by auto
  qed
  with run have "writeToFile (mock_env always_overloaded (Returns []))
           (JObj [(''filePath'', JStr ''projects/site/index.html''), (''content'', JStr ''<html></html>'')])
           None initial_sys
       = (Returns (JStr ''Success: Content written to index.html in project site''),
          initial_sys\<lparr>trace := [SaveFileCalled ''site'' ''index.html'']\<rparr>)"
    by (simp add: mock_env_def initial_sys_def)
  with bad show ?thesis by (rule_tac conjI)
qed

section \<open>What the handlers and the retry leave alone\<close>

lemma tools_invoked_append: "tools_invoked (xs @ ys) = tools_invoked xs @ tools_invoked ys"
  by (induction xs rule: tools_invoked.induct) auto

lemma retry_from_frame:
  "retry_from env fn maxRetries baseDelay attempt st = (r, st') \<Longrightarrow>
     ProjectHistory st' = ProjectHistory st \<and> tools_invoked (trace st') = tools_invoked (trace st)"
proof (induction env fn maxRetries baseDelay attempt st rule: retry_from.induct)
  case (1 env fn maxRetries baseDelay attempt st)
  show ?case
  proof (cases "attempt \<le> maxRetries")
    case False
    with "1.prems" show ?thesis by (subst (asm) retry_from.simps) simp
  next
    case True
    let ?st0 = "log_event FnInvoked st"
    obtain x s1 where call: "ext fn ?st0 = (x, s1)" by (cases "ext fn ?st0")
    have s1: "ProjectHistory s1 = ProjectHistory st" "tools_invoked (trace s1) = tools_invoked (trace st)"
      using call by (auto simp: ext_split log_event_def tools_invoked_append)
    show ?thesis
    proof (cases x)
      case (Returns v)
      with "1.prems" True call have "st' = s1" by (subst (asm) retry_from.simps) simp
      with s1 show ?thesis by simp
    next
      case (Throws e)
      show ?thesis
      proof (cases "attempt \<noteq> maxRetries \<and> is_503 e")
        case False
        with "1.prems" True call Throws have "st' = s1"
          by (subst (asm) retry_from.simps) (auto split: if_splits)
        with s1 show ?thesis by simp
      next
        case retry: True
        let ?s2 = "do_sleep env (baseDelay * 2 ^ (attempt - 1)) s1"
        have rec: "retry_from env fn maxRetries baseDelay (attempt + 1) ?s2 = (r, st')"
          using "1.prems" True call Throws retry by (subst (asm) retry_from.simps) simp
        have s2: "ProjectHistory ?s2 = ProjectHistory st" "tools_invoked (trace ?s2) = tools_invoked (trace st)"
          using s1 by (auto simp: do_sleep_def log_event_def tools_invoked_append)
        from "1.IH" [OF True call [symmetric] Throws _ _ rec] retry s2 show ?thesis by simp
      qed
    qed
  qed
qed

lemma retryWithBackoff_frame:
  "retryWithBackoff env fn maxRetries baseDelay st = (r, st') \<Longrightarrow>
     ProjectHistory st' = ProjectHistory st \<and> tools_invoked (trace st') = tools_invoked (trace st)"
  unfolding retryWithBackoff_def by (rule retry_from_frame)

lemma storage_waited_frame:
  "ProjectHistory (storage_waited env st) = ProjectHistory st"
  "trace (storage_waited env st) = trace st"
  by (simp_all add: storage_waited_def)

lemma writeToFile_frame:
  assumes "writeToFile env args userId st = (r, st')"
  shows "ProjectHistory st' = ProjectHistory st \<and> tools_invoked (trace st') = tools_invoked (trace st)"
proof (cases "nullish args")
  case True
  with assms show ?thesis by (simp add: writeToFile_def)
next
  case False
  note not_null = this
  let ?st1 = "storage_waited env st"
  show ?thesis
  proof (cases "storageLoaded env (world ?st1)")
    case False
    with assms not_null have "st' = ?st1" by (simp add: writeToFile_def Let_def)
    then show ?thesis by (simp add: storage_waited_frame)
  next
    case True
    note loaded = this
    show ?thesis
    proof (cases "\<exists>fp. get_prop args ''filePath'' = JStr fp")
      case False
      with assms not_null loaded have "st' = ?st1"
        by (cases "get_prop args ''filePath''") (simp_all add: writeToFile_def Let_def)
      then show ?thesis by (simp add: storage_waited_frame)
    next
      case True
      then obtain fp where fp: "get_prop args ''filePath'' = JStr fp" by (rule exE)
      note unfolded = writeToFile_string_path [OF not_null fp, of env userId st]
      let ?idx = "findIndex (\<lambda>part. part = ''projects'') (split_path fp)"
      show ?thesis
      proof (cases "?idx = - 1 \<or> ?idx \<ge> int (length (split_path fp)) - 2")
        case True
        with assms loaded have "st' = ?st1" unfolding unfolded by simp
        then show ?thesis by (simp add: storage_waited_frame)
      next
        case False
        let ?pn = "split_path fp ! nat (?idx + 1)"
        let ?fn = "split_path fp ! nat (?idx + 2)"
        from assms loaded False
        have "st' = snd (ext (saveFile env ?pn ?fn (get_prop args ''content'') userId)
                           (log_event (SaveFileCalled ?pn ?fn) ?st1))"
          unfolding unfolded by (simp split: prod.splits outcome.splits)
        then show ?thesis
          by (simp add: ext_split log_event_def storage_waited_frame tools_invoked_append)
      qed
    qed
  qed
qed

lemma readProjectFiles_frame:
  "readProjectFiles env args userId st = (r, st') \<Longrightarrow>
     ProjectHistory st' = ProjectHistory st \<and> trace st' = trace st"
  unfolding readProjectFiles_def Let_def
  by (auto simp: ext_split split: if_splits outcome.splits prod.splits)

lemma listProjects_frame:
  "listProjects env st = (r, st') \<Longrightarrow> ProjectHistory st' = ProjectHistory st \<and> trace st' = trace st"
  unfolding listProjects_def
  by (auto simp: ext_split split: outcome.splits prod.splits)

lemma log_event_frame:
  "ProjectHistory (log_event ev st) = ProjectHistory st"
  "trace (log_event ev st) = trace st @ [ev]"
  "world (log_event ev st) = world st"
  by (simp_all add: log_event_def)

lemma ext_frame:
  "ext f st = (r, st') \<Longrightarrow> ProjectHistory st' = ProjectHistory st \<and> trace st' = trace st"
  by (auto simp: ext_split)

lemma call_tool_frame:
  assumes "call_tool env nm args userId st = (r, st')"
  shows "ProjectHistory st' = ProjectHistory st \<and> tools_invoked (trace st') = tools_invoked (trace st) @ [nm]"
proof -
  let ?st1 = "log_event (ToolInvoked nm) st"
  have st1: "ProjectHistory ?st1 = ProjectHistory st"
            "tools_invoked (trace ?st1) = tools_invoked (trace st) @ [nm]"
    by (simp_all add: log_event_frame tools_invoked_append)
  show ?thesis
  proof (cases "nm = ''writeToFile''")
    case True
    with assms have "writeToFile env args userId ?st1 = (r, st')" by (simp add: call_tool_def Let_def)
    from writeToFile_frame [OF this] st1 show ?thesis by simp
  next
    case nw: False
    show ?thesis
    proof (cases "nm = ''readProjectFiles''")
      case True
      with assms have "readProjectFiles env args userId ?st1 = (r, st')" by (simp add: call_tool_def Let_def)
      from readProjectFiles_frame [OF this] st1 show ?thesis by simp
    next
      case nr: False
      show ?thesis
      proof (cases "nm = ''listProjects''")
        case True
        with assms have "listProjects env ?st1 = (r, st')" by (simp add: call_tool_def Let_def)
        from listProjects_frame [OF this] st1 show ?thesis by simp
      next
        case nl: False
        have "\<exists>u. ext (otherTool env nm args u) ?st1 = (r, st')"
        proof (cases "nm = ''updateProjectFiles'' \<or> nm = ''deployProject''")
          case True
          with assms nw nr nl have "ext (otherTool env nm args userId) ?st1 = (r, st')"
            unfolding call_tool_def Let_def by (simp only: if_False if_True)
          then show ?thesis by (rule exI)
        next
          case False
          with assms nw nr nl have "ext (otherTool env nm args None) ?st1 = (r, st')"
            unfolding call_tool_def Let_def by (simp only: if_False if_True)
          then show ?thesis by (rule exI)
        qed
        then obtain u where "ext (otherTool env nm args u) ?st1 = (r, st')" by (rule exE)
        from ext_frame [OF this] st1 show ?thesis by simp
      qed
    qed
  qed
qed

section \<open>One pass of the loop\<close>

lemma writeToFile_not_allowed: "\<not> update_allowed ''writeToFile''"
  by (simp add: update_allowed_def)

lemma agent_step_cases [consumes 0, case_names gen_throws gen_undefined malformed rejected tool_throws tool_returns final_throws final]:
  obtains
    (gen_throws) e s1 where
      "retryWithBackoff env (generateContent env h upd pn) 3 1000 st = (Throws e, s1)"
      "agent_step env pn upd uid h st = Finished (Throws e) s1"
  | (gen_undefined) e s1 where
      "retryWithBackoff env (generateContent env h upd pn) 3 1000 st = (Returns None, s1)"
      "agent_step env pn upd uid h st = Finished (Throws e) s1"
  | (malformed) resp s1 where
      "retryWithBackoff env (generateContent env h upd pn) 3 1000 st = (Returns (Some resp), s1)"
      "malformed resp"
      "agent_step env pn upd uid h st = Continue (h @ [user_text (malformed_message pn)]) s1"
  | (rejected) resp s1 fc fcs where
      "retryWithBackoff env (generateContent env h upd pn) 3 1000 st = (Returns (Some resp), s1)"
      "\<not> malformed resp" "functionCalls resp = Some (fc # fcs)" "upd" "\<not> update_allowed (fc_name fc)"
      "agent_step env pn upd uid h st =
         Continue (h @ [user_text (if fc_name fc = ''writeToFile'' then no_writeToFile_message pn
                                   else wrong_tool_message (fc_name fc))]) s1"
  | (tool_throws) resp s1 fc fcs e s2 where
      "retryWithBackoff env (generateContent env h upd pn) 3 1000 st = (Returns (Some resp), s1)"
      "\<not> malformed resp" "functionCalls resp = Some (fc # fcs)" "upd \<longrightarrow> update_allowed (fc_name fc)"
      "call_tool env (fc_name fc) (fc_args fc) uid s1 = (Throws e, s2)"
      "agent_step env pn upd uid h st = Finished (Throws e) s2"
  | (tool_returns) resp s1 fc fcs res s2 where
      "retryWithBackoff env (generateContent env h upd pn) 3 1000 st = (Returns (Some resp), s1)"
      "\<not> malformed resp" "functionCalls resp = Some (fc # fcs)" "upd \<longrightarrow> update_allowed (fc_name fc)"
      "call_tool env (fc_name fc) (fc_args fc) uid s1 = (Returns res, s2)"
      "agent_step env pn upd uid h st =
         Continue (h @ [\<lparr>role = Model, parts = [FunctionCallPart fc]\<rparr>,
                        \<lparr>role = User, parts = [FunctionResponsePart (fc_name fc) res]\<rparr>]) s2"
  | (final_throws) resp s1 e where
      "retryWithBackoff env (generateContent env h upd pn) 3 1000 st = (Returns (Some resp), s1)"
      "\<not> malformed resp" "functionCalls resp = None \<or> functionCalls resp = Some []"
      "extractResponseText resp = Throws e"
      "agent_step env pn upd uid h st = Finished (Throws e) s1"
  | (final) resp s1 t where
      "retryWithBackoff env (generateContent env h upd pn) 3 1000 st = (Returns (Some resp), s1)"
      "\<not> malformed resp" "functionCalls resp = None \<or> functionCalls resp = Some []"
      "extractResponseText resp = Returns t"
      "agent_step env pn upd uid h st =
         Finished (Returns t)
           (s1\<lparr>ProjectHistory := (ProjectHistory s1)(pn \<mapsto> h @ [\<lparr>role = Model, parts = [TextPart t]\<rparr>])\<rparr>)"
proof -
  obtain x s1 where gen: "retryWithBackoff env (generateContent env h upd pn) 3 1000 st = (x, s1)"
    by (cases "retryWithBackoff env (generateContent env h upd pn) 3 1000 st")
  show thesis
  proof (cases x)
    case (Throws e)
    with gen show thesis by (intro gen_throws [of e s1]) (simp_all add: agent_step_def)
  next
    case (Returns v)
    show thesis
    proof (cases v)
      case None
      with gen Returns show thesis by (intro gen_undefined [of s1]) (simp_all add: agent_step_def)
    next
      case (Some resp)
      note gen' = gen [unfolded Returns Some]
      show thesis
      proof (cases "malformed resp")
        case True
        with gen' show thesis by (intro malformed [of resp s1]) (simp_all add: agent_step_def)
      next
        case nm: False
        have texty: thesis if none: "functionCalls resp = None \<or> functionCalls resp = Some []"
        proof (cases "extractResponseText resp")
          case (Throws e)
          have "agent_step env pn upd uid h st = Finished (Throws e) s1"
            using gen' nm none Throws by (auto simp: agent_step_def)
          with gen' nm none Throws show thesis by (intro final_throws [of resp s1 e])
        next
          case (Returns t)
          have "agent_step env pn upd uid h st =
                  Finished (Returns t)
                    (s1\<lparr>ProjectHistory := (ProjectHistory s1)(pn \<mapsto> h @ [\<lparr>role = Model, parts = [TextPart t]\<rparr>])\<rparr>)"
            using gen' nm none Returns by (auto simp: agent_step_def Let_def)
          with gen' nm none Returns show thesis by (intro final [of resp s1 t])
        qed
        show thesis
        proof (cases "functionCalls resp")
          case None
          then show thesis by (intro texty) simp
        next
          case (Some fcs0)
          show thesis
          proof (cases fcs0)
            case Nil
            with Some show thesis by (intro texty) simp
          next
            case (Cons fc fcs)
            note calls = Some [unfolded Cons]
            show thesis
            proof (cases "upd \<and> \<not> update_allowed (fc_name fc)")
              case True
              have "agent_step env pn upd uid h st =
                Continue (h @ [user_text (if fc_name fc = ''writeToFile'' then no_writeToFile_message pn
                                   else wrong_tool_message (fc_name fc))]) s1"
                using gen' nm calls True by (simp add: agent_step_def)
              with gen' nm calls True show thesis by (intro rejected [of resp s1 fc fcs]) simp_all
            next
              case False
              then have allowed: "upd \<longrightarrow> update_allowed (fc_name fc)" by simp
              then have nw: "\<not> (upd \<and> fc_name fc = ''writeToFile'')"
                using writeToFile_not_allowed by (cases "fc_name fc = ''writeToFile''") simp_all
              obtain y s2 where tool: "call_tool env (fc_name fc) (fc_args fc) uid s1 = (y, s2)"
                by (cases "call_tool env (fc_name fc) (fc_args fc) uid s1")
              show thesis
              proof (cases y)
                case (Throws e)
                have "agent_step env pn upd uid h st = Finished (Throws e) s2"
                  using gen' nm calls False nw tool Throws by (simp add: agent_step_def)
                with gen' nm calls allowed tool Throws show thesis
                  by (intro tool_throws [of resp s1 fc fcs e s2]) simp_all
              next
                case (Returns res)
                have "agent_step env pn upd uid h st =
                   Continue (h @ [\<lparr>role = Model, parts = [FunctionCallPart fc]\<rparr>,
                        \<lparr>role = User, parts = [FunctionResponsePart (fc_name fc) res]\<rparr>]) s2"
                  using gen' nm calls False nw tool Returns by (simp add: agent_step_def)
                with gen' nm calls allowed tool Returns show thesis
                  by (intro tool_returns [of resp s1 fc fcs res s2]) simp_all
              qed
            qed
          qed
        qed
      qed
    qed
  qed
qed

lemma well_paired_append: "well_paired xs \<Longrightarrow> well_paired ys \<Longrightarrow> well_paired (xs @ ys)"
proof (induction xs rule: well_paired.induct)
  case 1
  then show ?case by simp
next
  case (2 t)
  then show ?case by (cases ys) simp_all
next
  case (3 t u rest)
  then show ?case by (simp split: if_splits)
qed

lemma well_paired_user_text: "well_paired [user_text m]"
  by (simp add: user_text_def)

lemma well_paired_model_text: "well_paired [\<lparr>role = Model, parts = [TextPart t]\<rparr>]"
  by simp

lemma well_paired_call_result:
  "well_paired [\<lparr>role = Model, parts = [FunctionCallPart fc]\<rparr>,
                \<lparr>role = User, parts = [FunctionResponsePart (fc_name fc) res]\<rparr>]"
  by simp

lemma agent_step_continue:
  assumes "agent_step env pn upd uid h st = Continue h' st'"
  shows "ProjectHistory st' = ProjectHistory st
         \<and> (\<exists>ts. h' = h @ ts \<and> well_paired ts)
         \<and> (\<exists>nms. tools_invoked (trace st') = tools_invoked (trace st) @ nms
                   \<and> (upd \<longrightarrow> (\<forall>nm \<in> set nms. update_allowed nm)))"
proof (cases rule: agent_step_cases [of env h upd pn st uid])
  case (gen_throws e s1)
  with assms show ?thesis by simp
next
  case (gen_undefined e s1)
  with assms show ?thesis by simp
next
  case (malformed resp s1)
  from retryWithBackoff_frame [OF malformed(1)] malformed(3) assms
  show ?thesis using well_paired_user_text by auto
next
  case (rejected resp s1 fc fcs)
  from retryWithBackoff_frame [OF rejected(1)] rejected(6) assms
  show ?thesis using well_paired_user_text by auto
next
  case (tool_throws resp s1 fc fcs e s2)
  with assms show ?thesis by simp
next
  case (tool_returns resp s1 fc fcs res s2)
  from retryWithBackoff_frame [OF tool_returns(1)] call_tool_frame [OF tool_returns(5)]
  have fr: "ProjectHistory s2 = ProjectHistory st"
           "tools_invoked (trace s2) = tools_invoked (trace st) @ [fc_name fc]" by simp_all
  from tool_returns(6) assms have eq: "st' = s2"
     "h' = h @ [\<lparr>role = Model, parts = [FunctionCallPart fc]\<rparr>,
                \<lparr>role = User, parts = [FunctionResponsePart (fc_name fc) res]\<rparr>]" by simp_all
  have "\<exists>ts. h' = h @ ts \<and> well_paired ts"
    unfolding eq using well_paired_call_result by (intro exI conjI) (rule refl)
  moreover have "\<exists>nms. tools_invoked (trace st') = tools_invoked (trace st) @ nms
                   \<and> (upd \<longrightarrow> (\<forall>nm \<in> set nms. update_allowed nm))"
    unfolding eq using fr(2) tool_returns(4) by (intro exI [of _ "[fc_name fc]"]) simp
  ultimately show ?thesis using fr(1) eq(1) by simp
next
  case (final_throws resp s1 e)
  with assms show ?thesis by simp
next
  case (final resp s1 t)
  with assms show ?thesis by simp
qed

lemma agent_step_finished:
  assumes "agent_step env pn upd uid h st = Finished r st'"
  shows "(\<forall>e. r = Throws e \<longrightarrow> ProjectHistory st' = ProjectHistory st)
         \<and> (\<forall>t. r = Returns t \<longrightarrow>
               ProjectHistory st' = (ProjectHistory st)(pn \<mapsto> h @ [\<lparr>role = Model, parts = [TextPart t]\<rparr>]))
         \<and> (\<exists>nms. tools_invoked (trace st') = tools_invoked (trace st) @ nms
                   \<and> (upd \<longrightarrow> (\<forall>nm \<in> set nms. update_allowed nm)))"
proof (cases rule: agent_step_cases [of env h upd pn st uid])
  case (gen_throws e s1)
  from retryWithBackoff_frame [OF gen_throws(1)] gen_throws(2) assms show ?thesis by auto
next
  case (gen_undefined e s1)
  from retryWithBackoff_frame [OF gen_undefined(1)] gen_undefined(2) assms show ?thesis by auto
next
  case (malformed resp s1)
  with assms show ?thesis by simp
next
  case (rejected resp s1 fc fcs)
  with assms show ?thesis by simp
next
  case (tool_throws resp s1 fc fcs e s2)
  from retryWithBackoff_frame [OF tool_throws(1)] call_tool_frame [OF tool_throws(5)]
  have fr: "ProjectHistory s2 = ProjectHistory st"
           "tools_invoked (trace s2) = tools_invoked (trace st) @ [fc_name fc]" by simp_all
  from tool_throws(6) assms have eq: "st' = s2" "r = Throws e" by simp_all
  have "\<exists>nms. tools_invoked (trace st') = tools_invoked (trace st) @ nms
                   \<and> (upd \<longrightarrow> (\<forall>nm \<in> set nms. update_allowed nm))"
    unfolding eq using fr(2) tool_throws(4) by (intro exI [of _ "[fc_name fc]"]) simp
  then show ?thesis using fr(1) eq by simp
next
  case (tool_returns resp s1 fc fcs res s2)
  with assms show ?thesis by simp
next
  case (final_throws resp s1 e)
  from retryWithBackoff_frame [OF final_throws(1)] final_throws(5) assms show ?thesis by auto
next
  case (final resp s1 t)
  from retryWithBackoff_frame [OF final(1)] final(5) assms show ?thesis by auto
qed

lemma agent_loop_result:
  "agent_loop env fuel pn upd uid h st = Some (r, st') \<Longrightarrow>
     (\<forall>e. r = Throws e \<longrightarrow> ProjectHistory st' = ProjectHistory st)
     \<and> (\<forall>t. r = Returns t \<longrightarrow>
           (\<exists>ts. ProjectHistory st' = (ProjectHistory st)(pn \<mapsto> h @ ts @ [\<lparr>role = Model, parts = [TextPart t]\<rparr>])
                 \<and> well_paired ts))
     \<and> (\<exists>nms. tools_invoked (trace st') = tools_invoked (trace st) @ nms
               \<and> (upd \<longrightarrow> (\<forall>nm \<in> set nms. update_allowed nm)))"
proof (induction fuel arbitrary: h st)
  case 0
  then show ?case by simp
next
  case (Suc fuel)
  show ?case
  proof (cases "agent_step env pn upd uid h st")
    case (Continue h1 s1)
    with Suc.prems have rec: "agent_loop env fuel pn upd uid h1 s1 = Some (r, st')" by simp
    from agent_step_continue [OF Continue] obtain ts1 nms1 where
      s1: "ProjectHistory s1 = ProjectHistory st" and h1: "h1 = h @ ts1" "well_paired ts1"
      and t1: "tools_invoked (trace s1) = tools_invoked (trace st) @ nms1"
              "upd \<longrightarrow> (\<forall>nm \<in> set nms1. update_allowed nm)"
      by (elim conjE exE)
    note ih = Suc.IH [OF rec]
    have thr: "\<forall>e. r = Throws e \<longrightarrow> ProjectHistory st' = ProjectHistory s1"
      using ih by (rule conjunct1)
    have ret: "\<forall>t. r = Returns t \<longrightarrow>
           (\<exists>ts. ProjectHistory st' = (ProjectHistory s1)(pn \<mapsto> h1 @ ts @ [\<lparr>role = Model, parts = [TextPart t]\<rparr>])
                 \<and> well_paired ts)"
      using ih by (rule conjunct1 [OF conjunct2])
    have tls: "\<exists>nms. tools_invoked (trace st') = tools_invoked (trace s1) @ nms
               \<and> (upd \<longrightarrow> (\<forall>nm \<in> set nms. update_allowed nm))"
      using ih by (rule conjunct2 [OF conjunct2])
    have a: "\<forall>e. r = Throws e \<longrightarrow> ProjectHistory st' = ProjectHistory st" using thr s1 by simp
    have b: "\<forall>t. r = Returns t \<longrightarrow>
           (\<exists>ts. ProjectHistory st' = (ProjectHistory st)(pn \<mapsto> h @ ts @ [\<lparr>role = Model, parts = [TextPart t]\<rparr>])
                 \<and> well_paired ts)"
    proof (intro allI impI)
      fix t assume "r = Returns t"
      with ret obtain ts where ts: "ProjectHistory st' = (ProjectHistory s1)(pn \<mapsto> h1 @ ts @ [\<lparr>role = Model, parts = [TextPart t]\<rparr>])"
        "well_paired ts" by (elim allE impE exE conjE) simp_all
      have "ProjectHistory st' = (ProjectHistory st)(pn \<mapsto> h @ (ts1 @ ts) @ [\<lparr>role = Model, parts = [TextPart t]\<rparr>])"
        using ts(1) s1 h1(1) by simp
      moreover have "well_paired (ts1 @ ts)" using h1(2) ts(2) by (rule well_paired_append)
      ultimately show "\<exists>ts. ProjectHistory st' = (ProjectHistory st)(pn \<mapsto> h @ ts @ [\<lparr>role = Model, parts = [TextPart t]\<rparr>])
                 \<and> well_paired ts" by (intro exI [of _ "ts1 @ ts"] conjI)
    qed
    from tls obtain nms where nms: "tools_invoked (trace st') = tools_invoked (trace s1) @ nms"
       "upd \<longrightarrow> (\<forall>nm \<in> set nms. update_allowed nm)" by (elim exE conjE)
    have c: "\<exists>nms. tools_invoked (trace st') = tools_invoked (trace st) @ nms
               \<and> (upd \<longrightarrow> (\<forall>nm \<in> set nms. update_allowed nm))"
      using nms t1 by (intro exI [of _ "nms1 @ nms"]) auto
    from a b c show ?thesis by (intro conjI)
  next
    case (Finished r1 s1)
    with Suc.prems have eq: "r1 = r" "s1 = st'" by simp_all
    note fin = agent_step_finished [OF Finished [unfolded eq]]
    have thr: "\<forall>e. r = Throws e \<longrightarrow> ProjectHistory st' = ProjectHistory st"
      using fin by (rule conjunct1)
    have ret: "\<forall>t. r = Returns t \<longrightarrow>
               ProjectHistory st' = (ProjectHistory st)(pn \<mapsto> h @ [\<lparr>role = Model, parts = [TextPart t]\<rparr>])"
      using fin by (rule conjunct1 [OF conjunct2])
    have tls: "\<exists>nms. tools_invoked (trace st') = tools_invoked (trace st) @ nms
                   \<and> (upd \<longrightarrow> (\<forall>nm \<in> set nms. update_allowed nm))"
      using fin by (rule conjunct2 [OF conjunct2])
    have b: "\<forall>t. r = Returns t \<longrightarrow>
           (\<exists>ts. ProjectHistory st' = (ProjectHistory st)(pn \<mapsto> h @ ts @ [\<lparr>role = Model, parts = [TextPart t]\<rparr>])
                 \<and> well_paired ts)"
    proof (intro allI impI)
      fix t assume "r = Returns t"
      with ret have "ProjectHistory st' = (ProjectHistory st)(pn \<mapsto> h @ [] @ [\<lparr>role = Model, parts = [TextPart t]\<rparr>])"
        by simp
      then show "\<exists>ts. ProjectHistory st' = (ProjectHistory st)(pn \<mapsto> h @ ts @ [\<lparr>role = Model, parts = [TextPart t]\<rparr>])
                 \<and> well_paired ts" by (intro exI [of _ "[]"] conjI) simp_all
    qed
    from thr b tls show ?thesis by (intro conjI)
  qed
qed

lemma context_turns_paired: "well_paired (context_turns pn files)"
  by (simp add: context_turns_def user_text_def)

lemma seed_context_frame:
  assumes "seed_context env pn upd uid st = (ctx, st')"
  shows "ProjectHistory st' = ProjectHistory st \<and> trace st' = trace st \<and> well_paired ctx"
proof (cases "upd \<and> truthy pn")
  case False
  with assms show ?thesis by (auto simp: seed_context_def)
next
  case True
  let ?args = "JObj [(''projectName'', JStr (show_null pn))]"
  obtain x s1 where rd: "readProjectFiles env ?args uid st = (x, s1)"
    by (cases "readProjectFiles env ?args uid st")
  from readProjectFiles_frame [OF rd] have fr: "ProjectHistory s1 = ProjectHistory st" "trace s1 = trace st"
    by simp_all
  from assms True rd have "st' = s1" "ctx = [] \<or> (\<exists>files. ctx = context_turns pn files)"
    by (cases x; simp add: seed_context_def; blast)+
  with fr context_turns_paired show ?thesis by auto
qed

lemma load_history_frame:
  assumes "load_history pn st = (ph, st0)"
  shows "ph = (case ProjectHistory st pn of None \<Rightarrow> [] | Some h \<Rightarrow> h)"
    and "ProjectHistory st0 = (ProjectHistory st)(pn \<mapsto> ph)"
    and "trace st0 = trace st"
  using assms by (auto simp: load_history_def split: option.splits)

lemma runAgent_result:
  assumes "runAgent env fuel problem pn upd uid st = Some (r, st')"
  shows "(\<forall>e. r = Throws e \<longrightarrow>
            ProjectHistory st' = (ProjectHistory st)(pn \<mapsto> (case ProjectHistory st pn of None \<Rightarrow> [] | Some h \<Rightarrow> h)))
     \<and> (\<forall>t. r = Returns t \<longrightarrow>
           (\<exists>ts. ProjectHistory st' =
                   (ProjectHistory st)(pn \<mapsto> (case ProjectHistory st pn of None \<Rightarrow> [] | Some h \<Rightarrow> h)
                                              @ ts @ [\<lparr>role = Model, parts = [TextPart t]\<rparr>])
                 \<and> well_paired ts))
     \<and> (\<exists>nms. tools_invoked (trace st') = tools_invoked (trace st) @ nms
               \<and> (upd \<longrightarrow> (\<forall>nm \<in> set nms. update_allowed nm)))"
proof -
  let ?prior = "case ProjectHistory st pn of None \<Rightarrow> [] | Some h \<Rightarrow> h"
  obtain ph st0 where lh: "load_history pn st = (ph, st0)" by (cases "load_history pn st")
  obtain ctx st1 where sc: "seed_context env pn upd uid st0 = (ctx, st1)"
    by (cases "seed_context env pn upd uid st0")
  from load_history_frame [OF lh] have l: "ph = ?prior" "ProjectHistory st0 = (ProjectHistory st)(pn \<mapsto> ?prior)"
    "trace st0 = trace st" by simp_all
  from seed_context_frame [OF sc] have s: "ProjectHistory st1 = ProjectHistory st0" "trace st1 = trace st0"
    "well_paired ctx" by simp_all
  from assms lh sc have loop: "agent_loop env fuel pn upd uid (ph @ ctx @ [user_text problem]) st1 = Some (r, st')"
    by (simp add: runAgent_def)
  note res = agent_loop_result [OF loop]
  have a: "\<forall>e. r = Throws e \<longrightarrow> ProjectHistory st' = (ProjectHistory st)(pn \<mapsto> ?prior)"
    using res [THEN conjunct1] s(1) l(2) by simp
  have b: "\<forall>t. r = Returns t \<longrightarrow>
           (\<exists>ts. ProjectHistory st' = (ProjectHistory st)(pn \<mapsto> ?prior @ ts @ [\<lparr>role = Model, parts = [TextPart t]\<rparr>])
                 \<and> well_paired ts)"
  proof (intro allI impI)
    fix t assume "r = Returns t"
    with res [THEN conjunct2, THEN conjunct1] obtain ts where
      ts: "ProjectHistory st' = (ProjectHistory st1)(pn \<mapsto> (ph @ ctx @ [user_text problem]) @ ts
                                                   @ [\<lparr>role = Model, parts = [TextPart t]\<rparr>])"
          "well_paired ts" by (elim allE impE exE conjE) simp_all
    have "ProjectHistory st' = (ProjectHistory st)(pn \<mapsto> ?prior @ (ctx @ [user_text problem] @ ts)
                                                   @ [\<lparr>role = Model, parts = [TextPart t]\<rparr>])"
      using ts(1) s(1) l(1,2) by simp
    moreover have "well_paired (ctx @ [user_text problem] @ ts)"
      using s(3) ts(2) well_paired_user_text by (intro well_paired_append)
    ultimately show "\<exists>ts. ProjectHistory st' = (ProjectHistory st)(pn \<mapsto> ?prior @ ts @ [\<lparr>role = Model, parts = [TextPart t]\<rparr>])
                 \<and> well_paired ts" by (intro exI [of _ "ctx @ [user_text problem] @ ts"] conjI)
  qed
  have c: "\<exists>nms. tools_invoked (trace st') = tools_invoked (trace st) @ nms
               \<and> (upd \<longrightarrow> (\<forall>nm \<in> set nms. update_allowed nm))"
    using res [THEN conjunct2, THEN conjunct2] s(2) l(3) by simp
  from a b c show ?thesis by (intro conjI)
qed

lemma reachable_paired:
  "reachable env st \<Longrightarrow> ProjectHistory st q = Some h \<Longrightarrow> well_paired h"
proof (induction arbitrary: q h rule: reachable.induct)
  case (start st)
  then show ?case by simp
next
  case (run st fuel userProblem projectName isUpdate userId r st')
  let ?prior = "case ProjectHistory st projectName of None \<Rightarrow> [] | Some h \<Rightarrow> h"
  have prior: "well_paired ?prior"
    using run.IH [of projectName] by (cases "ProjectHistory st projectName") simp_all
  note res = runAgent_result [OF run.hyps(2)]
  show ?case
  proof (cases "q = projectName")
    case False
    have "ProjectHistory st' q = ProjectHistory st q"
    proof (cases r)
      case (Throws e)
      with res [THEN conjunct1] False show ?thesis by simp
    next
      case (Returns t)
      with res [THEN conjunct2, THEN conjunct1] False show ?thesis by auto
    qed
    with run.prems run.IH [of q h] show ?thesis by simp
  next
    case True
    show ?thesis
    proof (cases r)
      case (Throws e)
      with res [THEN conjunct1] True run.prems have "h = ?prior" by simp
      with prior show ?thesis by simp
    next
      case (Returns t)
      with res [THEN conjunct2, THEN conjunct1] obtain ts where
        ts: "ProjectHistory st' = (ProjectHistory st)(projectName \<mapsto> ?prior @ ts @ [\<lparr>role = Model, parts = [TextPart t]\<rparr>])"
            "well_paired ts" by (elim allE impE exE conjE) simp_all
      with True run.prems have "h = ?prior @ ts @ [\<lparr>role = Model, parts = [TextPart t]\<rparr>]" by simp
      moreover have "well_paired (?prior @ ts @ [\<lparr>role = Model, parts = [TextPart t]\<rparr>])"
        using prior ts(2) well_paired_model_text by (intro well_paired_append)
      ultimately show ?thesis by simp
    qed
  qed
next
  case (entered st projectName)
  then show ?case by (auto simp: load_history_def split: option.splits if_splits)
next
  case (deleted st projectName)
  then show ?case by (auto split: if_splits)
next
  case (outside st w)
  then show ?case by simp
qed

lemma retryWithBackoff_first:
  "retryWithBackoff env fn 3 d st =
     (case fst (fn (world st)) of
        Returns v \<Rightarrow> (Returns (Some v), st\<lparr>world := snd (fn (world st)), trace := trace st @ [FnInvoked]\<rparr>)
      | Throws e \<Rightarrow> retry_from env fn 3 d 1 st)"
proof (cases "fst (fn (world st))")
  case (Returns v)
  then show ?thesis unfolding retryWithBackoff_def
    using retry_from_returns [of fn st v 1 3 env d] by simp
next
  case (Throws e)
  then show ?thesis by (simp add: retryWithBackoff_def)
qed

lemma agent_loop_unfold:
  "agent_loop env fuel pn upd uid h st =
     (if fuel = 0 then None
      else (case agent_step env pn upd uid h st of
              Continue h1 s1 \<Rightarrow> agent_loop env (fuel - 1) pn upd uid h1 s1
            | Finished r s1 \<Rightarrow> Some (r, s1)))"
  by (cases fuel) (simp_all split: step.split)

lemma user_text_turn: "user_text t = \<lparr>role = User, parts = [TextPart (Some t)]\<rparr>"
  by (simp add: user_text_def)

lemma show_null_case: "show_null pn = (case pn of None \<Rightarrow> ''null'' | Some p \<Rightarrow> p)"
  by (cases pn) simp_all

lemma malformed_message_text:
  "malformed_message pn =
     [CHR 0xF0, CHR 0x9F, CHR 0x9A, CHR 0xA8]
     @ '' ERROR: Your last function call was malformed. Please follow these rules EXACTLY:''
     @ [CHR 0x0A, CHR 0x0A]
     @ ''1. For writeToFile, the filePath MUST be in this exact format:'' @ [CHR 0x0A]
     @ ''   - '' @ [CHR 0x22] @ ''projects/'' @ (case pn of None \<Rightarrow> ''null'' | Some p \<Rightarrow> p)
     @ ''/index.html'' @ [CHR 0x22, CHR 0x0A]
     @ ''   - '' @ [CHR 0x22] @ ''projects/'' @ (case pn of None \<Rightarrow> ''null'' | Some p \<Rightarrow> p)
     @ ''/style.css'' @ [CHR 0x22, CHR 0x0A]
     @ ''   - '' @ [CHR 0x22] @ ''projects/'' @ (case pn of None \<Rightarrow> ''null'' | Some p \<Rightarrow> p)
     @ ''/script.js'' @ [CHR 0x22, CHR 0x0A, CHR 0x0A]
     @ ''2. Make sure all required parameters are provided correctly'' @ [CHR 0x0A]
     @ ''3. Use valid JSON format for all arguments'' @ [CHR 0x0A]
     @ ''4. Do NOT add extra fields or modify the function signature'' @ [CHR 0x0A, CHR 0x0A]
     @ ''Please try again with the correct format.''"
  by (simp add: malformed_message_def siren_def dq_def nl_def show_null_case)

lemma no_writeToFile_message_text:
  "no_writeToFile_message pn =
     [CHR 0xF0, CHR 0x9F, CHR 0x9A, CHR 0xA8]
     @ '' ERROR: You cannot use writeToFile tool for updates. You MUST use updateProjectFiles tool to modify existing files in project ''
     @ [CHR 0x22] @ (case pn of None \<Rightarrow> ''null'' | Some p \<Rightarrow> p) @ [CHR 0x22]
     @ ''. Please try again with the correct tool.''"
  by (simp add: no_writeToFile_message_def siren_def dq_def show_null_case)

lemma wrong_tool_message_text:
  "wrong_tool_message nm =
     [CHR 0xF0, CHR 0x9F, CHR 0x9A, CHR 0xA8]
     @ '' ERROR: For updates, you should use updateProjectFiles tool to modify files. You used '' @ nm
     @ '' which is not appropriate for updates. Please use updateProjectFiles to make the requested changes.''"
  by (simp add: wrong_tool_message_def siren_def)

lemma agent_step_rejects_with:
  assumes gen: "retryWithBackoff env (generateContent env h True pn) 3 1000 st = (Returns (Some resp), s1)"
    and calls: "functionCalls resp = Some (fc # fcs)"
    and bad: "\<not> update_allowed (fc_name fc)"
  shows "agent_step env pn True uid h st =
           Continue (h @ [user_text (if malformed resp then malformed_message pn
                                     else if fc_name fc = ''writeToFile'' then no_writeToFile_message pn
                                     else wrong_tool_message (fc_name fc))]) s1"
proof (cases "malformed resp")
  case True
  with gen show ?thesis by (simp add: agent_step_def)
next
  case False
  with gen calls bad show ?thesis by (simp add: agent_step_def)
qed

lemma step_malformed:
  assumes "fst (generateContent env h upd pn (world st)) = Returns resp" "malformed resp"
  shows "agent_step env pn upd uid h st =
           Continue (h @ [user_text (malformed_message pn)])
             (st\<lparr>world := snd (generateContent env h upd pn (world st)), trace := trace st @ [FnInvoked]\<rparr>)"
  using assms by (simp add: agent_step_def retryWithBackoff_first)

lemma step_final:
  assumes "fst (generateContent env h upd pn (world st)) = Returns resp" "\<not> malformed resp"
    and "functionCalls resp = None \<or> functionCalls resp = Some []"
    and "extractResponseText resp = Returns t"
  shows "agent_step env pn upd uid h st =
           Finished (Returns t)
             (st\<lparr>world := snd (generateContent env h upd pn (world st)), trace := trace st @ [FnInvoked],
                 ProjectHistory := (ProjectHistory st)(pn \<mapsto> h @ [\<lparr>role = Model, parts = [TextPart t]\<rparr>])\<rparr>)"
  using assms by (auto simp: agent_step_def retryWithBackoff_first Let_def)

lemma step_tool:
  assumes "fst (generateContent env h upd pn (world st)) = Returns resp" "\<not> malformed resp"
    and "functionCalls resp = Some (fc # fcs)"
    and "upd \<longrightarrow> update_allowed (fc_name fc)"
    and "call_tool env (fc_name fc) (fc_args fc) uid
           (st\<lparr>world := snd (generateContent env h upd pn (world st)), trace := trace st @ [FnInvoked]\<rparr>)
         = (Returns res, s2)"
  shows "agent_step env pn upd uid h st =
           Continue (h @ [\<lparr>role = Model, parts = [FunctionCallPart fc]\<rparr>,
                          \<lparr>role = User, parts = [FunctionResponsePart (fc_name fc) res]\<rparr>]) s2"
proof -
  have nw: "\<not> (upd \<and> fc_name fc = ''writeToFile'')"
    using assms(4) writeToFile_not_allowed by (cases "fc_name fc = ''writeToFile''") simp_all
  show ?thesis using assms nw by (simp add: agent_step_def retryWithBackoff_first)
qed

lemma writeToFile_returns:
  assumes not_null: "\<not> nullish args"
  shows "\<exists>m. fst (writeToFile env args userId st) = Returns (JStr m)"
proof (cases "storageLoaded env (world (storage_waited env st))")
  case False
  with not_null have "fst (writeToFile env args userId st) =
      Returns (JStr (''Error: '' @ ''Storage service not initialized. Please restart the server.''))"
    by (simp add: writeToFile_def Let_def)
  then show ?thesis by (rule exI)
next
  case loaded: True
  show ?thesis
  proof (cases "\<exists>fp. get_prop args ''filePath'' = JStr fp")
    case False
    with not_null loaded have "fst (writeToFile env args userId st) =
        Returns (JStr (''Error: '' @ split_type_error (get_prop args ''filePath'')))"
      by (cases "get_prop args ''filePath''") (simp_all add: writeToFile_def Let_def)
    then show ?thesis by (rule exI)
  next
    case True
    then obtain fp where fp: "get_prop args ''filePath'' = JStr fp" by (rule exE)
    note unfolded = writeToFile_string_path [OF not_null fp, of env userId st]
    let ?idx = "findIndex (\<lambda>part. part = ''projects'') (split_path fp)"
    show ?thesis
    proof (cases "?idx = - 1 \<or> ?idx \<ge> int (length (split_path fp)) - 2")
      case True
      with loaded have "fst (writeToFile env args userId st) =
          Returns (JStr (''Error: '' @ ''Invalid file path. Expected format: projects/projectName/fileName''))"
        unfolding unfolded by simp
      then show ?thesis by (rule exI)
    next
      case False
      let ?pn = "split_path fp ! nat (?idx + 1)"
      let ?fn = "split_path fp ! nat (?idx + 2)"
      let ?saved = "fst (saveFile env ?pn ?fn (get_prop args ''content'') userId (world (storage_waited env st)))"
      show ?thesis
      proof (cases ?saved)
        case (Returns u)
        with loaded False have "fst (writeToFile env args userId st) =
            Returns (JStr (''Success: Content written to '' @ ?fn @ '' in project '' @ ?pn))"
          unfolding unfolded by (simp add: ext_split log_event_def)
        then show ?thesis by (rule exI)
      next
        case (Throws e)
        with loaded False have "fst (writeToFile env args userId st) =
            Returns (JStr (''Error: '' @ show_undefined (message e)))"
          unfolding unfolded by (simp add: ext_split log_event_def)
        then show ?thesis by (rule exI)
      qed
    qed
  qed
qed

lemma call_writeToFile_returns:
  assumes "\<not> nullish args"
  shows "\<exists>m s2. call_tool env ''writeToFile'' args userId st = (Returns (JStr m), s2)"
proof -
  let ?st1 = "log_event (ToolInvoked ''writeToFile'') st"
  from writeToFile_returns [OF assms, of env userId ?st1]
  obtain m where m: "fst (writeToFile env args userId ?st1) = Returns (JStr m)" by (rule exE)
  have "call_tool env ''writeToFile'' args userId st = writeToFile env args userId ?st1"
    by (simp add: call_tool_def Let_def)
  with m have "call_tool env ''writeToFile'' args userId st
                 = (Returns (JStr m), snd (writeToFile env args userId ?st1))"
    by (cases "writeToFile env args userId ?st1") simp
  then show ?thesis by (intro exI)
qed

lemma write_step:
  assumes gen: "\<And>w. fst (generateContent env h False pn w) = Returns resp"
    and resp: "\<not> malformed resp" "functionCalls resp = Some (FunctionCall ''writeToFile'' args # fcs)"
    and not_null: "\<not> nullish args"
  shows "\<exists>m s2. agent_step env pn False uid h st =
           Continue (h @ [\<lparr>role = Model, parts = [FunctionCallPart (FunctionCall ''writeToFile'' args)]\<rparr>,
                          \<lparr>role = User, parts = [FunctionResponsePart ''writeToFile'' (JStr m)]\<rparr>]) s2
         \<and> ProjectHistory s2 = ProjectHistory st"
proof -
  let ?s1 = "st\<lparr>world := snd (generateContent env h False pn (world st)), trace := trace st @ [FnInvoked]\<rparr>"
  from call_writeToFile_returns [OF not_null, of env uid ?s1]
  obtain m s2 where tool: "call_tool env ''writeToFile'' args uid ?s1 = (Returns (JStr m), s2)"
    by (elim exE)
  have "agent_step env pn False uid h st =
           Continue (h @ [\<lparr>role = Model, parts = [FunctionCallPart (FunctionCall ''writeToFile'' args)]\<rparr>,
                          \<lparr>role = User, parts = [FunctionResponsePart (fc_name (FunctionCall ''writeToFile'' args)) (JStr m)]\<rparr>]) s2"
    by (rule step_tool [of env h False pn st resp _ fcs]) (simp_all add: gen resp tool)
  moreover from call_tool_frame [OF tool] have "ProjectHistory s2 = ProjectHistory st" by simp
  ultimately show ?thesis by (intro exI [of _ m] exI [of _ s2]) simp
qed

lemmas run_defs =
  runAgent_def load_history_def seed_context_def readProjectFiles_def nullish_def
  agent_step_def retryWithBackoff_first agent_loop_unfold mock_env_def initial_sys_def ext_def
  context_turns_def typeof_object_def tool_response_def text_response_def malformed_response_def
  malformed_def update_allowed_def call_tool_def listProjects_def log_event_def
  extractResponseText_def Let_def

lemma policy_run:
  "runAgent (mock_env policy_script (Returns [])) 4 ''make it blue'' (Some ''site'') True None initial_sys
  = Some (Returns (Some ''Updated''),
      \<lparr>world = 3,
       ProjectHistory = [Some ''site'' \<mapsto>
         [user_text ''make it blue'', user_text (wrong_tool_message ''deployProject''),
          \<lparr>role = Model, parts = [FunctionCallPart (FunctionCall ''listProjects'' (JObj []))]\<rparr>,
          \<lparr>role = User, parts = [FunctionResponsePart ''listProjects'' (JArr [])]\<rparr>,
          \<lparr>role = Model, parts = [TextPart (Some ''Updated'')]\<rparr>]],
       trace = [FnInvoked, FnInvoked, ToolInvoked ''listProjects'', FnInvoked]\<rparr>)"
  by (simp add: run_defs policy_script_def)

lemma failing_run:
  "runAgent (mock_env always_overloaded (Returns [])) 2 ''add a footer'' (Some ''site'') False None earlier_sys
     = Some (Throws (Error ''503 Service Unavailable''),
             earlier_sys\<lparr>world := 3, trace := [FnInvoked, Slept 1000, FnInvoked, Slept 2000, FnInvoked]\<rparr>)"
  by (simp add: run_defs retry_from.simps always_overloaded_def earlier_sys_def is_503_def Error_def do_sleep_def)

section \<open>Properties of runAgent\<close>

text \<open>
  C1. In update mode, when the (retried) generation yields a response that requests a
  tool other than \<^verbatim>\<open>updateProjectFiles\<close>, \<^verbatim>\<open>readProjectFiles\<close> and \<^verbatim>\<open>listProjects\<close>, the pass
  calls no tool handler: it ends in \<open>Continue\<close> with one user turn appended to the
  history, in the state the generation left, and the loop goes on from there with
  \<open>isUpdate\<close> still true. The turn carries the text of the correction, given here
  character by character (the first four are the UTF-8 bytes of the siren sign): the one
  for a malformed call when the response is flagged so, the one that forbids
  \<^verbatim>\<open>writeToFile\<close> for that tool, and otherwise the one that names the tool requested.
  Over a whole finished run in update mode, every handler that was called is one of the
  three.
\<close>

theorem update_mode_policy:
  "(\<forall>resp s1 fc fcs.
       retryWithBackoff env (generateContent env h True pn) 3 1000 st = (Returns (Some resp), s1)
       \<and> functionCalls resp = Some (fc # fcs) \<and> \<not> update_allowed (fc_name fc)
     \<longrightarrow> tools_invoked (trace s1) = tools_invoked (trace st)
         \<and> (let project = (case pn of None \<Rightarrow> ''null'' | Some p \<Rightarrow> p);
                 correction =
                   (if malformed resp then
                      [CHR 0xF0, CHR 0x9F, CHR 0x9A, CHR 0xA8]
                      @ '' ERROR: Your last function call was malformed. Please follow these rules EXACTLY:''
                      @ [CHR 0x0A, CHR 0x0A]
                      @ ''1. For writeToFile, the filePath MUST be in this exact format:'' @ [CHR 0x0A]
                      @ ''   - '' @ [CHR 0x22] @ ''projects/'' @ project @ ''/index.html'' @ [CHR 0x22, CHR 0x0A]
                      @ ''   - '' @ [CHR 0x22] @ ''projects/'' @ project @ ''/style.css'' @ [CHR 0x22, CHR 0x0A]
                      @ ''   - '' @ [CHR 0x22] @ ''projects/'' @ project @ ''/script.js''
                      @ [CHR 0x22, CHR 0x0A, CHR 0x0A]
                      @ ''2. Make sure all required parameters are provided correctly'' @ [CHR 0x0A]
                      @ ''3. Use valid JSON format for all arguments'' @ [CHR 0x0A]
                      @ ''4. Do NOT add extra fields or modify the function signature'' @ [CHR 0x0A, CHR 0x0A]
                      @ ''Please try again with the correct format.''
                    else if fc_name fc = ''writeToFile'' then
                      [CHR 0xF0, CHR 0x9F, CHR 0x9A, CHR 0xA8]
                      @ '' ERROR: You cannot use writeToFile tool for updates. You MUST use updateProjectFiles tool to modify existing files in project ''
                      @ [CHR 0x22] @ project @ [CHR 0x22] @ ''. Please try again with the correct tool.''
                    else
                      [CHR 0xF0, CHR 0x9F, CHR 0x9A, CHR 0xA8]
                      @ '' ERROR: For updates, you should use updateProjectFiles tool to modify files. You used ''
                      @ fc_name fc
                      @ '' which is not appropriate for updates. Please use updateProjectFiles to make the requested changes.'');
                 turn = \<lparr>role = User, parts = [TextPart (Some correction)]\<rparr>
             in agent_step env pn True uid h st = Continue (h @ [turn]) s1
                \<and> agent_loop env (Suc fuel) pn True uid h st
                    = agent_loop env fuel pn True uid (h @ [turn]) s1))
   \<and> (\<forall>r st'. runAgent env fuel problem pn True uid st = Some (r, st') \<longrightarrow>
         (\<exists>nms. tools_invoked (trace st') = tools_invoked (trace st) @ nms
                \<and> (\<forall>nm \<in> set nms. update_allowed nm)))"
proof (intro conjI allI impI)
  fix resp s1 fc fcs
  assume a: "retryWithBackoff env (generateContent env h True pn) 3 1000 st = (Returns (Some resp), s1)
       \<and> functionCalls resp = Some (fc # fcs) \<and> \<not> update_allowed (fc_name fc)"
  then have gen: "retryWithBackoff env (generateContent env h True pn) 3 1000 st = (Returns (Some resp), s1)"
    and calls: "functionCalls resp = Some (fc # fcs)" and bad: "\<not> update_allowed (fc_name fc)"
    by simp_all
  from retryWithBackoff_frame [OF gen]
  show "tools_invoked (trace s1) = tools_invoked (trace st)" by (rule conjunct2)
  note step = agent_step_rejects_with [OF gen calls bad, of uid]
  have loop: "agent_loop env (Suc fuel) pn True uid h st
                = agent_loop env fuel pn True uid
                    (h @ [user_text (if malformed resp then malformed_message pn
                                     else if fc_name fc = ''writeToFile'' then no_writeToFile_message pn
                                     else wrong_tool_message (fc_name fc))]) s1"
    using step by simp
  show "let project = (case pn of None \<Rightarrow> ''null'' | Some p \<Rightarrow> p);
                 correction =
                   (if malformed resp then
                      [CHR 0xF0, CHR 0x9F, CHR 0x9A, CHR 0xA8]
                      @ '' ERROR: Your last function call was malformed. Please follow these rules EXACTLY:''
                      @ [CHR 0x0A, CHR 0x0A]
                      @ ''1. For writeToFile, the filePath MUST be in this exact format:'' @ [CHR 0x0A]
                      @ ''   - '' @ [CHR 0x22] @ ''projects/'' @ project @ ''/index.html'' @ [CHR 0x22, CHR 0x0A]
                      @ ''   - '' @ [CHR 0x22] @ ''projects/'' @ project @ ''/style.css'' @ [CHR 0x22, CHR 0x0A]
                      @ ''   - '' @ [CHR 0x22] @ ''projects/'' @ project @ ''/script.js''
                      @ [CHR 0x22, CHR 0x0A, CHR 0x0A]
                      @ ''2. Make sure all required parameters are provided correctly'' @ [CHR 0x0A]
                      @ ''3. Use valid JSON format for all arguments'' @ [CHR 0x0A]
                      @ ''4. Do NOT add extra fields or modify the function signature'' @ [CHR 0x0A, CHR 0x0A]
                      @ ''Please try again with the correct format.''
                    else if fc_name fc = ''writeToFile'' then
                      [CHR 0xF0, CHR 0x9F, CHR 0x9A, CHR 0xA8]
                      @ '' ERROR: You cannot use writeToFile tool for updates. You MUST use updateProjectFiles tool to modify existing files in project ''
                      @ [CHR 0x22] @ project @ [CHR 0x22] @ ''. Please try again with the correct tool.''
                    else
                      [CHR 0xF0, CHR 0x9F, CHR 0x9A, CHR 0xA8]
                      @ '' ERROR: For updates, you should use updateProjectFiles tool to modify files. You used ''
                      @ fc_name fc
                      @ '' which is not appropriate for updates. Please use updateProjectFiles to make the requested changes.'');
                 turn = \<lparr>role = User, parts = [TextPart (Some correction)]\<rparr>
             in agent_step env pn True uid h st = Continue (h @ [turn]) s1
                \<and> agent_loop env (Suc fuel) pn True uid h st
                    = agent_loop env fuel pn True uid (h @ [turn]) s1"
  proof (cases "malformed resp")
    case True
    with step loop show ?thesis
      by (simp add: Let_def user_text_turn malformed_message_text)
  next
    case nm: False
    show ?thesis
    proof (cases "fc_name fc = ''writeToFile''")
      case True
      with nm step loop show ?thesis
        by (simp add: Let_def user_text_turn no_writeToFile_message_text)
    next
      case False
      with nm step loop show ?thesis
        by (simp add: Let_def user_text_turn wrong_tool_message_text)
    qed
  qed
next
  fix r st'
  assume "runAgent env fuel problem pn True uid st = Some (r, st')"
  from runAgent_result [OF this, THEN conjunct2, THEN conjunct2]
  show "\<exists>nms. tools_invoked (trace st') = tools_invoked (trace st) @ nms
                \<and> (\<forall>nm \<in> set nms. update_allowed nm)" by simp
qed

theorem update_mode_policy_witness:
  "agent_loop (mock_env policy_script (Returns [])) (Suc 2) (Some ''site'') True None
           [user_text ''make it blue''] initial_sys
        = agent_loop (mock_env policy_script (Returns [])) 2 (Some ''site'') True None
           ([user_text ''make it blue'']
            @ [\<lparr>role = User, parts = [TextPart (Some
                 ([CHR 0xF0, CHR 0x9F, CHR 0x9A, CHR 0xA8]
                  @ '' ERROR: For updates, you should use updateProjectFiles tool to modify files. You used deployProject which is not appropriate for updates. Please use updateProjectFiles to make the requested changes.''))]\<rparr>])
           (initial_sys\<lparr>world := 1, trace := [FnInvoked]\<rparr>)
   \<and> runAgent (mock_env policy_script (Returns [])) 4 ''make it blue'' (Some ''site'') True None initial_sys
     = Some (Returns (Some ''Updated''),
         \<lparr>world = 3,
          ProjectHistory = [Some ''site'' \<mapsto>
            [user_text ''make it blue'', user_text (wrong_tool_message ''deployProject''),
             \<lparr>role = Model, parts = [FunctionCallPart (FunctionCall ''listProjects'' (JObj []))]\<rparr>,
             \<lparr>role = User, parts = [FunctionResponsePart ''listProjects'' (JArr [])]\<rparr>,
             \<lparr>role = Model, parts = [TextPart (Some ''Updated'')]\<rparr>]],
          trace = [FnInvoked, FnInvoked, ToolInvoked ''listProjects'', FnInvoked]\<rparr>)
   \<and> (\<exists>nms. tools_invoked [FnInvoked, FnInvoked, ToolInvoked ''listProjects'', FnInvoked] = nms
            \<and> (\<forall>nm \<in> set nms. update_allowed nm))"
proof -
  let ?env = "mock_env policy_script (Returns [])"
  let ?h = "[user_text ''make it blue'']"
  let ?resp = "tool_response ''deployProject'' (JObj [(''projectName'', JStr ''site'')])"
  let ?s1 = "initial_sys\<lparr>world := 1, trace := [FnInvoked]\<rparr>"
  have gen: "retryWithBackoff ?env (generateContent ?env ?h True (Some ''site'')) 3 1000 initial_sys
               = (Returns (Some ?resp), ?s1)"
    by (simp add: retryWithBackoff_first mock_env_def policy_script_def initial_sys_def)
  have calls: "functionCalls ?resp = Some [FunctionCall ''deployProject'' (JObj [(''projectName'', JStr ''site'')])]"
    by (simp add: tool_response_def)
  have bad: "\<not> update_allowed (fc_name (FunctionCall ''deployProject'' (JObj [(''projectName'', JStr ''site'')])))"
    by (simp add: update_allowed_def)
  have fine: "\<not> malformed ?resp"
    by (simp add: malformed_def tool_response_def)
  note inst = update_mode_policy [where env = ?env and h = ?h and pn = "Some ''site''" and st = initial_sys
                                    and uid = None and fuel = 2 and problem = "''make it blue''"]
  have hyp: "retryWithBackoff ?env (generateContent ?env ?h True (Some ''site'')) 3 1000 initial_sys
               = (Returns (Some ?resp), ?s1)
             \<and> functionCalls ?resp = Some [FunctionCall ''deployProject'' (JObj [(''projectName'', JStr ''site'')])]
             \<and> \<not> update_allowed (fc_name (FunctionCall ''deployProject'' (JObj [(''projectName'', JStr ''site'')])))"
    using gen calls bad by (intro conjI)
  from inst [THEN conjunct1, rule_format, OF hyp, THEN conjunct2] fine
  have first: "agent_loop ?env (Suc 2) (Some ''site'') True None ?h initial_sys
        = agent_loop ?env 2 (Some ''site'') True None
           (?h @ [\<lparr>role = User, parts = [TextPart (Some
                 ([CHR 0xF0, CHR 0x9F, CHR 0x9A, CHR 0xA8]
                  @ '' ERROR: For updates, you should use updateProjectFiles tool to modify files. You used deployProject which is not appropriate for updates. Please use updateProjectFiles to make the requested changes.''))]\<rparr>])
           ?s1"
    by (simp add: Let_def)
  note inst4 = update_mode_policy [where env = ?env and h = ?h and pn = "Some ''site''" and st = initial_sys
                                     and uid = None and fuel = 4 and problem = "''make it blue''"]
  from inst4 [THEN conjunct2, rule_format, OF policy_run]
  have second: "\<exists>nms. tools_invoked [FnInvoked, FnInvoked, ToolInvoked ''listProjects'', FnInvoked] = nms
            \<and> (\<forall>nm \<in> set nms. update_allowed nm)"
    by (simp add: initial_sys_def)
  from first policy_run second show ?thesis by (intro conjI)
qed

text \<open>
  C2. In every state the process can reach, a run that completes with a text answer
  leaves a stored history for its project (and for every other project) in which each
  tool-call turn is a model turn followed at once by exactly one user turn with that
  tool's result, and no tool result stands elsewhere.
\<close>

theorem turn_pairing:
  assumes "reachable env st"
    and "runAgent env fuel userProblem projectName isUpdate userId st = Some (Returns responseText, st')"
  shows "\<exists>h. ProjectHistory st' projectName = Some h \<and> well_paired h
             \<and> (\<forall>q h'. ProjectHistory st' q = Some h' \<longrightarrow> well_paired h')"
proof -
  have r': "reachable env st'" using assms by (rule reachable.run)
  from runAgent_result [OF assms(2), THEN conjunct2, THEN conjunct1]
  obtain ts where "ProjectHistory st' =
      (ProjectHistory st)(projectName \<mapsto> (case ProjectHistory st projectName of None \<Rightarrow> [] | Some h \<Rightarrow> h)
                                              @ ts @ [\<lparr>role = Model, parts = [TextPart responseText]\<rparr>])"
    by (elim allE impE exE conjE) simp_all
  then obtain h where h: "ProjectHistory st' projectName = Some h" by simp
  have all: "\<forall>q h'. ProjectHistory st' q = Some h' \<longrightarrow> well_paired h'"
    using reachable_paired [OF r'] by (intro allI impI)
  with h have "well_paired h" by (elim allE impE) simp_all
  with h all show ?thesis by (intro exI [of _ h] conjI)
qed

theorem turn_pairing_witness:
  "reachable (mock_env policy_script (Returns [])) initial_sys
   \<and> runAgent (mock_env policy_script (Returns [])) 4 ''make it blue'' (Some ''site'') True None initial_sys
     = Some (Returns (Some ''Updated''),
         \<lparr>world = 3,
          ProjectHistory = [Some ''site'' \<mapsto>
            [user_text ''make it blue'', user_text (wrong_tool_message ''deployProject''),
             \<lparr>role = Model, parts = [FunctionCallPart (FunctionCall ''listProjects'' (JObj []))]\<rparr>,
             \<lparr>role = User, parts = [FunctionResponsePart ''listProjects'' (JArr [])]\<rparr>,
             \<lparr>role = Model, parts = [TextPart (Some ''Updated'')]\<rparr>]],
          trace = [FnInvoked, FnInvoked, ToolInvoked ''listProjects'', FnInvoked]\<rparr>)
   \<and> well_paired
       [user_text ''make it blue'', user_text (wrong_tool_message ''deployProject''),
        \<lparr>role = Model, parts = [FunctionCallPart (FunctionCall ''listProjects'' (JObj []))]\<rparr>,
        \<lparr>role = User, parts = [FunctionResponsePart ''listProjects'' (JArr [])]\<rparr>,
        \<lparr>role = Model, parts = [TextPart (Some ''Updated'')]\<rparr>]"
proof -
  have start: "reachable (mock_env policy_script (Returns [])) initial_sys"
    by (rule reachable.start) (simp add: initial_sys_def)
  from turn_pairing [OF start policy_run]
  have "well_paired
       [user_text ''make it blue'', user_text (wrong_tool_message ''deployProject''),
        \<lparr>role = Model, parts = [FunctionCallPart (FunctionCall ''listProjects'' (JObj []))]\<rparr>,
        \<lparr>role = User, parts = [FunctionResponsePart ''listProjects'' (JArr [])]\<rparr>,
        \<lparr>role = Model, parts = [TextPart (Some ''Updated'')]\<rparr>]"
    by (simp add: user_text_def)
  with start policy_run show ?thesis by (intro conjI)
qed

text \<open>
  C9. A run that ends by throwing leaves \<^verbatim>\<open>ProjectHistory\<close> as it found it, apart from
  the empty entry created on entry for a project that had none: none of the turns of
  the run is stored. Only a run that ends with a text answer stores its turns, the
  model's text last.
\<close>

theorem failed_run_keeps_history:
  assumes "runAgent env fuel userProblem projectName isUpdate userId st = Some (r, st')"
  shows "(\<forall>e. r = Throws e \<longrightarrow>
            ProjectHistory st' =
              (ProjectHistory st)(projectName \<mapsto> (case ProjectHistory st projectName of None \<Rightarrow> [] | Some h \<Rightarrow> h)))
       \<and> (\<forall>t. r = Returns t \<longrightarrow>
            (\<exists>ts. ProjectHistory st' =
               (ProjectHistory st)(projectName \<mapsto> (case ProjectHistory st projectName of None \<Rightarrow> [] | Some h \<Rightarrow> h)
                                       @ ts @ [\<lparr>role = Model, parts = [TextPart t]\<rparr>])))"
proof -
  note res = runAgent_result [OF assms]
  have a: "\<forall>e. r = Throws e \<longrightarrow>
            ProjectHistory st' =
              (ProjectHistory st)(projectName \<mapsto> (case ProjectHistory st projectName of None \<Rightarrow> [] | Some h \<Rightarrow> h))"
    using res by (rule conjunct1)
  have b: "\<forall>t. r = Returns t \<longrightarrow>
            (\<exists>ts. ProjectHistory st' =
               (ProjectHistory st)(projectName \<mapsto> (case ProjectHistory st projectName of None \<Rightarrow> [] | Some h \<Rightarrow> h)
                                       @ ts @ [\<lparr>role = Model, parts = [TextPart t]\<rparr>]))"
  proof (intro allI impI)
    fix t assume "r = Returns t"
    with res [THEN conjunct2, THEN conjunct1] obtain ts where
      "ProjectHistory st' =
               (ProjectHistory st)(projectName \<mapsto> (case ProjectHistory st projectName of None \<Rightarrow> [] | Some h \<Rightarrow> h)
                                       @ ts @ [\<lparr>role = Model, parts = [TextPart t]\<rparr>])"
      by (elim allE impE exE conjE) simp_all
    then show "\<exists>ts. ProjectHistory st' =
               (ProjectHistory st)(projectName \<mapsto> (case ProjectHistory st projectName of None \<Rightarrow> [] | Some h \<Rightarrow> h)
                                       @ ts @ [\<lparr>role = Model, parts = [TextPart t]\<rparr>])" by (rule exI)
  qed
  from a b show ?thesis by (rule conjI)
qed
theorem failed_run_keeps_history_witness:
  "runAgent (mock_env always_overloaded (Returns [])) 2 ''add a footer'' (Some ''site'') False None earlier_sys
     = Some (Throws (Error ''503 Service Unavailable''),
             earlier_sys\<lparr>world := 3, trace := [FnInvoked, Slept 1000, FnInvoked, Slept 2000, FnInvoked]\<rparr>)
   \<and> ProjectHistory (earlier_sys\<lparr>world := 3, trace := [FnInvoked, Slept 1000, FnInvoked, Slept 2000, FnInvoked]\<rparr>)
       (Some ''site'')
     = Some [user_text ''a landing page'', \<lparr>role = Model, parts = [TextPart (Some ''Created'')]\<rparr>]"
proof -
  from failed_run_keeps_history [OF failing_run, THEN conjunct1, rule_format, of "Error ''503 Service Unavailable''"]
  have "ProjectHistory (earlier_sys\<lparr>world := 3, trace := [FnInvoked, Slept 1000, FnInvoked, Slept 2000, FnInvoked]\<rparr>)
       (Some ''site'')
     = Some [user_text ''a landing page'', \<lparr>role = Model, parts = [TextPart (Some ''Created'')]\<rparr>]"
    by (simp add: earlier_sys_def)
  with failing_run show ?thesis by (rule conjI)
qed

lemma get_prop_files_object:
  "get_prop (files_object files) k = (case map_of files k of None \<Rightarrow> JUndefined | Some v \<Rightarrow> JStr v)"
proof -
  have "map_of (map (\<lambda>(k, v). (k, JStr v)) files) k = map_option JStr (map_of files k)"
    by (induction files) auto
  then show ?thesis by (simp add: files_object_def split: option.split)
qed

lemma js_truthy_files_object:
  "js_truthy (get_prop (files_object files) k) = truthy (map_of files k)"
  by (simp add: get_prop_files_object split: option.split)

lemma readProjectFiles_seed:
  "readProjectFiles env (JObj [(''projectName'', JStr p)]) userId st =
     (case fst (readAllProjectFiles env (JStr p) userId (world st)) of
        Returns files \<Rightarrow>
          if files = [] then Returns (JStr (''Error: Project '' @ p @ '' not found or has no files''))
          else Returns (files_object files)
      | Throws error \<Rightarrow> Returns (JStr (''Error: '' @ show_undefined (message error))),
      st\<lparr>world := snd (readAllProjectFiles env (JStr p) userId (world st))\<rparr>)"
  by (simp add: readProjectFiles_def nullish_def ext_split Let_def split: outcome.split)

lemma context_turns_string: "context_turns pn (JStr m) = []"
  by (simp add: context_turns_def typeof_object_def)

lemma context_turns_files:
  "context_turns pn (files_object files) =
     (if truthy (map_of files ''error'') then []
      else user_text (update_context_message pn (files_object files))
           # (if truthy (map_of files ''style.css'') then [user_text (current_css_message (files_object files))]
              else []))"
  by (simp add: context_turns_def typeof_object_def js_truthy_files_object) (simp add: files_object_def)

lemma update_context_message_text:
  "update_context_message (Some p) (files_object files) =
     [CHR 0xF0, CHR 0x9F, CHR 0x9A, CHR 0xA8]
     @ '' UPDATE CONTEXT: I want to update the existing project '' @ [CHR 0x22] @ p @ [CHR 0x22]
     @ ''. Here are the current files:'' @ [CHR 0x0A, CHR 0x0A]
     @ ''HTML: '' @ (if truthy (map_of files ''index.html'') then ''Present'' else ''Missing'') @ [CHR 0x0A]
     @ ''CSS: '' @ (if truthy (map_of files ''style.css'') then ''Present'' else ''Missing'') @ [CHR 0x0A]
     @ ''JavaScript: '' @ (if truthy (map_of files ''script.js'') then ''Present'' else ''Missing'')
     @ [CHR 0x0A, CHR 0x0A]
     @ ''IMPORTANT: You MUST use the updateProjectFiles tool to modify these existing files. DO NOT use writeToFile. Make ONLY the requested changes while preserving everything else.''"
  by (simp add: update_context_message_def present_or_missing_def js_truthy_files_object
                siren_def dq_def nl_def)

lemma current_css_message_text:
  "map_of files ''style.css'' = Some css \<Longrightarrow>
   current_css_message (files_object files) =
     ''CURRENT CSS CONTENT:'' @ [CHR 0x0A] @ css @ [CHR 0x0A, CHR 0x0A]
     @ ''Please analyze this CSS and make ONLY the requested changes (like color changes from red to black) while keeping everything else exactly the same.''"
  by (simp add: current_css_message_def get_prop_files_object nl_def)

text \<open>
  C8. Seeding in update mode, for a non-empty project name. When the read of the
  project's files throws, finds no file, or yields an object with an \<^verbatim>\<open>error\<close> field, no
  context turn is added and the failure goes no further: only the world has moved. When
  it yields files, the summary turn is added, with the text given here character by
  character (project name, and \<^verbatim>\<open>Present\<close> or \<^verbatim>\<open>Missing\<close> for each of the three files),
  followed by a turn with the literal content of \<^verbatim>\<open>style.css\<close> exactly when that file is
  there with content. In every case the loop starts from the loaded history, the context
  turns and the user's request, in this order: a run that returns has stored a history
  that begins so, and when the backend answers that conversation with plain text, the
  run returns this text after one pass and stores the conversation followed by it.
\<close>

theorem update_seeding:
  assumes "projectName = Some p" "p \<noteq> []"
  shows
   "(let read = readAllProjectFiles env (JStr p) userId (world st);
         added =
           (case fst read of
              Throws e \<Rightarrow> []
            | Returns files \<Rightarrow>
                if files = [] \<or> truthy (map_of files ''error'') then []
                else \<lparr>role = User, parts = [TextPart (Some
                        ([CHR 0xF0, CHR 0x9F, CHR 0x9A, CHR 0xA8]
                         @ '' UPDATE CONTEXT: I want to update the existing project ''
                         @ [CHR 0x22] @ p @ [CHR 0x22]
                         @ ''. Here are the current files:'' @ [CHR 0x0A, CHR 0x0A]
                         @ ''HTML: '' @ (if truthy (map_of files ''index.html'') then ''Present'' else ''Missing'')
                         @ [CHR 0x0A]
                         @ ''CSS: '' @ (if truthy (map_of files ''style.css'') then ''Present'' else ''Missing'')
                         @ [CHR 0x0A]
                         @ ''JavaScript: '' @ (if truthy (map_of files ''script.js'') then ''Present'' else ''Missing'')
                         @ [CHR 0x0A, CHR 0x0A]
                         @ ''IMPORTANT: You MUST use the updateProjectFiles tool to modify these existing files. DO NOT use writeToFile. Make ONLY the requested changes while preserving everything else.''))]\<rparr>
                     # (case map_of files ''style.css'' of
                          None \<Rightarrow> []
                        | Some css \<Rightarrow>
                            if css = [] then []
                            else [\<lparr>role = User, parts = [TextPart (Some
                                    (''CURRENT CSS CONTENT:'' @ [CHR 0x0A] @ css @ [CHR 0x0A, CHR 0x0A]
                                     @ ''Please analyze this CSS and make ONLY the requested changes (like color changes from red to black) while keeping everything else exactly the same.''))]\<rparr>]));
         prior = (case ProjectHistory st projectName of None \<Rightarrow> [] | Some h \<Rightarrow> h);
         seeded = prior @ added @ [\<lparr>role = User, parts = [TextPart (Some userProblem)]\<rparr>]
     in seed_context env projectName True userId st = (added, st\<lparr>world := snd read\<rparr>)
      \<and> (\<forall>t st'. runAgent env fuel userProblem projectName True userId st = Some (Returns t, st') \<longrightarrow>
            (\<exists>ts. ProjectHistory st' projectName =
                    Some (seeded @ ts @ [\<lparr>role = Model, parts = [TextPart t]\<rparr>])))
      \<and> (\<forall>r w' t. generateContent env seeded True projectName (snd read) = (Returns r, w')
                   \<and> \<not> malformed r \<and> (functionCalls r = None \<or> functionCalls r = Some [])
                   \<and> extractResponseText r = Returns t \<longrightarrow>
            runAgent env (Suc fuel) userProblem projectName True userId st =
              Some (Returns t,
                    st\<lparr>world := w', trace := trace st @ [FnInvoked],
                       ProjectHistory := (ProjectHistory st)
                         (projectName \<mapsto> seeded @ [\<lparr>role = Model, parts = [TextPart t]\<rparr>])\<rparr>)))"
proof -
  let ?read = "readAllProjectFiles env (JStr p) userId (world st)"
  let ?summary = "\<lambda>files. \<lparr>role = User, parts = [TextPart (Some
                        ([CHR 0xF0, CHR 0x9F, CHR 0x9A, CHR 0xA8]
                         @ '' UPDATE CONTEXT: I want to update the existing project ''
                         @ [CHR 0x22] @ p @ [CHR 0x22]
                         @ ''. Here are the current files:'' @ [CHR 0x0A, CHR 0x0A]
                         @ ''HTML: '' @ (if truthy (map_of files ''index.html'') then ''Present'' else ''Missing'')
                         @ [CHR 0x0A]
                         @ ''CSS: '' @ (if truthy (map_of files ''style.css'') then ''Present'' else ''Missing'')
                         @ [CHR 0x0A]
                         @ ''JavaScript: '' @ (if truthy (map_of files ''script.js'') then ''Present'' else ''Missing'')
                         @ [CHR 0x0A, CHR 0x0A]
                         @ ''IMPORTANT: You MUST use the updateProjectFiles tool to modify these existing files. DO NOT use writeToFile. Make ONLY the requested changes while preserving everything else.''))]\<rparr>"
  let ?style = "\<lambda>files. case map_of files ''style.css'' of
                          None \<Rightarrow> []
                        | Some css \<Rightarrow>
                            if css = [] then []
                            else [\<lparr>role = User, parts = [TextPart (Some
                                    (''CURRENT CSS CONTENT:'' @ [CHR 0x0A] @ css @ [CHR 0x0A, CHR 0x0A]
                                     @ ''Please analyze this CSS and make ONLY the requested changes (like color changes from red to black) while keeping everything else exactly the same.''))]\<rparr>]"
  let ?added = "case fst ?read of
              Throws e \<Rightarrow> []
            | Returns files \<Rightarrow>
                if files = [] \<or> truthy (map_of files ''error'') then []
                else ?summary files # ?style files"
  let ?prior = "case ProjectHistory st projectName of None \<Rightarrow> [] | Some h \<Rightarrow> h"
  let ?request = "\<lparr>role = User, parts = [TextPart (Some userProblem)]\<rparr>"
  let ?seeded = "?prior @ ?added @ [?request]"
  have turns: "context_turns projectName (files_object files) =
                 (if truthy (map_of files ''error'') then [] else ?summary files # ?style files)" for files
  proof (cases "map_of files ''style.css''")
    case None
    then show ?thesis
      unfolding context_turns_files assms(1) user_text_turn update_context_message_text by simp
  next
    case (Some css)
    from current_css_message_text [OF Some] Some show ?thesis
      unfolding context_turns_files assms(1) user_text_turn update_context_message_text by simp
  qed
  have seed: "seed_context env projectName True userId s = (?added, s\<lparr>world := snd ?read\<rparr>)"
    if "world s = world st" for s
  proof (cases "fst ?read")
    case (Throws e)
    with assms that show ?thesis
      by (simp add: seed_context_def readProjectFiles_seed context_turns_string)
  next
    case (Returns files)
    show ?thesis
    proof (cases "files = []")
      case True
      with Returns assms that show ?thesis
        by (simp add: seed_context_def readProjectFiles_seed context_turns_string)
    next
      case False
      with Returns assms that have "seed_context env projectName True userId s =
          (context_turns projectName (files_object files), s\<lparr>world := snd ?read\<rparr>)"
        by (simp add: seed_context_def readProjectFiles_seed)
      with Returns False show ?thesis unfolding turns by simp
    qed
  qed
  obtain ph s0 where lh: "load_history projectName st = (ph, s0)" by (cases "load_history projectName st")
  from load_history_frame [OF lh] have l: "ph = ?prior" "ProjectHistory s0 = (ProjectHistory st)(projectName \<mapsto> ?prior)"
    "trace s0 = trace st" by simp_all
  from lh have w0: "world s0 = world st"
    by (cases "ProjectHistory st projectName") (auto simp: load_history_def)
  let ?s1 = "s0\<lparr>world := snd ?read\<rparr>"
  note sc = seed [OF w0]
  have run: "runAgent env n userProblem projectName True userId st =
               agent_loop env n projectName True userId ?seeded ?s1" for n
    using lh sc l(1) by (simp add: runAgent_def user_text_turn)
  have a: "seed_context env projectName True userId st = (?added, st\<lparr>world := snd ?read\<rparr>)"
    by (rule seed) simp
  have b: "\<exists>ts. ProjectHistory st' projectName = Some (?seeded @ ts @ [\<lparr>role = Model, parts = [TextPart t]\<rparr>])"
    if "runAgent env fuel userProblem projectName True userId st = Some (Returns t, st')" for t st'
  proof -
    from that have loop: "agent_loop env fuel projectName True userId ?seeded ?s1 = Some (Returns t, st')"
      unfolding run .
    from agent_loop_result [OF loop, THEN conjunct2, THEN conjunct1] obtain ts where
      "ProjectHistory st' = (ProjectHistory ?s1)(projectName \<mapsto> ?seeded @ ts @ [\<lparr>role = Model, parts = [TextPart t]\<rparr>])"
      by (elim allE impE exE conjE) simp_all
    then have "ProjectHistory st' projectName = Some (?seeded @ ts @ [\<lparr>role = Model, parts = [TextPart t]\<rparr>])"
      by simp
    then show ?thesis by (rule exI)
  qed
  have c: "runAgent env (Suc fuel) userProblem projectName True userId st =
              Some (Returns t,
                    st\<lparr>world := w', trace := trace st @ [FnInvoked],
                       ProjectHistory := (ProjectHistory st)
                         (projectName \<mapsto> ?seeded @ [\<lparr>role = Model, parts = [TextPart t]\<rparr>])\<rparr>)"
    if gen: "generateContent env ?seeded True projectName (snd ?read) = (Returns r, w')"
      and r: "\<not> malformed r" "functionCalls r = None \<or> functionCalls r = Some []"
             "extractResponseText r = Returns t" for r w' t
  proof -
    have final: "agent_step env projectName True userId ?seeded ?s1 =
           Finished (Returns t)
             (?s1\<lparr>world := w', trace := trace ?s1 @ [FnInvoked],
                 ProjectHistory := (ProjectHistory ?s1)(projectName \<mapsto> ?seeded @ [\<lparr>role = Model, parts = [TextPart t]\<rparr>])\<rparr>)"
      using step_final [of env ?seeded True projectName ?s1 r t userId] gen r by simp
    have same: "?s1\<lparr>world := w', trace := trace ?s1 @ [FnInvoked],
                 ProjectHistory := (ProjectHistory ?s1)(projectName \<mapsto> ?seeded @ [\<lparr>role = Model, parts = [TextPart t]\<rparr>])\<rparr>
              = st\<lparr>world := w', trace := trace st @ [FnInvoked],
                       ProjectHistory := (ProjectHistory st)
                         (projectName \<mapsto> ?seeded @ [\<lparr>role = Model, parts = [TextPart t]\<rparr>])\<rparr>"
      using l(2,3) by simp
    show ?thesis unfolding run using final same by simp
  qed
  have b': "\<forall>t st'. runAgent env fuel userProblem projectName True userId st = Some (Returns t, st') \<longrightarrow>
            (\<exists>ts. ProjectHistory st' projectName =
                    Some (?seeded @ ts @ [\<lparr>role = Model, parts = [TextPart t]\<rparr>]))"
    by (intro allI impI) (rule b)
  have c': "\<forall>r w' t. generateContent env ?seeded True projectName (snd ?read) = (Returns r, w')
                   \<and> \<not> malformed r \<and> (functionCalls r = None \<or> functionCalls r = Some [])
                   \<and> extractResponseText r = Returns t \<longrightarrow>
            runAgent env (Suc fuel) userProblem projectName True userId st =
              Some (Returns t,
                    st\<lparr>world := w', trace := trace st @ [FnInvoked],
                       ProjectHistory := (ProjectHistory st)
                         (projectName \<mapsto> ?seeded @ [\<lparr>role = Model, parts = [TextPart t]\<rparr>])\<rparr>)"
    by (intro allI impI, elim conjE) (rule c)
  from a b' c' show ?thesis unfolding Let_def by (intro conjI)
qed

theorem update_seeding_witness:
  "seed_context (mock_env (\<lambda>contents. Returns (text_response ''Updated'')) (Returns site_files))
       (Some ''site'') True None initial_sys
     = ([\<lparr>role = User, parts = [TextPart (Some
           ([CHR 0xF0, CHR 0x9F, CHR 0x9A, CHR 0xA8]
            @ '' UPDATE CONTEXT: I want to update the existing project '' @ [CHR 0x22] @ ''site'' @ [CHR 0x22]
            @ ''. Here are the current files:'' @ [CHR 0x0A, CHR 0x0A]
            @ ''HTML: Present'' @ [CHR 0x0A] @ ''CSS: Present'' @ [CHR 0x0A] @ ''JavaScript: Missing''
            @ [CHR 0x0A, CHR 0x0A]
            @ ''IMPORTANT: You MUST use the updateProjectFiles tool to modify these existing files. DO NOT use writeToFile. Make ONLY the requested changes while preserving everything else.''))]\<rparr>,
         \<lparr>role = User, parts = [TextPart (Some
           (''CURRENT CSS CONTENT:'' @ [CHR 0x0A] @ ''h1 { color: red; }'' @ [CHR 0x0A, CHR 0x0A]
            @ ''Please analyze this CSS and make ONLY the requested changes (like color changes from red to black) while keeping everything else exactly the same.''))]\<rparr>],
        initial_sys)
   \<and> runAgent (mock_env (\<lambda>contents. Returns (text_response ''Updated'')) (Returns site_files))
       (Suc 0) ''make it blue'' (Some ''site'') True None initial_sys
     = Some (Returns (Some ''Updated''),
         \<lparr>world = 1,
          ProjectHistory = [Some ''site'' \<mapsto>
            [\<lparr>role = User, parts = [TextPart (Some
               ([CHR 0xF0, CHR 0x9F, CHR 0x9A, CHR 0xA8]
                @ '' UPDATE CONTEXT: I want to update the existing project '' @ [CHR 0x22] @ ''site'' @ [CHR 0x22]
                @ ''. Here are the current files:'' @ [CHR 0x0A, CHR 0x0A]
                @ ''HTML: Present'' @ [CHR 0x0A] @ ''CSS: Present'' @ [CHR 0x0A] @ ''JavaScript: Missing''
                @ [CHR 0x0A, CHR 0x0A]
                @ ''IMPORTANT: You MUST use the updateProjectFiles tool to modify these existing files. DO NOT use writeToFile. Make ONLY the requested changes while preserving everything else.''))]\<rparr>,
             \<lparr>role = User, parts = [TextPart (Some
               (''CURRENT CSS CONTENT:'' @ [CHR 0x0A] @ ''h1 { color: red; }'' @ [CHR 0x0A, CHR 0x0A]
                @ ''Please analyze this CSS and make ONLY the requested changes (like color changes from red to black) while keeping everything else exactly the same.''))]\<rparr>,
             \<lparr>role = User, parts = [TextPart (Some ''make it blue'')]\<rparr>,
             \<lparr>role = Model, parts = [TextPart (Some ''Updated'')]\<rparr>]],
          trace = [FnInvoked]\<rparr>)
   \<and> seed_context (mock_env (\<lambda>contents. Returns (text_response ''Updated''))
                       (Throws (Error ''Supabase download error'')))
       (Some ''site'') True None initial_sys
     = ([], initial_sys)
   \<and> runAgent (mock_env (\<lambda>contents. Returns (text_response ''Updated''))
                   (Throws (Error ''Supabase download error'')))
       (Suc 0) ''make it blue'' (Some ''site'') True None initial_sys
     = Some (Returns (Some ''Updated''),
         \<lparr>world = 1,
          ProjectHistory = [Some ''site'' \<mapsto>
            [\<lparr>role = User, parts = [TextPart (Some ''make it blue'')]\<rparr>,
             \<lparr>role = Model, parts = [TextPart (Some ''Updated'')]\<rparr>]],
          trace = [FnInvoked]\<rparr>)
   \<and> (\<exists>ts. ProjectHistory
               \<lparr>world = 1,
                ProjectHistory = [Some ''site'' \<mapsto>
                  [\<lparr>role = User, parts = [TextPart (Some ''make it blue'')]\<rparr>,
                   \<lparr>role = Model, parts = [TextPart (Some ''Updated'')]\<rparr>]],
                trace = [FnInvoked]\<rparr> (Some ''site'')
             = Some ([\<lparr>role = User, parts = [TextPart (Some ''make it blue'')]\<rparr>] @ ts
                     @ [\<lparr>role = Model, parts = [TextPart (Some ''Updated'')]\<rparr>]))"
proof -
  let ?present = "mock_env (\<lambda>contents. Returns (text_response ''Updated'')) (Returns site_files)"
  let ?failing = "mock_env (\<lambda>contents. Returns (text_response ''Updated''))
                    (Throws (Error ''Supabase download error''))"
  have name: "Some ''site'' = Some ''site''" "''site'' \<noteq> []" by simp_all
  have plain: "\<not> malformed (text_response ''Updated'')"
    "functionCalls (text_response ''Updated'') = None \<or> functionCalls (text_response ''Updated'') = Some []"
    "extractResponseText (text_response ''Updated'') = Returns (Some ''Updated'')"
    by (simp_all add: malformed_def text_response_def extractResponseText_def)
  note present = update_seeding [OF name, where env = ?present and userId = None and st = initial_sys
                                   and userProblem = "''make it blue''" and fuel = 0, unfolded Let_def]
  note failing = update_seeding [OF name, where env = ?failing and userId = None and st = initial_sys
                                   and userProblem = "''make it blue''" and fuel = 0, unfolded Let_def]
  have p1: "seed_context ?present (Some ''site'') True None initial_sys
     = ([\<lparr>role = User, parts = [TextPart (Some
           ([CHR 0xF0, CHR 0x9F, CHR 0x9A, CHR 0xA8]
            @ '' UPDATE CONTEXT: I want to update the existing project '' @ [CHR 0x22] @ ''site'' @ [CHR 0x22]
            @ ''. Here are the current files:'' @ [CHR 0x0A, CHR 0x0A]
            @ ''HTML: Present'' @ [CHR 0x0A] @ ''CSS: Present'' @ [CHR 0x0A] @ ''JavaScript: Missing''
            @ [CHR 0x0A, CHR 0x0A]
            @ ''IMPORTANT: You MUST use the updateProjectFiles tool to modify these existing files. DO NOT use writeToFile. Make ONLY the requested changes while preserving everything else.''))]\<rparr>,
         \<lparr>role = User, parts = [TextPart (Some
           (''CURRENT CSS CONTENT:'' @ [CHR 0x0A] @ ''h1 { color: red; }'' @ [CHR 0x0A, CHR 0x0A]
            @ ''Please analyze this CSS and make ONLY the requested changes (like color changes from red to black) while keeping everything else exactly the same.''))]\<rparr>],
        initial_sys)"
    using present [THEN conjunct1] by (simp add: mock_env_def site_files_def initial_sys_def)
  have p2: "runAgent ?present (Suc 0) ''make it blue'' (Some ''site'') True None initial_sys
     = Some (Returns (Some ''Updated''),
         \<lparr>world = 1,
          ProjectHistory = [Some ''site'' \<mapsto>
            [\<lparr>role = User, parts = [TextPart (Some
               ([CHR 0xF0, CHR 0x9F, CHR 0x9A, CHR 0xA8]
                @ '' UPDATE CONTEXT: I want to update the existing project '' @ [CHR 0x22] @ ''site'' @ [CHR 0x22]
                @ ''. Here are the current files:'' @ [CHR 0x0A, CHR 0x0A]
                @ ''HTML: Present'' @ [CHR 0x0A] @ ''CSS: Present'' @ [CHR 0x0A] @ ''JavaScript: Missing''
                @ [CHR 0x0A, CHR 0x0A]
                @ ''IMPORTANT: You MUST use the updateProjectFiles tool to modify these existing files. DO NOT use writeToFile. Make ONLY the requested changes while preserving everything else.''))]\<rparr>,
             \<lparr>role = User, parts = [TextPart (Some
               (''CURRENT CSS CONTENT:'' @ [CHR 0x0A] @ ''h1 { color: red; }'' @ [CHR 0x0A, CHR 0x0A]
                @ ''Please analyze this CSS and make ONLY the requested changes (like color changes from red to black) while keeping everything else exactly the same.''))]\<rparr>,
             \<lparr>role = User, parts = [TextPart (Some ''make it blue'')]\<rparr>,
             \<lparr>role = Model, parts = [TextPart (Some ''Updated'')]\<rparr>]],
          trace = [FnInvoked]\<rparr>)"
    using present [THEN conjunct2, THEN conjunct2, rule_format,
                   of "text_response ''Updated''" 1 "Some ''Updated''"] plain
    by (simp add: mock_env_def site_files_def initial_sys_def)
  have f1: "seed_context ?failing (Some ''site'') True None initial_sys = ([], initial_sys)"
    using failing [THEN conjunct1] by (simp add: mock_env_def initial_sys_def)
  have f2: "runAgent ?failing (Suc 0) ''make it blue'' (Some ''site'') True None initial_sys
     = Some (Returns (Some ''Updated''),
         \<lparr>world = 1,
          ProjectHistory = [Some ''site'' \<mapsto>
            [\<lparr>role = User, parts = [TextPart (Some ''make it blue'')]\<rparr>,
             \<lparr>role = Model, parts = [TextPart (Some ''Updated'')]\<rparr>]],
          trace = [FnInvoked]\<rparr>)"
    using failing [THEN conjunct2, THEN conjunct2, rule_format,
                   of "text_response ''Updated''" 1 "Some ''Updated''"] plain
    by (simp add: mock_env_def initial_sys_def)
  note returned = update_seeding [OF name, where env = ?failing and userId = None and st = initial_sys
                                    and userProblem = "''make it blue''" and fuel = "Suc 0", unfolded Let_def]
  have f3: "\<exists>ts. ProjectHistory
               \<lparr>world = 1,
                ProjectHistory = [Some ''site'' \<mapsto>
                  [\<lparr>role = User, parts = [TextPart (Some ''make it blue'')]\<rparr>,
                   \<lparr>role = Model, parts = [TextPart (Some ''Updated'')]\<rparr>]],
                trace = [FnInvoked]\<rparr> (Some ''site'')
             = Some ([\<lparr>role = User, parts = [TextPart (Some ''make it blue'')]\<rparr>] @ ts
                     @ [\<lparr>role = Model, parts = [TextPart (Some ''Updated'')]\<rparr>])"
    using returned [THEN conjunct2, THEN conjunct1, rule_format, OF f2]
    by (simp add: mock_env_def initial_sys_def)
  from p1 p2 f1 f2 f3 show ?thesis by (intro conjI)
qed

text \<open>
  C4. When the backend's first response is flagged \<^verbatim>\<open>MALFORMED_FUNCTION_CALL\<close> and its
  second is the plain text \<^verbatim>\<open>ok\<close>, the first pass appends one user turn, whose text is
  the correction for a malformed call, given here character by character with the
  project name in its three paths, and calls the backend once; a run with fuel for two
  passes returns \<^verbatim>\<open>ok\<close>; the stored history is the seeded one followed by exactly that
  turn and the model's text; and the backend was invoked once per pass, with no backoff
  sleep.
\<close>

theorem malformed_recovery:
  assumes seeded: "load_history pn st = (ph, s0)" "seed_context env pn upd uid s0 = (ctx, s1)"
    and h1: "h1 = ph @ ctx @ [\<lparr>role = User, parts = [TextPart (Some problem)]\<rparr>]"
    and correction: "correction =
           \<lparr>role = User, parts = [TextPart (Some
              ([CHR 0xF0, CHR 0x9F, CHR 0x9A, CHR 0xA8]
               @ '' ERROR: Your last function call was malformed. Please follow these rules EXACTLY:''
               @ [CHR 0x0A, CHR 0x0A]
               @ ''1. For writeToFile, the filePath MUST be in this exact format:'' @ [CHR 0x0A]
               @ ''   - '' @ [CHR 0x22] @ ''projects/'' @ (case pn of None \<Rightarrow> ''null'' | Some p \<Rightarrow> p)
               @ ''/index.html'' @ [CHR 0x22, CHR 0x0A]
               @ ''   - '' @ [CHR 0x22] @ ''projects/'' @ (case pn of None \<Rightarrow> ''null'' | Some p \<Rightarrow> p)
               @ ''/style.css'' @ [CHR 0x22, CHR 0x0A]
               @ ''   - '' @ [CHR 0x22] @ ''projects/'' @ (case pn of None \<Rightarrow> ''null'' | Some p \<Rightarrow> p)
               @ ''/script.js'' @ [CHR 0x22, CHR 0x0A, CHR 0x0A]
               @ ''2. Make sure all required parameters are provided correctly'' @ [CHR 0x0A]
               @ ''3. Use valid JSON format for all arguments'' @ [CHR 0x0A]
               @ ''4. Do NOT add extra fields or modify the function signature'' @ [CHR 0x0A, CHR 0x0A]
               @ ''Please try again with the correct format.''))]\<rparr>"
    and g1: "generateContent env h1 upd pn (world s1) = (Returns r1, w1)" "malformed r1"
    and g2: "generateContent env (h1 @ [correction]) upd pn w1 = (Returns r2, w2)"
            "\<not> malformed r2" "functionCalls r2 = None \<or> functionCalls r2 = Some []"
            "resp_text r2 = Some ''ok''"
  shows "agent_step env pn upd uid h1 s1 =
           Continue (h1 @ [correction]) (s1\<lparr>world := w1, trace := trace st @ [FnInvoked]\<rparr>)
       \<and> runAgent env (Suc (Suc fuel)) problem pn upd uid st =
           Some (Returns (Some ''ok''),
                 s1\<lparr>world := w2, trace := trace st @ [FnInvoked, FnInvoked],
                    ProjectHistory := (ProjectHistory st)
                      (pn \<mapsto> h1 @ [correction, \<lparr>role = Model, parts = [TextPart (Some ''ok'')]\<rparr>])\<rparr>)"
proof -
  let ?s2 = "s1\<lparr>world := w1, trace := trace s1 @ [FnInvoked]\<rparr>"
  let ?h2 = "h1 @ [correction]"
  have c: "correction = user_text (malformed_message pn)"
    unfolding correction by (simp add: user_text_turn malformed_message_text)
  have h1': "h1 = ph @ ctx @ [user_text problem]"
    unfolding h1 by (simp add: user_text_turn)
  from load_history_frame [OF seeded(1)] seed_context_frame [OF seeded(2)]
  have fr: "ProjectHistory s1 = (ProjectHistory st)(pn \<mapsto> ph)" "trace s1 = trace st" by simp_all
  have first: "agent_step env pn upd uid h1 s1 = Continue ?h2 ?s2"
    using step_malformed [of env h1 upd pn s1 r1 uid] g1 c by simp
  have answer: "extractResponseText r2 = Returns (Some ''ok'')"
    using g2(4) by (simp add: extractResponseText_def)
  have second: "agent_step env pn upd uid ?h2 ?s2 =
      Finished (Returns (Some ''ok''))
        (?s2\<lparr>world := w2, trace := trace ?s2 @ [FnInvoked],
              ProjectHistory := (ProjectHistory ?s2)(pn \<mapsto> ?h2 @ [\<lparr>role = Model, parts = [TextPart (Some ''ok'')]\<rparr>])\<rparr>)"
    using step_final [of env ?h2 upd pn ?s2 r2 "Some ''ok''" uid] g2(1,2,3) answer by simp
  have "runAgent env (Suc (Suc fuel)) problem pn upd uid st =
          agent_loop env (Suc (Suc fuel)) pn upd uid h1 s1"
    using seeded h1' by (simp add: runAgent_def)
  also have "\<dots> = agent_loop env (Suc fuel) pn upd uid ?h2 ?s2"
    using first by simp
  also have "\<dots> = Some (Returns (Some ''ok''),
        ?s2\<lparr>world := w2, trace := trace ?s2 @ [FnInvoked],
              ProjectHistory := (ProjectHistory ?s2)(pn \<mapsto> ?h2 @ [\<lparr>role = Model, parts = [TextPart (Some ''ok'')]\<rparr>])\<rparr>)"
    using second by simp
  finally have run: "runAgent env (Suc (Suc fuel)) problem pn upd uid st =
           Some (Returns (Some ''ok''),
                 s1\<lparr>world := w2, trace := trace st @ [FnInvoked, FnInvoked],
                    ProjectHistory := (ProjectHistory st)
                      (pn \<mapsto> h1 @ [correction, \<lparr>role = Model, parts = [TextPart (Some ''ok'')]\<rparr>])\<rparr>)"
    using fr by simp
  from first fr(2) have "agent_step env pn upd uid h1 s1 =
           Continue (h1 @ [correction]) (s1\<lparr>world := w1, trace := trace st @ [FnInvoked]\<rparr>)"
    by simp
  with run show ?thesis by (intro conjI)
qed

theorem malformed_recovery_witness:
  "runAgent (mock_env malformed_script (Returns [])) (Suc (Suc 0)) ''a blog'' (Some ''blog'') False None initial_sys
     = Some (Returns (Some ''ok''),
             \<lparr>world = 2,
              ProjectHistory = [Some ''blog'' \<mapsto>
                 [\<lparr>role = User, parts = [TextPart (Some ''a blog'')]\<rparr>,
                  \<lparr>role = User, parts = [TextPart (Some
                     ([CHR 0xF0, CHR 0x9F, CHR 0x9A, CHR 0xA8]
                      @ '' ERROR: Your last function call was malformed. Please follow these rules EXACTLY:''
                      @ [CHR 0x0A, CHR 0x0A]
                      @ ''1. For writeToFile, the filePath MUST be in this exact format:'' @ [CHR 0x0A]
                      @ ''   - '' @ [CHR 0x22] @ ''projects/blog/index.html'' @ [CHR 0x22, CHR 0x0A]
                      @ ''   - '' @ [CHR 0x22] @ ''projects/blog/style.css'' @ [CHR 0x22, CHR 0x0A]
                      @ ''   - '' @ [CHR 0x22] @ ''projects/blog/script.js'' @ [CHR 0x22, CHR 0x0A, CHR 0x0A]
                      @ ''2. Make sure all required parameters are provided correctly'' @ [CHR 0x0A]
                      @ ''3. Use valid JSON format for all arguments'' @ [CHR 0x0A]
                      @ ''4. Do NOT add extra fields or modify the function signature'' @ [CHR 0x0A, CHR 0x0A]
                      @ ''Please try again with the correct format.''))]\<rparr>,
                  \<lparr>role = Model, parts = [TextPart (Some ''ok'')]\<rparr>]],
              trace = [FnInvoked, FnInvoked]\<rparr>)"
proof -
  let ?env = "mock_env malformed_script (Returns [])"
  let ?s0 = "initial_sys\<lparr>ProjectHistory := [Some ''blog'' \<mapsto> []]\<rparr>"
  let ?request = "\<lparr>role = User, parts = [TextPart (Some ''a blog'')]\<rparr>"
  let ?correction = "\<lparr>role = User, parts = [TextPart (Some
              ([CHR 0xF0, CHR 0x9F, CHR 0x9A, CHR 0xA8]
               @ '' ERROR: Your last function call was malformed. Please follow these rules EXACTLY:''
               @ [CHR 0x0A, CHR 0x0A]
               @ ''1. For writeToFile, the filePath MUST be in this exact format:'' @ [CHR 0x0A]
               @ ''   - '' @ [CHR 0x22] @ ''projects/'' @ (case Some ''blog'' of None \<Rightarrow> ''null'' | Some p \<Rightarrow> p)
               @ ''/index.html'' @ [CHR 0x22, CHR 0x0A]
               @ ''   - '' @ [CHR 0x22] @ ''projects/'' @ (case Some ''blog'' of None \<Rightarrow> ''null'' | Some p \<Rightarrow> p)
               @ ''/style.css'' @ [CHR 0x22, CHR 0x0A]
               @ ''   - '' @ [CHR 0x22] @ ''projects/'' @ (case Some ''blog'' of None \<Rightarrow> ''null'' | Some p \<Rightarrow> p)
               @ ''/script.js'' @ [CHR 0x22, CHR 0x0A, CHR 0x0A]
               @ ''2. Make sure all required parameters are provided correctly'' @ [CHR 0x0A]
               @ ''3. Use valid JSON format for all arguments'' @ [CHR 0x0A]
               @ ''4. Do NOT add extra fields or modify the function signature'' @ [CHR 0x0A, CHR 0x0A]
               @ ''Please try again with the correct format.''))]\<rparr>"
  have lh: "load_history (Some ''blog'') initial_sys = ([], ?s0)"
    by (simp add: load_history_def initial_sys_def)
  have sc: "seed_context ?env (Some ''blog'') False None ?s0 = ([], ?s0)"
    by (simp add: seed_context_def)
  have h1: "[?request] = [] @ [] @ [?request]" by simp
  have g1: "generateContent ?env [?request] False (Some ''blog'') (world ?s0)
              = (Returns malformed_response, 1)"
    by (simp add: mock_env_def malformed_script_def initial_sys_def)
  have m1: "malformed malformed_response"
    by (simp add: malformed_def malformed_response_def)
  have g2: "generateContent ?env ([?request] @ [?correction]) False (Some ''blog'') 1
              = (Returns (text_response ''ok''), 2)"
    by (simp add: mock_env_def malformed_script_def)
  have m2: "\<not> malformed (text_response ''ok'')"
    "functionCalls (text_response ''ok'') = None \<or> functionCalls (text_response ''ok'') = Some []"
    "resp_text (text_response ''ok'') = Some ''ok''"
    by (simp_all add: malformed_def text_response_def)
  from malformed_recovery [OF lh sc h1 refl g1 m1 g2 m2, where fuel = 0, THEN conjunct2]
  show ?thesis by (simp add: initial_sys_def)
qed

text \<open>
  C5. A create-mode run on a project without history, with a backend whose responses
  to the conversations of length 1, 3 and 5 request \<^verbatim>\<open>writeToFile\<close> (with an object as
  arguments) and whose response to the one of length 7 is the text \<^verbatim>\<open>Done\<close>, returns
  \<^verbatim>\<open>Done\<close> and stores exactly 8 turns: the request, three pairs of tool call and tool
  result, and the final text. The storage may behave in any way: the handler turns its
  failures into result texts.
\<close>

theorem happy_path_create:
  assumes empty: "ProjectHistory st pn = None \<or> ProjectHistory st pn = Some []"
    and g1: "\<And>h w. length h = 1 \<Longrightarrow> fst (generateContent env h False pn w) = Returns r1"
    and g2: "\<And>h w. length h = 3 \<Longrightarrow> fst (generateContent env h False pn w) = Returns r2"
    and g3: "\<And>h w. length h = 5 \<Longrightarrow> fst (generateContent env h False pn w) = Returns r3"
    and g4: "\<And>h w. length h = 7 \<Longrightarrow> fst (generateContent env h False pn w) = Returns r4"
    and c1: "\<not> malformed r1" "functionCalls r1 = Some (FunctionCall ''writeToFile'' a1 # fcs1)" "\<not> nullish a1"
    and c2: "\<not> malformed r2" "functionCalls r2 = Some (FunctionCall ''writeToFile'' a2 # fcs2)" "\<not> nullish a2"
    and c3: "\<not> malformed r3" "functionCalls r3 = Some (FunctionCall ''writeToFile'' a3 # fcs3)" "\<not> nullish a3"
    and c4: "\<not> malformed r4" "functionCalls r4 = None \<or> functionCalls r4 = Some []" "resp_text r4 = Some ''Done''"
  shows "\<exists>m1 m2 m3 st' h.
           runAgent env (Suc (Suc (Suc (Suc fuel)))) problem pn False uid st = Some (Returns (Some ''Done''), st')
           \<and> ProjectHistory st' pn = Some h \<and> length h = 8
           \<and> h = [user_text problem,
                  \<lparr>role = Model, parts = [FunctionCallPart (FunctionCall ''writeToFile'' a1)]\<rparr>,
                  \<lparr>role = User, parts = [FunctionResponsePart ''writeToFile'' (JStr m1)]\<rparr>,
                  \<lparr>role = Model, parts = [FunctionCallPart (FunctionCall ''writeToFile'' a2)]\<rparr>,
                  \<lparr>role = User, parts = [FunctionResponsePart ''writeToFile'' (JStr m2)]\<rparr>,
                  \<lparr>role = Model, parts = [FunctionCallPart (FunctionCall ''writeToFile'' a3)]\<rparr>,
                  \<lparr>role = User, parts = [FunctionResponsePart ''writeToFile'' (JStr m3)]\<rparr>,
                  \<lparr>role = Model, parts = [TextPart (Some ''Done'')]\<rparr>]"
proof -
  let ?call = "\<lambda>a. \<lparr>role = Model, parts = [FunctionCallPart (FunctionCall ''writeToFile'' a)]\<rparr>"
  let ?res = "\<lambda>m. \<lparr>role = User, parts = [FunctionResponsePart ''writeToFile'' (JStr m)]\<rparr>"
  let ?s0 = "snd (load_history pn st)"
  let ?h1 = "[user_text problem]"
  have start: "runAgent env (Suc (Suc (Suc (Suc fuel)))) problem pn False uid st
                 = agent_loop env (Suc (Suc (Suc (Suc fuel)))) pn False uid ?h1 ?s0"
    using empty by (auto simp: runAgent_def load_history_def seed_context_def)
  from write_step [of env ?h1 pn r1 a1 fcs1 uid ?s0] g1 c1
  obtain m1 s1 where st1: "agent_step env pn False uid ?h1 ?s0 = Continue (?h1 @ [?call a1, ?res m1]) s1"
    by auto
  let ?h2 = "?h1 @ [?call a1, ?res m1]"
  from write_step [of env ?h2 pn r2 a2 fcs2 uid s1] g2 c2
  obtain m2 s2 where st2: "agent_step env pn False uid ?h2 s1 = Continue (?h2 @ [?call a2, ?res m2]) s2"
    by auto
  let ?h3 = "?h2 @ [?call a2, ?res m2]"
  from write_step [of env ?h3 pn r3 a3 fcs3 uid s2] g3 c3
  obtain m3 s3 where st3: "agent_step env pn False uid ?h3 s2 = Continue (?h3 @ [?call a3, ?res m3]) s3"
    by auto
  let ?h4 = "?h3 @ [?call a3, ?res m3]"
  let ?s4 = "s3\<lparr>world := snd (generateContent env ?h4 False pn (world s3)), trace := trace s3 @ [FnInvoked],
                 ProjectHistory := (ProjectHistory s3)(pn \<mapsto> ?h4 @ [\<lparr>role = Model, parts = [TextPart (Some ''Done'')]\<rparr>])\<rparr>"
  have answer: "extractResponseText r4 = Returns (Some ''Done'')"
    using c4(3) by (simp add: extractResponseText_def)
  have st4: "agent_step env pn False uid ?h4 s3 = Finished (Returns (Some ''Done'')) ?s4"
    by (rule step_final [of env ?h4 False pn s3 r4]) (simp_all add: g4 c4 answer)
  have "runAgent env (Suc (Suc (Suc (Suc fuel)))) problem pn False uid st = Some (Returns (Some ''Done''), ?s4)"
    unfolding start using st1 st2 st3 st4 by simp
  moreover have "ProjectHistory ?s4 pn = Some (?h4 @ [\<lparr>role = Model, parts = [TextPart (Some ''Done'')]\<rparr>])"
    by simp
  ultimately show ?thesis
    by (intro exI [of _ m1] exI [of _ m2] exI [of _ m3] exI [of _ ?s4]
              exI [of _ "?h4 @ [\<lparr>role = Model, parts = [TextPart (Some ''Done'')]\<rparr>]"]) simp
qed

theorem happy_path_create_witness:
  "\<exists>m1 m2 m3 st'.
     runAgent (mock_env create_script (Returns [])) 4 ''a portfolio site'' (Some ''proj1'') False (Some ''user1'')
       initial_sys = Some (Returns (Some ''Done''), st')
     \<and> ProjectHistory st' (Some ''proj1'') =
         Some [user_text ''a portfolio site'',
               \<lparr>role = Model, parts = [FunctionCallPart (FunctionCall ''writeToFile'' (write_args ''index.html''))]\<rparr>,
               \<lparr>role = User, parts = [FunctionResponsePart ''writeToFile'' (JStr m1)]\<rparr>,
               \<lparr>role = Model, parts = [FunctionCallPart (FunctionCall ''writeToFile'' (write_args ''style.css''))]\<rparr>,
               \<lparr>role = User, parts = [FunctionResponsePart ''writeToFile'' (JStr m2)]\<rparr>,
               \<lparr>role = Model, parts = [FunctionCallPart (FunctionCall ''writeToFile'' (write_args ''script.js''))]\<rparr>,
               \<lparr>role = User, parts = [FunctionResponsePart ''writeToFile'' (JStr m3)]\<rparr>,
               \<lparr>role = Model, parts = [TextPart (Some ''Done'')]\<rparr>]"
proof -
  let ?env = "mock_env create_script (Returns [])"
  have "\<exists>m1 m2 m3 st' h.
           runAgent ?env (Suc (Suc (Suc (Suc 0)))) ''a portfolio site'' (Some ''proj1'') False (Some ''user1'') initial_sys
             = Some (Returns (Some ''Done''), st')
           \<and> ProjectHistory st' (Some ''proj1'') = Some h \<and> length h = 8
           \<and> h = [user_text ''a portfolio site'',
               \<lparr>role = Model, parts = [FunctionCallPart (FunctionCall ''writeToFile'' (write_args ''index.html''))]\<rparr>,
               \<lparr>role = User, parts = [FunctionResponsePart ''writeToFile'' (JStr m1)]\<rparr>,
               \<lparr>role = Model, parts = [FunctionCallPart (FunctionCall ''writeToFile'' (write_args ''style.css''))]\<rparr>,
               \<lparr>role = User, parts = [FunctionResponsePart ''writeToFile'' (JStr m2)]\<rparr>,
               \<lparr>role = Model, parts = [FunctionCallPart (FunctionCall ''writeToFile'' (write_args ''script.js''))]\<rparr>,
               \<lparr>role = User, parts = [FunctionResponsePart ''writeToFile'' (JStr m3)]\<rparr>,
               \<lparr>role = Model, parts = [TextPart (Some ''Done'')]\<rparr>]"
    by (rule happy_path_create [where env = ?env and st = initial_sys and fuel = 0
            and ?r1.0 = "tool_response ''writeToFile'' (write_args ''index.html'')"
            and ?r2.0 = "tool_response ''writeToFile'' (write_args ''style.css'')"
            and ?r3.0 = "tool_response ''writeToFile'' (write_args ''script.js'')"
            and ?r4.0 = "text_response ''Done''" and ?fcs1.0 = "[]" and ?fcs2.0 = "[]" and ?fcs3.0 = "[]"])
       (simp_all add: mock_env_def create_script_def initial_sys_def nullish_def write_args_def
                      tool_response_def text_response_def malformed_def)
  then
  obtain m1 m2 m3 st' h where
    run: "runAgent ?env (Suc (Suc (Suc (Suc 0)))) ''a portfolio site'' (Some ''proj1'') False (Some ''user1'') initial_sys
           = Some (Returns (Some ''Done''), st')"
    and stored: "ProjectHistory st' (Some ''proj1'') = Some h"
    and h: "h = [user_text ''a portfolio site'',
               \<lparr>role = Model, parts = [FunctionCallPart (FunctionCall ''writeToFile'' (write_args ''index.html''))]\<rparr>,
               \<lparr>role = User, parts = [FunctionResponsePart ''writeToFile'' (JStr m1)]\<rparr>,
               \<lparr>role = Model, parts = [FunctionCallPart (FunctionCall ''writeToFile'' (write_args ''style.css''))]\<rparr>,
               \<lparr>role = User, parts = [FunctionResponsePart ''writeToFile'' (JStr m2)]\<rparr>,
               \<lparr>role = Model, parts = [FunctionCallPart (FunctionCall ''writeToFile'' (write_args ''script.js''))]\<rparr>,
               \<lparr>role = User, parts = [FunctionResponsePart ''writeToFile'' (JStr m3)]\<rparr>,
               \<lparr>role = Model, parts = [TextPart (Some ''Done'')]\<rparr>]"
    by (elim exE conjE)
  have four: "(4::nat) = Suc (Suc (Suc (Suc 0)))" by simp
  from run stored h show ?thesis
    unfolding four by (intro exI [of _ m1] exI [of _ m2] exI [of _ m3] exI [of _ st'] conjI) simp_all
qed

section \<open>The chat session store\<close>

lemmas chat_defs =
  chat_handler_def handleChatMessage_def extractProjectName_def first_pattern_match.simps
  match_pattern.simps match_here_def updatePatterns_def toLowerCase_def lower_char_def in_range_def
  charCode_def is_space_def is_name_char_def create_intent_def extractResponseText_def
  alloc_def push_def array_at_def chat_ext_def slice_last_def stored_session_def
  chat_mock_env_def say_def Let_def

lemma hello_not_project: "extractProjectName ''hello'' [] = None"
  by (simp add: chat_defs)

lemma update_foo_project: "extractProjectName ''update foo'' [] = Some ''foo''"
  by (simp add: chat_defs)

text \<open>
  C6. The cap of 20 entries does not hold after every request. After ten exchanges
  the stored array has 20 entries; a next message that names a project the user does
  not have is pushed onto that stored array, and the handler returns before it
  truncates: 21 entries stay stored.
\<close>

theorem chat_session_exceeds_cap:
  "map_option length
     (stored_session (chat_requests chat_mock_env (ten_greetings @ [say ''update foo'']) chat_initial) ''u1'')
   = Some 21"
  by (simp add: ten_greetings_def chat_initial_def chat_handler_def handleChatMessage_def
        hello_not_project update_foo_project create_intent_def toLowerCase_def lower_char_def in_range_def
        charCode_def extractResponseText_def
        alloc_def push_def array_at_def chat_ext_def slice_last_def stored_session_def
        chat_mock_env_def say_def Let_def)

text \<open>
  On the path that reaches the reply the truncation is done: an eleventh exchange
  leaves the 20 most recent of the 22 entries, in order.
\<close>

lemma chat_session_evicts_oldest:
  "stored_session (chat_requests chat_mock_env (ten_greetings @ [say ''hello'']) chat_initial) ''u1''
   = Some (drop 2 (the (stored_session (chat_requests chat_mock_env ten_greetings chat_initial) ''u1'')
                   @ [\<lparr>msg_role = User, msg_content = Some ''hello''\<rparr>,
                      \<lparr>msg_role = Model, msg_content = Some ''Sure''\<rparr>]))"
  by (simp add: ten_greetings_def chat_initial_def chat_handler_def handleChatMessage_def
        hello_not_project create_intent_def toLowerCase_def lower_char_def in_range_def
        charCode_def extractResponseText_def
        alloc_def push_def array_at_def chat_ext_def slice_last_def stored_session_def
        chat_mock_env_def say_def Let_def)

end
